theory Spec2Isabelle
  imports Main "HOL-Library.Word"
begin

section \<open>Object types of the driver (dpiObjectType.c)\<close>

text \<open>
  The file under verification is \<^verbatim>\<open>src/dpiObjectType.c\<close>. Its functions are embedded
  as state transformers over an explicit store of reference-counted handles. Everything
  the file calls but does not define (the generic handle registry \<^verbatim>\<open>dpiGen__*\<close>, the
  native client library \<^verbatim>\<open>dpiOci__*\<close>, \<^verbatim>\<open>dpiObject__allocate\<close>, ...) answers through an
  oracle: a record of functions that says, for the n-th external call of a run, whether
  the call fails and which value it yields. A theorem quantified over the oracle holds
  under every schedule of injected failures.
\<close>

subsection \<open>Data model\<close>

type_synonym handle = nat

text \<open>The kinds of managed resources (the type tags of the handle registry).\<close>

datatype htype = DPI_HTYPE_CONN | DPI_HTYPE_OBJECT_TYPE | DPI_HTYPE_OBJECT_ATTR | DPI_HTYPE_OBJECT

datatype dpi_error = InvalidHandle | NullPointerParameter | AllocationError
  | DPI_ERR_ARRAY_SIZE_TOO_SMALL | ExternalServiceError

text \<open>The attribute selectors that the file passes to the native library.\<close>

datatype oci_attr = DPI_OCI_ATTR_SCHEMA_NAME | DPI_OCI_ATTR_REF_TDO | DPI_OCI_ATTR_PARAM
  | DPI_OCI_ATTR_TYPECODE | DPI_OCI_ATTR_NUM_TYPE_ATTRS | DPI_OCI_ATTR_COLLECTION_ELEMENT
  | DPI_OCI_ATTR_LIST_TYPE_ATTRS | NameAttribute "32 word"

text \<open>\<^verbatim>\<open>dpiDataTypeInfo\<close>: zeroed storage is \<open>oracleTypeNum = 0\<close>, \<open>objectType = NULL\<close>.\<close>

record dpiDataTypeInfo =
  oracleTypeNum :: nat
  objectType :: "handle option"

record dpiObjectType =
  conn :: "handle option"
  tdo :: "nat option"
  typeCode :: "16 word"
  numAttributes :: "16 word"
  isCollection :: bool
  elementTypeInfo :: dpiDataTypeInfo
  schema :: "string option"
  schemaLength :: nat
  name :: "string option"
  nameLength :: nat

record dpiObject =
  obj_type :: "handle option"
  obj_instance :: "nat option"
  obj_indicator :: "nat option"

text \<open>
  An attribute descriptor: the type it belongs to and the attribute sub-parameter it was
  materialized from (which stands for the name and type information read from it).
\<close>

record dpiObjectAttr =
  attr_belongsTo :: "handle option"
  attr_source :: "nat option"

text \<open>\<^verbatim>\<open>dpiObjectTypeInfo\<close>, the snapshot that \<^verbatim>\<open>dpiObjectType_getInfo\<close> fills.\<close>

record dpiObjectTypeInfo =
  info_name :: "string option"
  info_nameLength :: nat
  info_schema :: "string option"
  info_schemaLength :: nat
  info_isCollection :: bool
  info_elementTypeInfo :: dpiDataTypeInfo
  info_numAttributes :: "16 word"

text \<open>
  The trace of the calls a function makes into code outside the file, each with its
  arguments and its answer. The calls made by a destructor that a reference-count change
  triggers, and those made while the element type of a collection is resolved, are kept
  as a sub-trace of the call that caused them, so that the top level of a function's
  trace holds exactly the calls of its own body.
\<close>

datatype event =
    E_Allocate htype "handle option"
  | E_SetRefCount handle int bool
  | E_FreeProc handle "event list"
  | E_FreeString string
  | E_Free handle
  | E_GetAttrString nat oci_attr "string option"
  | E_AttrGetPtr nat oci_attr "nat option"
  | E_AttrGetU16 nat oci_attr "16 word option"
  | E_ObjectPin nat "nat option"
  | E_HandleAlloc "nat option"
  | E_HandleFree nat
  | E_DescribeAny "handle option" "nat option" nat bool
  | E_ParamGet nat nat "nat option"
  | E_PopulateTypeInfo nat "event list" "dpiDataTypeInfo option"
  | E_ObjectNew handle "nat option"
  | E_ObjectGetInd handle "nat option"
  | E_ObjectAttrInit handle nat bool

record state =
  h_tag :: "handle \<Rightarrow> htype option"
  h_refCount :: "handle \<Rightarrow> int"
  h_env :: "handle \<Rightarrow> nat"
  objTypes :: "handle \<Rightarrow> dpiObjectType"
  objects :: "handle \<Rightarrow> dpiObject"
  objAttrs :: "handle \<Rightarrow> dpiObjectAttr"
  nextHandle :: handle
  liveDescribe :: "nat list"
  nextDescribe :: nat
  doubleFree :: bool
  clock :: nat
  events :: "event list"

text \<open>
  The oracle. The first argument of every field is the clock of the state: the number of
  external calls made so far.
\<close>

record oci =
  o_allocate :: "nat \<Rightarrow> htype \<Rightarrow> bool"
  o_setRefCount :: "nat \<Rightarrow> handle \<Rightarrow> int \<Rightarrow> bool"
  o_setRefCountError :: "nat \<Rightarrow> dpi_error"
  o_getAttrString :: "nat \<Rightarrow> nat \<Rightarrow> oci_attr \<Rightarrow> string option"
  o_attrGetPtr :: "nat \<Rightarrow> nat \<Rightarrow> oci_attr \<Rightarrow> nat option"
  o_attrGetU16 :: "nat \<Rightarrow> nat \<Rightarrow> oci_attr \<Rightarrow> 16 word option"
  o_objectPin :: "nat \<Rightarrow> nat \<Rightarrow> nat option"
  o_handleAlloc :: "nat \<Rightarrow> bool"
  o_describeAny :: "nat \<Rightarrow> handle option \<Rightarrow> nat option \<Rightarrow> nat \<Rightarrow> bool"
  o_paramGet :: "nat \<Rightarrow> nat \<Rightarrow> nat \<Rightarrow> nat option"
  o_elementType :: "nat \<Rightarrow> nat \<Rightarrow> (nat \<times> 32 word option) option"
  o_objectNew :: "nat \<Rightarrow> handle \<Rightarrow> nat option"
  o_objectGetInd :: "nat \<Rightarrow> handle \<Rightarrow> nat option"
  o_objectAttrInit :: "nat \<Rightarrow> handle \<Rightarrow> nat \<Rightarrow> bool"
  DPI_SQLT_NCO :: "16 word"

definition zeroDataTypeInfo :: dpiDataTypeInfo where
  "zeroDataTypeInfo = \<lparr>oracleTypeNum = 0, objectType = None\<rparr>"

definition zeroObjectType :: dpiObjectType where
  "zeroObjectType = \<lparr>conn = None, tdo = None, typeCode = 0, numAttributes = 0,
     isCollection = False, elementTypeInfo = zeroDataTypeInfo, schema = None,
     schemaLength = 0, name = None, nameLength = 0\<rparr>"

definition zeroObject :: dpiObject where
  "zeroObject = \<lparr>obj_type = None, obj_instance = None, obj_indicator = None\<rparr>"

definition zeroObjectAttr :: dpiObjectAttr where
  "zeroObjectAttr = \<lparr>attr_belongsTo = None, attr_source = None\<rparr>"

definition emit :: "event \<Rightarrow> state \<Rightarrow> state" where
  "emit e s = s\<lparr>clock := clock s + 1, events := events s @ [e]\<rparr>"

subsection \<open>The generic handle registry\<close>

text \<open>
  Modelled from the spec: \<^verbatim>\<open>dpiGen__allocate\<close> is not in the file. "allocates zeroed storage
  tagged with kind, sets reference count to 1, records the owning environment. Fails with
  AllocationError if storage cannot be obtained." The new handle is the next unused
  address of the store.
\<close>

definition zero_payload :: "htype \<Rightarrow> handle \<Rightarrow> state \<Rightarrow> state" where
  "zero_payload kind h s =
     (case kind of
        DPI_HTYPE_CONN \<Rightarrow> s
      | DPI_HTYPE_OBJECT_TYPE \<Rightarrow> s\<lparr>objTypes := (objTypes s)(h := zeroObjectType)\<rparr>
      | DPI_HTYPE_OBJECT_ATTR \<Rightarrow> s\<lparr>objAttrs := (objAttrs s)(h := zeroObjectAttr)\<rparr>
      | DPI_HTYPE_OBJECT \<Rightarrow> s\<lparr>objects := (objects s)(h := zeroObject)\<rparr>)"

definition dpiGen__allocate :: "oci \<Rightarrow> htype \<Rightarrow> nat \<Rightarrow> state \<Rightarrow> handle option \<times> state" where
  "dpiGen__allocate ext kind env s =
     (if o_allocate ext (clock s) kind then
        (let h = nextHandle s in
         (Some h, emit (E_Allocate kind (Some h))
            (zero_payload kind h
              (s\<lparr>h_tag := (h_tag s)(h := Some kind),
                 h_refCount := (h_refCount s)(h := 1),
                 h_env := (h_env s)(h := env),
                 nextHandle := Suc h\<rparr>))))
      else (None, emit (E_Allocate kind None) s))"

text \<open>\<^verbatim>\<open>free(ptr)\<close> on the storage of a handle: the tag is gone, the handle is unusable.\<close>

definition free_storage :: "handle \<Rightarrow> state \<Rightarrow> state" where
  "free_storage h s = emit (E_Free h) (s\<lparr>h_tag := (h_tag s)(h := None)\<rparr>)"

text \<open>Runs \<open>f\<close> with an empty trace and files what it traced under one event of the caller.\<close>

definition nested :: "(event list \<Rightarrow> event) \<Rightarrow> state \<Rightarrow> state \<Rightarrow> state" where
  "nested wrap s s' = s'\<lparr>events := events s @ [wrap (events s')]\<rparr>"

text \<open>
  Modelled from the spec: \<^verbatim>\<open>dpiGen__setRefCount\<close> is not in the file. "adjusts the count by
  an arbitrary signed delta. When the resulting count reaches zero, invokes the resource's
  destructor and frees storage." The file tests its result (\<^verbatim>\<open>< 0\<close>), so it can fail; a
  failed call changes no count. The destructor of an object type is
  \<^verbatim>\<open>dpiObjectType__free\<close> below. Modelled from the spec: the destructor of an object
  instance, \<^verbatim>\<open>dpiObject__free\<close>, "releases the TypeDescriptor reference"; the destructors
  of the other kinds are outside the file and the spec, and only free the storage here.

  A destructor releases further references, which may run further destructors: the
  first argument bounds the depth of this cascade, and \<open>None\<close> means the bound was hit.

  \<^verbatim>\<open>
  void dpiObjectType__free(dpiObjectType *objType, dpiError *error)
  {
      if (objType->conn) {
          dpiGen__setRefCount(objType->conn, error, -1);
          objType->conn = NULL;
      }
      if (objType->elementTypeInfo.objectType) {
          dpiGen__setRefCount(objType->elementTypeInfo.objectType, error, -1);
          objType->elementTypeInfo.objectType = NULL;
      }
      if (objType->schema) {
          free((void*) objType->schema);
          objType->schema = NULL;
      }
      if (objType->name) {
          free((void*) objType->name);
          objType->name = NULL;
      }
      free(objType);
  }
  \<close>
\<close>

definition free_schema :: "handle \<Rightarrow> state \<Rightarrow> state" where
  "free_schema h s =
     (case schema (objTypes s h) of
        None \<Rightarrow> s
      | Some str \<Rightarrow> emit (E_FreeString str)
          (s\<lparr>objTypes := (objTypes s)(h := (objTypes s h)\<lparr>schema := None\<rparr>)\<rparr>))"

definition free_name :: "handle \<Rightarrow> state \<Rightarrow> state" where
  "free_name h s =
     (case name (objTypes s h) of
        None \<Rightarrow> s
      | Some str \<Rightarrow> emit (E_FreeString str)
          (s\<lparr>objTypes := (objTypes s)(h := (objTypes s h)\<lparr>name := None\<rparr>)\<rparr>))"

definition clear_conn :: "handle \<Rightarrow> state \<Rightarrow> state" where
  "clear_conn h s = s\<lparr>objTypes := (objTypes s)(h := (objTypes s h)\<lparr>conn := None\<rparr>)\<rparr>"

definition clear_element :: "handle \<Rightarrow> state \<Rightarrow> state" where
  "clear_element h s = s\<lparr>objTypes := (objTypes s)
     (h := (objTypes s h)\<lparr>elementTypeInfo := (elementTypeInfo (objTypes s h))\<lparr>objectType := None\<rparr>\<rparr>)\<rparr>"

definition clear_obj_type :: "handle \<Rightarrow> state \<Rightarrow> state" where
  "clear_obj_type h s = s\<lparr>objects := (objects s)(h := (objects s h)\<lparr>obj_type := None\<rparr>)\<rparr>"

definition adjust :: "handle \<Rightarrow> int \<Rightarrow> state \<Rightarrow> state" where
  "adjust h d s = emit (E_SetRefCount h d True) (s\<lparr>h_refCount := (h_refCount s)(h := h_refCount s h + d)\<rparr>)"

fun dpiGen__setRefCount :: "oci \<Rightarrow> nat \<Rightarrow> handle \<Rightarrow> int \<Rightarrow> state \<Rightarrow> (bool \<times> state) option"
  and freeProc :: "oci \<Rightarrow> nat \<Rightarrow> handle \<Rightarrow> state \<Rightarrow> state option"
  and dpiObjectType__free :: "oci \<Rightarrow> nat \<Rightarrow> handle \<Rightarrow> state \<Rightarrow> state option"
  and dpiObject__free :: "oci \<Rightarrow> nat \<Rightarrow> handle \<Rightarrow> state \<Rightarrow> state option"
where
  "dpiGen__setRefCount ext n h d s =
     (if \<not> o_setRefCount ext (clock s) h d then Some (False, emit (E_SetRefCount h d False) s)
      else if h_refCount (adjust h d s) h \<noteq> 0 then Some (True, adjust h d s)
      else (case freeProc ext n h ((adjust h d s)\<lparr>events := []\<rparr>) of
              None \<Rightarrow> None
            | Some s' \<Rightarrow> Some (True, nested (E_FreeProc h) (adjust h d s) s')))"
| "freeProc ext 0 h s = None"
| "freeProc ext (Suc n) h s =
     (case h_tag s h of
        Some DPI_HTYPE_OBJECT_TYPE \<Rightarrow> dpiObjectType__free ext n h s
      | Some DPI_HTYPE_OBJECT \<Rightarrow> dpiObject__free ext n h s
      | Some _ \<Rightarrow> Some (free_storage h s)
      | None \<Rightarrow> Some s)"
| "dpiObjectType__free ext n objType s =
     (case (case conn (objTypes s objType) of
              None \<Rightarrow> Some s
            | Some c \<Rightarrow> map_option (\<lambda>r. clear_conn objType (snd r)) (dpiGen__setRefCount ext n c (- 1) s)) of
        None \<Rightarrow> None
      | Some s1 \<Rightarrow>
     (case (case objectType (elementTypeInfo (objTypes s1 objType)) of
              None \<Rightarrow> Some s1
            | Some e \<Rightarrow> map_option (\<lambda>r. clear_element objType (snd r)) (dpiGen__setRefCount ext n e (- 1) s1)) of
        None \<Rightarrow> None
      | Some s2 \<Rightarrow> Some (free_storage objType (free_name objType (free_schema objType s2)))))"
| "dpiObject__free ext n obj s =
     (case (case obj_type (objects s obj) of
              None \<Rightarrow> Some s
            | Some t \<Rightarrow> map_option (\<lambda>r. clear_obj_type obj (snd r)) (dpiGen__setRefCount ext n t (- 1) s)) of
        None \<Rightarrow> None
      | Some s1 \<Rightarrow> Some (free_storage obj s1))"

text \<open>
  Modelled from the spec: \<^verbatim>\<open>dpiGen__startPublicFn\<close> is not in the file. "validates the
  handle's kind and liveness and produces a fresh per-call error context."
\<close>

definition dpiGen__startPublicFn :: "handle \<Rightarrow> htype \<Rightarrow> state \<Rightarrow> bool" where
  "dpiGen__startPublicFn h kind s = (h_tag s h = Some kind)"

subsection \<open>Object instances\<close>

text \<open>
  Modelled from the spec: \<^verbatim>\<open>dpiObject__allocate\<close> is not in the file. "allocates an
  ObjectInstance (registry-managed), takes a counted reference to the TypeDescriptor";
  "either all steps complete and the result is returned, or the attempted resource is
  fully torn down and an error is reported." The error reported is the one of the step
  that failed: \<open>AllocationError\<close> from the registry, or the error that the failed
  \<^verbatim>\<open>dpiGen__setRefCount\<close> set, which the oracle names (\<open>o_setRefCountError\<close>), since
  the spec names none.
\<close>

definition dpiObject__allocate ::
  "oci \<Rightarrow> nat \<Rightarrow> handle \<Rightarrow> nat option \<Rightarrow> nat option \<Rightarrow> state
   \<Rightarrow> ((dpi_error + handle) \<times> state) option" where
  "dpiObject__allocate ext n objType inst ind s =
     (case dpiGen__allocate ext DPI_HTYPE_OBJECT (h_env s objType) s of
        (None, s1) \<Rightarrow> Some (Inl AllocationError, s1)
      | (Some tempObj, s1) \<Rightarrow>
          (case dpiGen__setRefCount ext n objType 1 s1 of
             None \<Rightarrow> None
           | Some (False, s2) \<Rightarrow>
               map_option (\<lambda>s3. (Inl (o_setRefCountError ext (clock s1)), s3))
                 (dpiObject__free ext n tempObj s2)
           | Some (True, s2) \<Rightarrow>
               Some (Inr tempObj, s2\<lparr>objects := (objects s2)
                 (tempObj := \<lparr>obj_type = Some objType, obj_instance = inst, obj_indicator = ind\<rparr>)\<rparr>)))"

text \<open>
  Modelled from the spec: \<^verbatim>\<open>dpiOci__objectNew\<close> and \<^verbatim>\<open>dpiOci__objectGetInd\<close> are not in the
  file. "asks the external instantiation service to materialize instance data for the
  type and to provide the null-indicator structure for that instance."
\<close>

definition dpiOci__objectNew :: "oci \<Rightarrow> handle \<Rightarrow> state \<Rightarrow> bool \<times> state" where
  "dpiOci__objectNew ext obj s =
     (case o_objectNew ext (clock s) obj of
        None \<Rightarrow> (False, emit (E_ObjectNew obj None) s)
      | Some p \<Rightarrow> (True, emit (E_ObjectNew obj (Some p))
          (s\<lparr>objects := (objects s)(obj := (objects s obj)\<lparr>obj_instance := Some p\<rparr>)\<rparr>)))"

definition dpiOci__objectGetInd :: "oci \<Rightarrow> handle \<Rightarrow> state \<Rightarrow> bool \<times> state" where
  "dpiOci__objectGetInd ext obj s =
     (case o_objectGetInd ext (clock s) obj of
        None \<Rightarrow> (False, emit (E_ObjectGetInd obj None) s)
      | Some p \<Rightarrow> (True, emit (E_ObjectGetInd obj (Some p))
          (s\<lparr>objects := (objects s)(obj := (objects s obj)\<lparr>obj_indicator := Some p\<rparr>)\<rparr>)))"

text \<open>
  \<^verbatim>\<open>
  int dpiObjectType_createObject(dpiObjectType *objType, dpiObject **obj)
  {
      if (dpiGen__startPublicFn(objType, DPI_HTYPE_OBJECT_TYPE, __func__, &error) < 0)
          return DPI_FAILURE;
      DPI_CHECK_PTR_NOT_NULL(obj)
      if (dpiObject__allocate(objType, NULL, NULL, 0, &tempObj, &error) < 0)
          return DPI_FAILURE;
      if (dpiOci__objectNew(tempObj, &error) < 0) {
          dpiGen__setRefCount(tempObj, &error, -1);
          return DPI_FAILURE;
      }
      if (dpiOci__objectGetInd(tempObj, &error) < 0) {
          dpiGen__setRefCount(tempObj, &error, -1);
          return DPI_FAILURE;
      }
      *obj = tempObj;
      return DPI_SUCCESS;
  }
  \<close>
  The output pointer \<^verbatim>\<open>obj\<close> is the flag \<open>obj_ptr\<close> (false: NULL); the macro
  \<^verbatim>\<open>DPI_CHECK_PTR_NOT_NULL\<close> is not in the file and is taken to fail the call on NULL. The
  result is \<open>Inr\<close> of the handle written to \<^verbatim>\<open>*obj\<close>, or \<open>Inl\<close> of the error, which is the
  one the failing callee set: that of \<^verbatim>\<open>dpiObject__allocate\<close>, or \<open>ExternalServiceError\<close>
  from the native library.
\<close>

definition dpiObjectType_createObject ::
  "oci \<Rightarrow> nat \<Rightarrow> handle \<Rightarrow> bool \<Rightarrow> state \<Rightarrow> ((dpi_error + handle) \<times> state) option" where
  "dpiObjectType_createObject ext n objType obj_ptr s =
     (if \<not> dpiGen__startPublicFn objType DPI_HTYPE_OBJECT_TYPE s then Some (Inl InvalidHandle, s)
      else if \<not> obj_ptr then Some (Inl NullPointerParameter, s)
      else (case dpiObject__allocate ext n objType None None s of
              None \<Rightarrow> None
            | Some (Inl e, s1) \<Rightarrow> Some (Inl e, s1)
            | Some (Inr tempObj, s1) \<Rightarrow>
                (case dpiOci__objectNew ext tempObj s1 of
                   (False, s2) \<Rightarrow>
                     map_option (\<lambda>r. (Inl ExternalServiceError, snd r))
                       (dpiGen__setRefCount ext n tempObj (- 1) s2)
                 | (True, s2) \<Rightarrow>
                     (case dpiOci__objectGetInd ext tempObj s2 of
                        (False, s3) \<Rightarrow>
                          map_option (\<lambda>r. (Inl ExternalServiceError, snd r))
                            (dpiGen__setRefCount ext n tempObj (- 1) s3)
                      | (True, s3) \<Rightarrow> Some (Inr tempObj, s3)))))"

text \<open>Releasing a reference does not itself fail (the file ignores the result of a release).\<close>

definition release_ok :: "oci \<Rightarrow> bool" where
  "release_ok ext = (\<forall>k h. o_setRefCount ext k h (- 1))"

subsection \<open>The native client library\<close>

text \<open>
  Modelled from the spec: the \<^verbatim>\<open>dpiOci__*\<close> and \<^verbatim>\<open>dpiUtils__*\<close> functions are not in the
  file. "getAttribute(descriptorParam, attributeSelector) -> value: generic attribute-read
  primitive"; "pinDefinition(environment, definitionReference) -> pinnedHandle";
  "describeAny(connection, definitionHandle, describeContext) -> result";
  "getNthSubParameter(listParam, index) -> subParam: 1-based positional lookup";
  "allocateContext(kind) / freeContext(context): scoped acquisition/release of transient
  description contexts". Each may fail; what it yields is the oracle's answer. A describe
  context is live from its allocation to its release; releasing a context that is not
  live sets \<open>doubleFree\<close>.
\<close>

definition dpiUtils__getAttrStringWithDup :: "oci \<Rightarrow> nat \<Rightarrow> oci_attr \<Rightarrow> state \<Rightarrow> string option \<times> state" where
  "dpiUtils__getAttrStringWithDup ext param attr s =
     (o_getAttrString ext (clock s) param attr,
      emit (E_GetAttrString param attr (o_getAttrString ext (clock s) param attr)) s)"

definition attrGetPtr :: "oci \<Rightarrow> nat \<Rightarrow> oci_attr \<Rightarrow> state \<Rightarrow> nat option \<times> state" where
  "attrGetPtr ext src attr s =
     (o_attrGetPtr ext (clock s) src attr,
      emit (E_AttrGetPtr src attr (o_attrGetPtr ext (clock s) src attr)) s)"

definition attrGetU16 :: "oci \<Rightarrow> nat \<Rightarrow> oci_attr \<Rightarrow> state \<Rightarrow> 16 word option \<times> state" where
  "attrGetU16 ext src attr s =
     (o_attrGetU16 ext (clock s) src attr,
      emit (E_AttrGetU16 src attr (o_attrGetU16 ext (clock s) src attr)) s)"

definition dpiOci__objectPin :: "oci \<Rightarrow> nat \<Rightarrow> state \<Rightarrow> nat option \<times> state" where
  "dpiOci__objectPin ext tdoReference s =
     (o_objectPin ext (clock s) tdoReference,
      emit (E_ObjectPin tdoReference (o_objectPin ext (clock s) tdoReference)) s)"

definition dpiOci__handleAlloc :: "oci \<Rightarrow> state \<Rightarrow> nat option \<times> state" where
  "dpiOci__handleAlloc ext s =
     (if o_handleAlloc ext (clock s) then
        (Some (nextDescribe s), emit (E_HandleAlloc (Some (nextDescribe s)))
           (s\<lparr>liveDescribe := nextDescribe s # liveDescribe s, nextDescribe := Suc (nextDescribe s)\<rparr>))
      else (None, emit (E_HandleAlloc None) s))"

definition dpiOci__handleFree :: "nat \<Rightarrow> state \<Rightarrow> state" where
  "dpiOci__handleFree dh s =
     emit (E_HandleFree dh)
       (if dh \<in> set (liveDescribe s) then s\<lparr>liveDescribe := remove1 dh (liveDescribe s)\<rparr>
        else s\<lparr>doubleFree := True\<rparr>)"

definition dpiOci__describeAny :: "oci \<Rightarrow> handle option \<Rightarrow> nat option \<Rightarrow> nat \<Rightarrow> state \<Rightarrow> bool \<times> state" where
  "dpiOci__describeAny ext c t dh s =
     (o_describeAny ext (clock s) c t dh,
      emit (E_DescribeAny c t dh (o_describeAny ext (clock s) c t dh)) s)"

definition dpiOci__paramGet :: "oci \<Rightarrow> nat \<Rightarrow> nat \<Rightarrow> state \<Rightarrow> nat option \<times> state" where
  "dpiOci__paramGet ext lst pos s =
     (o_paramGet ext (clock s) lst pos,
      emit (E_ParamGet lst pos (o_paramGet ext (clock s) lst pos)) s)"

subsection \<open>Describing a type\<close>

definition upd_objType :: "handle \<Rightarrow> (dpiObjectType \<Rightarrow> dpiObjectType) \<Rightarrow> state \<Rightarrow> state" where
  "upd_objType h f s = s\<lparr>objTypes := (objTypes s)(h := f (objTypes s h))\<rparr>"

definition tick :: "state \<Rightarrow> state" where
  "tick s = s\<lparr>clock := clock s + 1\<rparr>"

text \<open>
  \<^verbatim>\<open>
  int dpiObjectType__allocate(dpiConn *conn, void *param,
          uint32_t nameAttribute, dpiObjectType **objType, dpiError *error)
  {
      *objType = NULL;
      if (dpiGen__allocate(DPI_HTYPE_OBJECT_TYPE, conn->env,
              (void**) &tempObjType, error) < 0)
          return DPI_FAILURE;
      if (dpiGen__setRefCount(conn, error, 1) < 0) {
          dpiObjectType__free(tempObjType, error);
          return DPI_FAILURE;
      }
      tempObjType->conn = conn;
      if (dpiObjectType__init(tempObjType, param, nameAttribute, error) < 0) {
          dpiObjectType__free(tempObjType, error);
          return DPI_FAILURE;
      }
      *objType = tempObjType;
      return DPI_SUCCESS;
  }

  static int dpiObjectType__init(dpiObjectType *objType, void *param,
          uint32_t nameAttribute, dpiError *error)
  {
      if (dpiUtils__getAttrStringWithDup("get schema", param, DPI_OCI_DTYPE_PARAM,
              DPI_OCI_ATTR_SCHEMA_NAME, &objType->schema, &objType->schemaLength, error) < 0)
          return DPI_FAILURE;
      if (dpiUtils__getAttrStringWithDup("get name", param, DPI_OCI_DTYPE_PARAM,
              nameAttribute, &objType->name, &objType->nameLength, error) < 0)
          return DPI_FAILURE;
      if (dpiOci__attrGet(param, DPI_OCI_DTYPE_PARAM, (void*) &tdoReference, 0,
              DPI_OCI_ATTR_REF_TDO, "get TDO reference", error) < 0)
          return DPI_FAILURE;
      if (dpiOci__objectPin(objType->env, tdoReference, &objType->tdo, error) < 0)
          return DPI_FAILURE;
      if (dpiOci__handleAlloc(objType->env, &describeHandle,
              DPI_OCI_HTYPE_DESCRIBE, "allocate describe handle", error) < 0)
          return DPI_FAILURE;
      if (dpiObjectType__describe(objType, describeHandle, error) < 0) {
          dpiOci__handleFree(describeHandle, DPI_OCI_HTYPE_DESCRIBE);
          return DPI_FAILURE;
      }
      dpiOci__handleFree(describeHandle, DPI_OCI_HTYPE_DESCRIBE);
      return DPI_SUCCESS;
  }

  static int dpiObjectType__describe(dpiObjectType *objType,
          void *describeHandle, dpiError *error)
  {
      if (dpiOci__describeAny(objType->conn, objType->tdo, 0, DPI_OCI_OTYPE_PTR,
              describeHandle, error) < 0)
          return DPI_FAILURE;
      if (dpiOci__attrGet(describeHandle, DPI_OCI_HTYPE_DESCRIBE, &param, 0,
              DPI_OCI_ATTR_PARAM, "get top level parameter", error) < 0)
          return DPI_FAILURE;
      if (dpiOci__attrGet(param, DPI_OCI_DTYPE_PARAM, &typeCode, 0,
              DPI_OCI_ATTR_TYPECODE, "get type code", error) < 0)
          return DPI_FAILURE;
      objType->typeCode = typeCode;
      if (dpiOci__attrGet(param, DPI_OCI_DTYPE_PARAM, (void*) &objType->numAttributes, 0,
              DPI_OCI_ATTR_NUM_TYPE_ATTRS, "get number of attributes", error) < 0)
          return DPI_FAILURE;
      if (typeCode == DPI_SQLT_NCO) {
          objType->isCollection = 1;
          if (dpiOci__attrGet(param, DPI_OCI_DTYPE_PARAM, &collectionParam, 0,
                  DPI_OCI_ATTR_COLLECTION_ELEMENT, "get collection descriptor", error) < 0)
              return DPI_FAILURE;
          if (dpiOracleType__populateTypeInfo(objType->conn, collectionParam,
                  DPI_OCI_DTYPE_PARAM, &objType->elementTypeInfo, error) < 0)
              return DPI_FAILURE;
      }
      return DPI_SUCCESS;
  }
  \<close>

  Modelled from the spec: \<^verbatim>\<open>dpiOracleType__populateTypeInfo\<close> is not in the file. "reads the
  collection's element-type sub-parameter and recursively resolves a nested
  TypeDescriptor for it (same procedure, not the same name-attribute selector
  necessarily)"; an element type that is no object type ("a scalar NUMBER") has no nested
  descriptor. The oracle says which it is, with the name selector of the nested describe.
  What the nested describe traces is filed under the event of this call. The type
  information is written only when the call succeeds.

  The element type of a collection may be a collection again, so the three functions of
  the file and \<^verbatim>\<open>dpiOracleType__populateTypeInfo\<close> call each other. Each is written first
  with the function it calls across that cycle as its first argument (\<open>_with\<close>), and the
  cycle is closed by recursion on a bound on the nesting; \<open>None\<close> means the bound was
  hit. The bound also limits the cascade of destructors, as above.
  \<^verbatim>\<open>dpiObjectType__allocate\<close> yields the status, the value left in \<^verbatim>\<open>*objType\<close>, and the
  state.
\<close>

definition dpiObjectType__describe_with ::
    "(handle option \<Rightarrow> nat \<Rightarrow> state \<Rightarrow> (dpiDataTypeInfo option \<times> state) option)
     \<Rightarrow> oci \<Rightarrow> handle \<Rightarrow> nat \<Rightarrow> state \<Rightarrow> (bool \<times> state) option" where
  "dpiObjectType__describe_with populate ext objType describeHandle s =
     (case dpiOci__describeAny ext (conn (objTypes s objType)) (tdo (objTypes s objType))
             describeHandle s of
        (False, s1) \<Rightarrow> Some (False, s1)
      | (True, s1) \<Rightarrow>
     (case attrGetPtr ext describeHandle DPI_OCI_ATTR_PARAM s1 of
        (None, s2) \<Rightarrow> Some (False, s2)
      | (Some param, s2) \<Rightarrow>
     (case attrGetU16 ext param DPI_OCI_ATTR_TYPECODE s2 of
        (None, s3) \<Rightarrow> Some (False, s3)
      | (Some tc, s3) \<Rightarrow>
     (case attrGetU16 ext param DPI_OCI_ATTR_NUM_TYPE_ATTRS
             (upd_objType objType (\<lambda>t. t\<lparr>typeCode := tc\<rparr>) s3) of
        (None, s4) \<Rightarrow> Some (False, s4)
      | (Some na, s4) \<Rightarrow>
          (if tc = DPI_SQLT_NCO ext then
             (case attrGetPtr ext param DPI_OCI_ATTR_COLLECTION_ELEMENT
                     (upd_objType objType (\<lambda>t. t\<lparr>numAttributes := na, isCollection := True\<rparr>) s4) of
                (None, s5) \<Rightarrow> Some (False, s5)
              | (Some collectionParam, s5) \<Rightarrow>
                  (case populate (conn (objTypes s5 objType)) collectionParam s5 of
                     None \<Rightarrow> None
                   | Some (None, s6) \<Rightarrow> Some (False, s6)
                   | Some (Some info, s6) \<Rightarrow>
                       Some (True, upd_objType objType (\<lambda>t. t\<lparr>elementTypeInfo := info\<rparr>) s6)))
           else Some (True, upd_objType objType (\<lambda>t. t\<lparr>numAttributes := na\<rparr>) s4))))))"

definition dpiObjectType__init_with ::
    "(handle option \<Rightarrow> nat \<Rightarrow> state \<Rightarrow> (dpiDataTypeInfo option \<times> state) option)
     \<Rightarrow> oci \<Rightarrow> handle \<Rightarrow> nat \<Rightarrow> oci_attr \<Rightarrow> state \<Rightarrow> (bool \<times> state) option" where
  "dpiObjectType__init_with populate ext objType param nameAttribute s =
     (case dpiUtils__getAttrStringWithDup ext param DPI_OCI_ATTR_SCHEMA_NAME s of
        (None, s1) \<Rightarrow> Some (False, s1)
      | (Some sch, s1) \<Rightarrow>
     (case dpiUtils__getAttrStringWithDup ext param nameAttribute
             (upd_objType objType (\<lambda>t. t\<lparr>schema := Some sch, schemaLength := length sch\<rparr>) s1) of
        (None, s2) \<Rightarrow> Some (False, s2)
      | (Some nm, s2) \<Rightarrow>
     (case attrGetPtr ext param DPI_OCI_ATTR_REF_TDO
             (upd_objType objType (\<lambda>t. t\<lparr>name := Some nm, nameLength := length nm\<rparr>) s2) of
        (None, s3) \<Rightarrow> Some (False, s3)
      | (Some tdoReference, s3) \<Rightarrow>
     (case dpiOci__objectPin ext tdoReference s3 of
        (None, s4) \<Rightarrow> Some (False, s4)
      | (Some pinned, s4) \<Rightarrow>
     (case dpiOci__handleAlloc ext (upd_objType objType (\<lambda>t. t\<lparr>tdo := Some pinned\<rparr>) s4) of
        (None, s5) \<Rightarrow> Some (False, s5)
      | (Some describeHandle, s5) \<Rightarrow>
     (case dpiObjectType__describe_with populate ext objType describeHandle s5 of
        None \<Rightarrow> None
      | Some (False, s6) \<Rightarrow> Some (False, dpiOci__handleFree describeHandle s6)
      | Some (True, s6) \<Rightarrow> Some (True, dpiOci__handleFree describeHandle s6)))))))"

definition dpiObjectType__allocate_with ::
    "(handle option \<Rightarrow> nat \<Rightarrow> state \<Rightarrow> (dpiDataTypeInfo option \<times> state) option)
     \<Rightarrow> oci \<Rightarrow> nat \<Rightarrow> handle \<Rightarrow> nat \<Rightarrow> oci_attr \<Rightarrow> state \<Rightarrow> (bool \<times> handle option \<times> state) option" where
  "dpiObjectType__allocate_with populate ext n cn param nameAttribute s =
     (case dpiGen__allocate ext DPI_HTYPE_OBJECT_TYPE (h_env s cn) s of
        (None, s1) \<Rightarrow> Some (False, None, s1)
      | (Some tempObjType, s1) \<Rightarrow>
          (case dpiGen__setRefCount ext n cn 1 s1 of
             None \<Rightarrow> None
           | Some (False, s2) \<Rightarrow>
               map_option (\<lambda>s3. (False, None, s3)) (dpiObjectType__free ext n tempObjType s2)
           | Some (True, s2) \<Rightarrow>
               (case dpiObjectType__init_with populate ext tempObjType param nameAttribute
                       (upd_objType tempObjType (\<lambda>t. t\<lparr>conn := Some cn\<rparr>) s2) of
                  None \<Rightarrow> None
                | Some (False, s3) \<Rightarrow>
                    map_option (\<lambda>s4. (False, None, s4)) (dpiObjectType__free ext n tempObjType s3)
                | Some (True, s3) \<Rightarrow> Some (True, Some tempObjType, s3))))"

definition populate_with ::
    "(handle \<Rightarrow> nat \<Rightarrow> oci_attr \<Rightarrow> state \<Rightarrow> (bool \<times> handle option \<times> state) option)
     \<Rightarrow> oci \<Rightarrow> handle option \<Rightarrow> nat \<Rightarrow> state \<Rightarrow> (dpiDataTypeInfo option \<times> state) option" where
  "populate_with allocate ext c collectionParam s =
     (case o_elementType ext (clock s) collectionParam of
        None \<Rightarrow> Some (None, emit (E_PopulateTypeInfo collectionParam [] None) s)
      | Some (tn, None) \<Rightarrow>
          Some (Some \<lparr>oracleTypeNum = tn, objectType = None\<rparr>,
                emit (E_PopulateTypeInfo collectionParam []
                  (Some \<lparr>oracleTypeNum = tn, objectType = None\<rparr>)) s)
      | Some (tn, Some sel) \<Rightarrow>
          (case c of
             None \<Rightarrow> Some (None, emit (E_PopulateTypeInfo collectionParam [] None) s)
           | Some cn \<Rightarrow>
               (case allocate cn collectionParam (NameAttribute sel) ((tick s)\<lparr>events := []\<rparr>) of
                  None \<Rightarrow> None
                | Some (ok, out, s') \<Rightarrow>
                    (let info = (if ok then Some \<lparr>oracleTypeNum = tn, objectType = out\<rparr> else None)
                     in Some (info, nested (\<lambda>sub. E_PopulateTypeInfo collectionParam sub info)
                                 (tick s) s')))))"

primrec dpiOracleType__populateTypeInfo ::
    "oci \<Rightarrow> nat \<Rightarrow> handle option \<Rightarrow> nat \<Rightarrow> state \<Rightarrow> (dpiDataTypeInfo option \<times> state) option" where
  "dpiOracleType__populateTypeInfo ext 0 = populate_with (\<lambda>cn p a s. None) ext"
| "dpiOracleType__populateTypeInfo ext (Suc n) =
     populate_with (dpiObjectType__allocate_with (dpiOracleType__populateTypeInfo ext n) ext n) ext"

definition dpiObjectType__allocate ::
    "oci \<Rightarrow> nat \<Rightarrow> handle \<Rightarrow> nat \<Rightarrow> oci_attr \<Rightarrow> state \<Rightarrow> (bool \<times> handle option \<times> state) option" where
  "dpiObjectType__allocate ext n =
     dpiObjectType__allocate_with (dpiOracleType__populateTypeInfo ext n) ext n"

definition dpiObjectType__init ::
    "oci \<Rightarrow> nat \<Rightarrow> handle \<Rightarrow> nat \<Rightarrow> oci_attr \<Rightarrow> state \<Rightarrow> (bool \<times> state) option" where
  "dpiObjectType__init ext n = dpiObjectType__init_with (dpiOracleType__populateTypeInfo ext n) ext"

definition dpiObjectType__describe ::
    "oci \<Rightarrow> nat \<Rightarrow> handle \<Rightarrow> nat \<Rightarrow> state \<Rightarrow> (bool \<times> state) option" where
  "dpiObjectType__describe ext n =
     dpiObjectType__describe_with (dpiOracleType__populateTypeInfo ext n) ext"

subsection \<open>Attributes and information of a type\<close>

text \<open>
  Modelled from the spec: \<^verbatim>\<open>dpiObjectAttr__allocate\<close> is not in the file. "materializes an
  AttributeDescriptor into the destination array"; an attribute descriptor is a managed
  resource of the registry. The result is the new descriptor, or the error of the step
  that failed: \<open>AllocationError\<close> from the registry, \<open>ExternalServiceError\<close> from reading the
  attribute through the native library.
\<close>

definition dpiObjectAttr__allocate ::
  "oci \<Rightarrow> handle \<Rightarrow> nat \<Rightarrow> state \<Rightarrow> (dpi_error + handle) \<times> state" where
  "dpiObjectAttr__allocate ext objType attrParam s =
     (case dpiGen__allocate ext DPI_HTYPE_OBJECT_ATTR (h_env s objType) s of
        (None, s1) \<Rightarrow> (Inl AllocationError, s1)
      | (Some a, s1) \<Rightarrow>
          (if o_objectAttrInit ext (clock s1) objType attrParam then
             (Inr a, emit (E_ObjectAttrInit objType attrParam True)
                (s1\<lparr>objAttrs := (objAttrs s1)
                   (a := \<lparr>attr_belongsTo = Some objType, attr_source = Some attrParam\<rparr>)\<rparr>))
           else (Inl ExternalServiceError,
                 free_storage a (emit (E_ObjectAttrInit objType attrParam False) s1))))"

text \<open>
  \<^verbatim>\<open>
  int dpiObjectType_getAttributes(dpiObjectType *objType, uint16_t numAttributes,
          dpiObjectAttr **attributes)
  {
      if (dpiGen__startPublicFn(objType, DPI_HTYPE_OBJECT_TYPE, __func__, &error) < 0)
          return DPI_FAILURE;
      DPI_CHECK_PTR_NOT_NULL(attributes)
      if (numAttributes < objType->numAttributes)
          return dpiError__set(&error, "get attributes",
                  DPI_ERR_ARRAY_SIZE_TOO_SMALL, numAttributes);
      if (numAttributes == 0)
          return DPI_SUCCESS;
      if (dpiOci__handleAlloc(objType->env, &describeHandle,
              DPI_OCI_HTYPE_DESCRIBE, "allocate describe handle", &error) < 0)
          return DPI_FAILURE;
      if (dpiOci__describeAny(objType->conn, objType->tdo, 0, DPI_OCI_OTYPE_PTR,
              describeHandle, &error) < 0) {
          dpiOci__handleFree(describeHandle, DPI_OCI_HTYPE_DESCRIBE);
          return DPI_FAILURE;
      }
      if (dpiOci__attrGet(describeHandle, DPI_OCI_HTYPE_DESCRIBE, &topLevelParam,
              0, DPI_OCI_ATTR_PARAM, "get top level param", &error) < 0) {
          dpiOci__handleFree(describeHandle, DPI_OCI_HTYPE_DESCRIBE);
          return DPI_FAILURE;
      }
      if (dpiOci__attrGet(topLevelParam, DPI_OCI_DTYPE_PARAM,
              (void*) &attrListParam, 0, DPI_OCI_ATTR_LIST_TYPE_ATTRS,
              "get attr list param", &error) < 0) {
          dpiOci__handleFree(describeHandle, DPI_OCI_HTYPE_DESCRIBE);
          return DPI_FAILURE;
      }
      for (i = 0; i < objType->numAttributes; i++) {
          if (dpiOci__paramGet(attrListParam, DPI_OCI_DTYPE_PARAM, &attrParam,
                  (uint32_t) i + 1, "get attribute param", &error) < 0) {
              dpiOci__handleFree(describeHandle, DPI_OCI_HTYPE_DESCRIBE);
              return DPI_FAILURE;
          }
          if (dpiObjectAttr__allocate(objType, attrParam, &attributes[i], &error) < 0) {
              dpiOci__handleFree(describeHandle, DPI_OCI_HTYPE_DESCRIBE);
              return DPI_FAILURE;
          }
      }
      dpiOci__handleFree(describeHandle, DPI_OCI_HTYPE_DESCRIBE);
      return DPI_SUCCESS;
  }
  \<close>
  The caller's array is a function from indices to entries (\<open>None\<close>: an entry that holds
  no descriptor), and the pointer to it is \<open>None\<close> when NULL. The loop counter is a
  \<^verbatim>\<open>uint16_t\<close> below \<^verbatim>\<open>objType->numAttributes\<close>, so neither \<^verbatim>\<open>i++\<close> nor
  \<^verbatim>\<open>(uint32_t) i + 1\<close> wraps, and it is a natural number here. The loop yields \<open>None\<close>
  when it ran to its end, and else the error of the call that failed; the release of the
  describe handle that follows either exit is in the caller. A failed call of the native
  library sets \<open>ExternalServiceError\<close>.
\<close>

function getAttributes_loop ::
  "oci \<Rightarrow> handle \<Rightarrow> nat \<Rightarrow> nat \<Rightarrow> (nat \<Rightarrow> handle option) \<Rightarrow> state
   \<Rightarrow> dpi_error option \<times> (nat \<Rightarrow> handle option) \<times> state" where
  "getAttributes_loop ext objType attrListParam i attributes s =
     (if i < unat (numAttributes (objTypes s objType)) then
        (case dpiOci__paramGet ext attrListParam (i + 1) s of
           (None, s1) \<Rightarrow> (Some ExternalServiceError, attributes, s1)
         | (Some attrParam, s1) \<Rightarrow>
             (case dpiObjectAttr__allocate ext objType attrParam s1 of
                (Inl e, s2) \<Rightarrow> (Some e, attributes, s2)
              | (Inr a, s2) \<Rightarrow>
                  getAttributes_loop ext objType attrListParam (i + 1) (attributes(i := Some a)) s2))
      else (None, attributes, s))"
  by pat_completeness auto
termination
  by (relation "measure (\<lambda>(ext, objType, attrListParam, i, attributes, s).
        unat (numAttributes (objTypes s objType)) - i)")
     (auto simp: dpiOci__paramGet_def dpiObjectAttr__allocate_def dpiGen__allocate_def
        zero_payload_def emit_def free_storage_def Let_def split: if_splits prod.splits)

declare getAttributes_loop.simps [simp del]

definition dpiObjectType_getAttributes ::
  "oci \<Rightarrow> handle \<Rightarrow> 16 word \<Rightarrow> (nat \<Rightarrow> handle option) option \<Rightarrow> state
   \<Rightarrow> (dpi_error + unit) \<times> (nat \<Rightarrow> handle option) option \<times> state" where
  "dpiObjectType_getAttributes ext objType numAttrs attributes s =
     (if \<not> dpiGen__startPublicFn objType DPI_HTYPE_OBJECT_TYPE s then (Inl InvalidHandle, attributes, s)
      else case attributes of
        None \<Rightarrow> (Inl NullPointerParameter, None, s)
      | Some arr \<Rightarrow>
     (if numAttrs < numAttributes (objTypes s objType) then
        (Inl DPI_ERR_ARRAY_SIZE_TOO_SMALL, Some arr, s)
      else if numAttrs = 0 then (Inr (), Some arr, s)
      else
     (case dpiOci__handleAlloc ext s of
        (None, s1) \<Rightarrow> (Inl ExternalServiceError, Some arr, s1)
      | (Some describeHandle, s1) \<Rightarrow>
     (case dpiOci__describeAny ext (conn (objTypes s1 objType)) (tdo (objTypes s1 objType))
             describeHandle s1 of
        (False, s2) \<Rightarrow> (Inl ExternalServiceError, Some arr, dpiOci__handleFree describeHandle s2)
      | (True, s2) \<Rightarrow>
     (case attrGetPtr ext describeHandle DPI_OCI_ATTR_PARAM s2 of
        (None, s3) \<Rightarrow> (Inl ExternalServiceError, Some arr, dpiOci__handleFree describeHandle s3)
      | (Some topLevelParam, s3) \<Rightarrow>
     (case attrGetPtr ext topLevelParam DPI_OCI_ATTR_LIST_TYPE_ATTRS s3 of
        (None, s4) \<Rightarrow> (Inl ExternalServiceError, Some arr, dpiOci__handleFree describeHandle s4)
      | (Some attrListParam, s4) \<Rightarrow>
     (case getAttributes_loop ext objType attrListParam 0 arr s4 of
        (Some e, arr', s5) \<Rightarrow> (Inl e, Some arr', dpiOci__handleFree describeHandle s5)
      | (None, arr', s5) \<Rightarrow> (Inr (), Some arr', dpiOci__handleFree describeHandle s5))))))))"

text \<open>
  \<^verbatim>\<open>
  int dpiObjectType_getInfo(dpiObjectType *objType, dpiObjectTypeInfo *info)
  {
      if (dpiGen__startPublicFn(objType, DPI_HTYPE_OBJECT_TYPE, __func__, &error) < 0)
          return DPI_FAILURE;
      DPI_CHECK_PTR_NOT_NULL(info)
      info->name = objType->name;
      info->nameLength = objType->nameLength;
      info->schema = objType->schema;
      info->schemaLength = objType->schemaLength;
      info->isCollection = objType->isCollection;
      info->elementTypeInfo = objType->elementTypeInfo;
      info->numAttributes = objType->numAttributes;
      return DPI_SUCCESS;
  }
  \<close>
  The flag \<open>info_ptr\<close> is false when \<^verbatim>\<open>info\<close> is NULL; the result is \<open>Inr\<close> of the structure
  written through \<^verbatim>\<open>info\<close>.
\<close>

definition dpiObjectType_getInfo ::
  "handle \<Rightarrow> bool \<Rightarrow> state \<Rightarrow> (dpi_error + dpiObjectTypeInfo) \<times> state" where
  "dpiObjectType_getInfo objType info_ptr s =
     (if \<not> dpiGen__startPublicFn objType DPI_HTYPE_OBJECT_TYPE s then (Inl InvalidHandle, s)
      else if \<not> info_ptr then (Inl NullPointerParameter, s)
      else (Inr \<lparr>info_name = name (objTypes s objType),
                 info_nameLength = nameLength (objTypes s objType),
                 info_schema = schema (objTypes s objType),
                 info_schemaLength = schemaLength (objTypes s objType),
                 info_isCollection = isCollection (objTypes s objType),
                 info_elementTypeInfo = elementTypeInfo (objTypes s objType),
                 info_numAttributes = numAttributes (objTypes s objType)\<rparr>, s))"

subsection \<open>Properties stated below\<close>

text \<open>A connection handle in use: allocated by the registry and referenced at least once.\<close>

definition valid_conn :: "state \<Rightarrow> handle \<Rightarrow> bool" where
  "valid_conn s cn = (cn < nextHandle s \<and> 0 < h_refCount s cn)"

text \<open>
  What describing a type for the connection \<open>cn\<close> leaves alone: the handles below \<open>b\<close>
  keep their tags, their object type fields and, but for the connection, their reference
  counts; the connection loses no reference; no handle is given back to the registry.
\<close>

definition grows :: "handle \<Rightarrow> handle \<Rightarrow> state \<Rightarrow> state \<Rightarrow> bool" where
  "grows b cn s s' = (nextHandle s \<le> nextHandle s' \<and> h_refCount s cn \<le> h_refCount s' cn \<and>
     (\<forall>x < b. objTypes s' x = objTypes s x \<and> h_tag s' x = h_tag s x
        \<and> (x \<noteq> cn \<longrightarrow> h_refCount s' x = h_refCount s x)))"

text \<open>
  What a cascade of releases leaves alone: a handle without a reference left keeps its
  object type fields and its tag, and gains no reference.
\<close>

definition untouched :: "handle \<Rightarrow> state \<Rightarrow> state \<Rightarrow> bool" where
  "untouched h s s' = (objTypes s' h = objTypes s h \<and> h_refCount s' h \<le> 0 \<and> h_tag s' h = h_tag s h)"

text \<open>The describe handles are as before: none leaked, none released twice.\<close>

definition balanced :: "state \<Rightarrow> state \<Rightarrow> bool" where
  "balanced s s' = (liveDescribe s' = liveDescribe s \<and> doubleFree s' = doubleFree s)"

text \<open>
  What is shown of \<^verbatim>\<open>dpiOracleType__populateTypeInfo\<close> and of \<^verbatim>\<open>dpiObjectType__allocate\<close> at
  every bound on the nesting, each from the other.
\<close>

definition populate_spec ::
  "oci \<Rightarrow> (handle option \<Rightarrow> nat \<Rightarrow> state \<Rightarrow> (dpiDataTypeInfo option \<times> state) option) \<Rightarrow> bool" where
  "populate_spec ext populate =
     (\<forall>cn cp s r s'. populate (Some cn) cp s = Some (r, s') \<longrightarrow> valid_conn s cn \<longrightarrow>
        grows (nextHandle s) cn s s' \<and> balanced s s'
        \<and> (release_ok ext \<longrightarrow> r = None \<longrightarrow> h_refCount s' cn = h_refCount s cn)
        \<and> (\<exists>sub. events s' = events s @ [E_PopulateTypeInfo cp sub r]))"

definition allocate_spec ::
  "oci \<Rightarrow> (handle \<Rightarrow> nat \<Rightarrow> oci_attr \<Rightarrow> state \<Rightarrow> (bool \<times> handle option \<times> state) option) \<Rightarrow> bool" where
  "allocate_spec ext allocate =
     (\<forall>cn p a s ok out s'. allocate cn p a s = Some (ok, out, s') \<longrightarrow> valid_conn s cn \<longrightarrow>
        grows (nextHandle s) cn s s' \<and> balanced s s'
        \<and> out = (if ok then Some (nextHandle s) else None)
        \<and> (release_ok ext \<longrightarrow> \<not> ok \<longrightarrow> h_refCount s' cn = h_refCount s cn))"

text \<open>The events a call appended to the trace.\<close>

definition new_events :: "state \<Rightarrow> state \<Rightarrow> event list" where
  "new_events s s' = drop (length (events s)) (events s')"

fun allocated_handles :: "event list \<Rightarrow> nat list" where
  "allocated_handles [] = []"
| "allocated_handles (E_HandleAlloc (Some dh) # es) = dh # allocated_handles es"
| "allocated_handles (e # es) = allocated_handles es"

fun freed_handles :: "event list \<Rightarrow> nat list" where
  "freed_handles [] = []"
| "freed_handles (E_HandleFree dh # es) = dh # freed_handles es"
| "freed_handles (e # es) = freed_handles es"

text \<open>The reference-count adjustments of a trace: handle, delta and whether it succeeded.\<close>

fun refcount_calls :: "event list \<Rightarrow> (handle \<times> int \<times> bool) list" where
  "refcount_calls [] = []"
| "refcount_calls (E_SetRefCount h d r # es) = (h, d, r) # refcount_calls es"
| "refcount_calls (e # es) = refcount_calls es"

text \<open>The calls of a trace without the sub-traces of destructors.\<close>

fun own_calls :: "event list \<Rightarrow> event list" where
  "own_calls [] = []"
| "own_calls (E_FreeProc h sub # es) = own_calls es"
| "own_calls (e # es) = e # own_calls es"

text \<open>
  A step that allocates and releases no describe handle, neither in the state nor in
  the trace.
\<close>

definition extends_quietly :: "state \<Rightarrow> state \<Rightarrow> bool" where
  "extends_quietly s s' = (liveDescribe s' = liveDescribe s \<and> doubleFree s' = doubleFree s \<and>
     (\<exists>es. events s' = events s @ es \<and> allocated_handles es = [] \<and> freed_handles es = []))"

text \<open>The positions asked of \<^verbatim>\<open>dpiOci__paramGet\<close>, and the sub-parameters it answered.\<close>

fun param_positions :: "event list \<Rightarrow> nat list" where
  "param_positions [] = []"
| "param_positions (E_ParamGet l pos r # es) = pos # param_positions es"
| "param_positions (e # es) = param_positions es"

fun param_answers :: "event list \<Rightarrow> nat option list" where
  "param_answers [] = []"
| "param_answers (E_ParamGet l pos r # es) = r # param_answers es"
| "param_answers (e # es) = param_answers es"

text \<open>
  The destructor cascade is bounded by the store: \<open>live_count\<close> is the number of
  allocated handles that still have a reference, and \<open>refs_allocated\<close> says that every
  reference kept in the descriptor or the object instance of an allocated handle is to
  an allocated handle. \<open>shrinks s s'\<close> is what a release leaves: no new handle, no
  count higher than before, and references to allocated handles only.
\<close>

definition live_count :: "state \<Rightarrow> nat" where
  "live_count s = length (filter (\<lambda>x. 0 < h_refCount s x) [0..<nextHandle s])"

definition refs_allocated :: "state \<Rightarrow> bool" where
  "refs_allocated s = list_all (\<lambda>h.
     (case conn (objTypes s h) of None \<Rightarrow> True | Some c \<Rightarrow> c < nextHandle s)
     \<and> (case objectType (elementTypeInfo (objTypes s h)) of
          None \<Rightarrow> True | Some e \<Rightarrow> e < nextHandle s)
     \<and> (case obj_type (objects s h) of None \<Rightarrow> True | Some t \<Rightarrow> t < nextHandle s))
     [0..<nextHandle s]"

definition shrinks :: "state \<Rightarrow> state \<Rightarrow> bool" where
  "shrinks s s' = (nextHandle s' = nextHandle s \<and> refs_allocated s'
     \<and> (\<forall>y. h_refCount s' y \<le> h_refCount s y))"

subsection \<open>Concrete runs\<close>

text \<open>
  An oracle under which every external call succeeds: the type \<open>SCHEMA.PERSON_T\<close> with
  three attributes, no collection (type code 108; 122 is that of a collection).
\<close>

definition ext_ok :: oci where
  "ext_ok = \<lparr>o_allocate = (\<lambda>k kind. True),
     o_setRefCount = (\<lambda>k h d. True),
     o_setRefCountError = (\<lambda>k. ExternalServiceError),
     o_getAttrString = (\<lambda>k p a. Some (if a = DPI_OCI_ATTR_SCHEMA_NAME then ''SCHEMA'' else ''PERSON_T'')),
     o_attrGetPtr = (\<lambda>k src a. Some (src + 10)),
     o_attrGetU16 = (\<lambda>k src a. Some (if a = DPI_OCI_ATTR_TYPECODE then 108 else 3)),
     o_objectPin = (\<lambda>k r. Some (r + 1)),
     o_handleAlloc = (\<lambda>k. True),
     o_describeAny = (\<lambda>k c t dh. True),
     o_paramGet = (\<lambda>k l pos. Some (100 + pos)),
     o_elementType = (\<lambda>k p. Some (2, None)),
     o_objectNew = (\<lambda>k h. Some 7),
     o_objectGetInd = (\<lambda>k h. Some 8),
     o_objectAttrInit = (\<lambda>k t p. True),
     DPI_SQLT_NCO = 122\<rparr>"

text \<open>The same, for a collection type \<open>SCHEMA.INT_LIST_T\<close> of a scalar element type.\<close>

definition ext_coll :: oci where
  "ext_coll = ext_ok\<lparr>o_attrGetU16 := (\<lambda>k src a. Some (if a = DPI_OCI_ATTR_TYPECODE then 122 else 0))\<rparr>"

text \<open>The service cannot allocate a describe handle; it cannot create instance data.\<close>

definition ext_no_handle :: oci where
  "ext_no_handle = ext_ok\<lparr>o_handleAlloc := (\<lambda>k. False)\<rparr>"

definition ext_no_object :: oci where
  "ext_no_object = ext_ok\<lparr>o_objectNew := (\<lambda>k h. None)\<rparr>"

text \<open>The service cannot read the schema name of a type.\<close>

definition ext_no_schema :: oci where
  "ext_no_schema = ext_ok\<lparr>o_getAttrString := (\<lambda>k p a. None)\<rparr>"

text \<open>An array in which no entry holds a descriptor.\<close>

definition no_attributes :: "nat \<Rightarrow> handle option" where
  "no_attributes = (\<lambda>i. None)"

text \<open>A store with a connection (handle 0) and nothing else.\<close>

definition s_conn :: state where
  "s_conn = \<lparr>h_tag = (\<lambda>h. None)(0 := Some DPI_HTYPE_CONN),
     h_refCount = (\<lambda>h. 0)(0 := 1),
     h_env = (\<lambda>h. 0),
     objTypes = (\<lambda>h. zeroObjectType),
     objects = (\<lambda>h. zeroObject),
     objAttrs = (\<lambda>h. zeroObjectAttr),
     nextHandle = 1,
     liveDescribe = [],
     nextDescribe = 0,
     doubleFree = False,
     clock = 0,
     events = []\<rparr>"

text \<open>
  A store with a connection (handle 0) and one object type of it (handle 1) with
  \<open>k\<close> attributes.
\<close>

definition s_type :: "16 word \<Rightarrow> state" where
  "s_type k = s_conn\<lparr>h_tag := (\<lambda>h. None)(0 := Some DPI_HTYPE_CONN, 1 := Some DPI_HTYPE_OBJECT_TYPE),
     h_refCount := (\<lambda>h. 0)(0 := 2, 1 := 1),
     objTypes := (\<lambda>h. zeroObjectType)(1 := \<lparr>conn = Some 0, tdo = Some 5, typeCode = 108,
        numAttributes = k, isCollection = False, elementTypeInfo = zeroDataTypeInfo,
        schema = Some ''SCHEMA'', schemaLength = 6, name = Some ''PERSON_T'', nameLength = 8\<rparr>),
     nextHandle := 2\<rparr>"

text \<open>
  A store with a connection (handle 0), a collection type (handle 2) and the type of
  its elements (handle 1), which only the collection type references.
\<close>

definition s_nested :: state where
  "s_nested = s_conn\<lparr>h_tag := (\<lambda>h. None)(0 := Some DPI_HTYPE_CONN, 1 := Some DPI_HTYPE_OBJECT_TYPE,
        2 := Some DPI_HTYPE_OBJECT_TYPE),
     h_refCount := (\<lambda>h. 0)(0 := 3, 1 := 1, 2 := 1),
     objTypes := (\<lambda>h. zeroObjectType)
       (1 := \<lparr>conn = Some 0, tdo = Some 5, typeCode = 108,
          numAttributes = 3, isCollection = False, elementTypeInfo = zeroDataTypeInfo,
          schema = Some ''SCHEMA'', schemaLength = 6, name = Some ''PERSON_T'', nameLength = 8\<rparr>,
        2 := \<lparr>conn = Some 0, tdo = Some 6, typeCode = 122,
          numAttributes = 0, isCollection = True,
          elementTypeInfo = \<lparr>oracleTypeNum = 23, objectType = Some 1\<rparr>,
          schema = Some ''SCHEMA'', schemaLength = 6, name = Some ''PERSON_LIST_T'', nameLength = 13\<rparr>),
     nextHandle := 3\<rparr>"

text \<open>The same store when the last reference to the collection type has just been released.\<close>

definition s_released :: state where
  "s_released = s_nested\<lparr>h_refCount := (h_refCount s_nested)(2 := 0)\<rparr>"

section \<open>Verification\<close>

lemmas st_defs = emit_def adjust_def nested_def free_storage_def clear_obj_type_def clear_conn_def clear_element_def
  free_schema_def free_name_def zero_payload_def

lemmas oci_defs = dpiUtils__getAttrStringWithDup_def attrGetPtr_def attrGetU16_def dpiOci__objectPin_def
  dpiOci__handleAlloc_def dpiOci__handleFree_def dpiOci__describeAny_def dpiOci__paramGet_def

lemmas ex_defs = s_type_def s_conn_def ext_ok_def ext_coll_def ext_no_handle_def ext_no_object_def
  ext_no_schema_def
  no_attributes_def s_nested_def s_released_def zeroObjectType_def zeroDataTypeInfo_def


text \<open>
  Claim C1. For a valid object type handle, \<^verbatim>\<open>dpiObjectType_createObject\<close> returns (a
  cascade bound of one suffices). Either it yields a new object instance that is tagged
  as such, has reference count 1, refers to the object type and has its instance data and
  null indicator, and the reference count of the object type has grown by exactly 1; or
  it yields an error, the reference count of the object type is as before, and no
  object instance exists that did not exist before: the partially built instance has
  been torn down. Releasing a reference is assumed not to fail.
\<close>

theorem createObject_refcount:
  assumes "h_tag s objType = Some DPI_HTYPE_OBJECT_TYPE" "0 < h_refCount s objType"
    "objType < nextHandle s" "release_ok ext"
  shows "\<exists>r s'. dpiObjectType_createObject ext (Suc n) objType obj_ptr s = Some (r, s')
     \<and> (case r of
          Inr obj \<Rightarrow> h_refCount s' objType = h_refCount s objType + 1
             \<and> h_tag s' = (h_tag s)(obj := Some DPI_HTYPE_OBJECT)
             \<and> h_refCount s' obj = 1
             \<and> obj_type (objects s' obj) = Some objType
             \<and> obj_instance (objects s' obj) \<noteq> None
             \<and> obj_indicator (objects s' obj) \<noteq> None
        | Inl e \<Rightarrow> h_refCount s' objType = h_refCount s objType
             \<and> (\<forall>h. h_tag s' h = Some DPI_HTYPE_OBJECT \<longrightarrow> h_tag s h = Some DPI_HTYPE_OBJECT))"
  using assms
  by (simp add: dpiObjectType_createObject_def dpiObject__allocate_def dpiGen__allocate_def dpiOci__objectNew_def dpiOci__objectGetInd_def dpiGen__startPublicFn_def release_ok_def st_defs Let_def zeroObject_def split: option.splits sum.splits)

theorem createObject_refcount_witness:
  "h_tag (s_type 3) 1 = Some DPI_HTYPE_OBJECT_TYPE \<and> 0 < h_refCount (s_type 3) 1
   \<and> 1 < nextHandle (s_type 3) \<and> release_ok ext_ok
   \<and> (\<exists>s'. dpiObjectType_createObject ext_ok (Suc 0) 1 True (s_type 3) = Some (Inr 2, s')
         \<and> h_refCount s' 1 = 2)
   \<and> (\<exists>s'. dpiObjectType_createObject (ext_ok\<lparr>o_objectNew := (\<lambda>k h. None)\<rparr>) (Suc 0) 1 True (s_type 3)
           = Some (Inl ExternalServiceError, s')
         \<and> h_refCount s' 1 = 1 \<and> h_tag s' 2 = None)"
proof -
  have h: "h_tag (s_type 3) 1 = Some DPI_HTYPE_OBJECT_TYPE" "0 < h_refCount (s_type 3) 1"
    "1 < nextHandle (s_type 3)" "release_ok ext_ok"
    "release_ok (ext_ok\<lparr>o_objectNew := (\<lambda>k h. None)\<rparr>)"
    by (simp_all add: s_type_def s_conn_def release_ok_def ext_ok_def)
  have ok: "fst (the (dpiObjectType_createObject ext_ok (Suc 0) 1 True (s_type 3))) = Inr 2"
    by (simp add: dpiObjectType_createObject_def dpiObject__allocate_def dpiGen__allocate_def dpiOci__objectNew_def dpiOci__objectGetInd_def dpiGen__startPublicFn_def st_defs Let_def s_type_def s_conn_def ext_ok_def)
  have ko: "fst (the (dpiObjectType_createObject (ext_ok\<lparr>o_objectNew := (\<lambda>k h. None)\<rparr>) (Suc 0) 1 True (s_type 3))) = Inl ExternalServiceError"
    by (simp add: dpiObjectType_createObject_def dpiObject__allocate_def dpiGen__allocate_def dpiOci__objectNew_def dpiOci__objectGetInd_def dpiGen__startPublicFn_def st_defs Let_def s_type_def s_conn_def ext_ok_def)
  have tg: "h_tag (snd (the (dpiObjectType_createObject (ext_ok\<lparr>o_objectNew := (\<lambda>k h. None)\<rparr>) (Suc 0) 1 True (s_type 3)))) 2 = None"
    by (simp add: dpiObjectType_createObject_def dpiObject__allocate_def dpiGen__allocate_def dpiOci__objectNew_def dpiOci__objectGetInd_def dpiGen__startPublicFn_def st_defs Let_def s_type_def s_conn_def ext_ok_def)
  from createObject_refcount [OF h(1-4), of 0 True] ok
  have 1: "\<exists>s'. dpiObjectType_createObject ext_ok (Suc 0) 1 True (s_type 3) = Some (Inr 2, s')
         \<and> h_refCount s' 1 = 2"
    by (auto simp: s_type_def s_conn_def)
  from createObject_refcount [OF h(1-3) h(5), of 0 True] ko tg
  have 2: "\<exists>s'. dpiObjectType_createObject (ext_ok\<lparr>o_objectNew := (\<lambda>k h. None)\<rparr>) (Suc 0) 1 True (s_type 3)
           = Some (Inl ExternalServiceError, s') \<and> h_refCount s' 1 = 1 \<and> h_tag s' 2 = None"
    by (auto simp: s_type_def s_conn_def)
  from h 1 2 show ?thesis by blast
qed

text \<open>
  Claim C6. For a valid object type handle and a capacity below the number of attributes
  of the type, \<^verbatim>\<open>dpiObjectType_getAttributes\<close> fails with
  \<^verbatim>\<open>DPI_ERR_ARRAY_SIZE_TOO_SMALL\<close>; the caller's array and the whole state are as before.
\<close>

theorem getAttributes_too_small:
  assumes "h_tag s objType = Some DPI_HTYPE_OBJECT_TYPE"
    and "numAttrs < numAttributes (objTypes s objType)"
  shows "dpiObjectType_getAttributes ext objType numAttrs (Some arr) s
           = (Inl DPI_ERR_ARRAY_SIZE_TOO_SMALL, Some arr, s)"
  using assms by (simp add: dpiObjectType_getAttributes_def dpiGen__startPublicFn_def)

theorem getAttributes_too_small_witness:
  "h_tag (s_type 3) 1 = Some DPI_HTYPE_OBJECT_TYPE
   \<and> (2 :: 16 word) < numAttributes (objTypes (s_type 3) 1)
   \<and> dpiObjectType_getAttributes ext_ok 1 2 (Some no_attributes) (s_type 3)
       = (Inl DPI_ERR_ARRAY_SIZE_TOO_SMALL, Some no_attributes, s_type 3)"
proof -
  have h: "h_tag (s_type 3) 1 = Some DPI_HTYPE_OBJECT_TYPE"
    "(2 :: 16 word) < numAttributes (objTypes (s_type 3) 1)"
    by (simp_all add: ex_defs)
  from h getAttributes_too_small [OF h, of ext_ok no_attributes] show ?thesis by simp
qed

text \<open>
  Claim C5, as stated, fails: on a valid handle the call still fails when the pointer
  \<^verbatim>\<open>info\<close> is NULL, so an invalid handle is not the only cause of failure.
\<close>

theorem getInfo_null_counterexample:
  "h_tag (s_type 3) 1 = Some DPI_HTYPE_OBJECT_TYPE
   \<and> fst (dpiObjectType_getInfo 1 False (s_type 3)) = Inl NullPointerParameter"
  by (simp add: dpiObjectType_getInfo_def dpiGen__startPublicFn_def ex_defs)

text \<open>
  Claim C5, amended. \<^verbatim>\<open>dpiObjectType_getInfo\<close> leaves the state as it is, so no field of the
  descriptor and no reference count changes. It fails with \<open>InvalidHandle\<close> when the handle
  is not a valid object type, with \<open>NullPointerParameter\<close> when the handle is valid and
  \<^verbatim>\<open>info\<close> is NULL, and in no other case; otherwise it yields the name, schema, collection
  flag, element type information and number of attributes of the descriptor.
\<close>

theorem getInfo_snapshot:
  "snd (dpiObjectType_getInfo objType info_ptr s) = s
    \<and> fst (dpiObjectType_getInfo objType info_ptr s) =
        (if h_tag s objType \<noteq> Some DPI_HTYPE_OBJECT_TYPE then Inl InvalidHandle
         else if \<not> info_ptr then Inl NullPointerParameter
         else Inr \<lparr>info_name = name (objTypes s objType),
                 info_nameLength = nameLength (objTypes s objType),
                 info_schema = schema (objTypes s objType),
                 info_schemaLength = schemaLength (objTypes s objType),
                 info_isCollection = isCollection (objTypes s objType),
                 info_elementTypeInfo = elementTypeInfo (objTypes s objType),
                 info_numAttributes = numAttributes (objTypes s objType)\<rparr>)"
  by (simp add: dpiObjectType_getInfo_def dpiGen__startPublicFn_def)

theorem getInfo_snapshot_witness:
  "dpiObjectType_getInfo 1 True (s_type 3) =
     (Inr \<lparr>info_name = Some ''PERSON_T'', info_nameLength = 8, info_schema = Some ''SCHEMA'',
           info_schemaLength = 6, info_isCollection = False,
           info_elementTypeInfo = zeroDataTypeInfo, info_numAttributes = 3\<rparr>, s_type 3)
   \<and> dpiObjectType_getInfo 0 True (s_type 3) = (Inl InvalidHandle, s_type 3)
   \<and> dpiObjectType_getInfo 1 False (s_type 3) = (Inl NullPointerParameter, s_type 3)"
proof -
  have a: "h_tag (s_type 3) 1 = Some DPI_HTYPE_OBJECT_TYPE" "h_tag (s_type 3) 0 \<noteq> Some DPI_HTYPE_OBJECT_TYPE"
    by (simp_all add: ex_defs)
  from getInfo_snapshot [of 1 True "s_type 3"] getInfo_snapshot [of 0 True "s_type 3"]
    getInfo_snapshot [of 1 False "s_type 3"] a
  have "dpiObjectType_getInfo 1 True (s_type 3) =
     (Inr \<lparr>info_name = name (objTypes (s_type 3) 1),
                 info_nameLength = nameLength (objTypes (s_type 3) 1),
                 info_schema = schema (objTypes (s_type 3) 1),
                 info_schemaLength = schemaLength (objTypes (s_type 3) 1),
                 info_isCollection = isCollection (objTypes (s_type 3) 1),
                 info_elementTypeInfo = elementTypeInfo (objTypes (s_type 3) 1),
                 info_numAttributes = numAttributes (objTypes (s_type 3) 1)\<rparr>, s_type 3)"
    and "dpiObjectType_getInfo 0 True (s_type 3) = (Inl InvalidHandle, s_type 3)"
    and "dpiObjectType_getInfo 1 False (s_type 3) = (Inl NullPointerParameter, s_type 3)"
    by (simp_all add: prod_eq_iff)
  then show ?thesis by (simp add: ex_defs)
qed

lemma loop_done:
  "\<not> i < unat (numAttributes (objTypes s objType)) \<Longrightarrow>
   getAttributes_loop ext objType l i arr s = (None, arr, s)"
  by (subst getAttributes_loop.simps) simp

text \<open>
  Claim C4, as stated, fails: for a type without attributes and a capacity of 5, the
  function goes on to allocate a describe handle and to describe the type. It fails when
  the service fails, and when the service answers, its trace holds the external calls.
\<close>

theorem getAttributes_capacity_counterexample:
  "h_tag (s_type 0) 1 = Some DPI_HTYPE_OBJECT_TYPE
   \<and> numAttributes (objTypes (s_type 0) 1) = 0
   \<and> fst (dpiObjectType_getAttributes ext_no_handle 1 5 (Some no_attributes) (s_type 0))
       = Inl ExternalServiceError
   \<and> events (snd (snd (dpiObjectType_getAttributes ext_ok 1 5 (Some no_attributes) (s_type 0))))
       = [E_HandleAlloc (Some 0), E_DescribeAny (Some 0) (Some 5) 0 True,
          E_AttrGetPtr 0 DPI_OCI_ATTR_PARAM (Some 10),
          E_AttrGetPtr 10 DPI_OCI_ATTR_LIST_TYPE_ATTRS (Some 20), E_HandleFree 0]"
  by (simp add: dpiObjectType_getAttributes_def dpiGen__startPublicFn_def oci_defs loop_done emit_def ex_defs)

text \<open>
  Claim C4, amended. For a valid object type handle whose type has no attributes: with a
  NULL array the call fails with \<open>NullPointerParameter\<close> and the state is as before; with
  an array and a capacity of 0 it succeeds and the state is as before, so no external
  call was made and nothing was written; with an array and a capacity above 0 it
  allocates a describe handle, describes the type through it, reads the top-level
  parameter and the attribute list parameter, stops at the first of these four calls
  that fails and then fails with \<open>ExternalServiceError\<close>, succeeds when all four succeed,
  writes nothing to the array, and releases the describe handle it allocated, so that no
  describe handle is left allocated or released twice.
\<close>

theorem getAttributes_no_attributes:
  assumes "h_tag s objType = Some DPI_HTYPE_OBJECT_TYPE"
    and "numAttributes (objTypes s objType) = 0"
  shows "dpiObjectType_getAttributes ext objType numAttrs None s = (Inl NullPointerParameter, None, s)
    \<and> dpiObjectType_getAttributes ext objType 0 (Some arr) s = (Inr (), Some arr, s)
    \<and> (numAttrs \<noteq> 0 \<longrightarrow>
         fst (snd (dpiObjectType_getAttributes ext objType numAttrs (Some arr) s)) = Some arr
       \<and> balanced s (snd (snd (dpiObjectType_getAttributes ext objType numAttrs (Some arr) s)))
       \<and> (if \<not> o_handleAlloc ext (clock s) then
            fst (dpiObjectType_getAttributes ext objType numAttrs (Some arr) s) = Inl ExternalServiceError
            \<and> new_events s (snd (snd (dpiObjectType_getAttributes ext objType numAttrs (Some arr) s)))
                = [E_HandleAlloc None]
          else if \<not> o_describeAny ext (Suc (clock s)) (conn (objTypes s objType))
                      (tdo (objTypes s objType)) (nextDescribe s) then
            fst (dpiObjectType_getAttributes ext objType numAttrs (Some arr) s) = Inl ExternalServiceError
            \<and> new_events s (snd (snd (dpiObjectType_getAttributes ext objType numAttrs (Some arr) s)))
                = [E_HandleAlloc (Some (nextDescribe s)),
                   E_DescribeAny (conn (objTypes s objType)) (tdo (objTypes s objType)) (nextDescribe s) False,
                   E_HandleFree (nextDescribe s)]
          else (case o_attrGetPtr ext (Suc (Suc (clock s))) (nextDescribe s) DPI_OCI_ATTR_PARAM of
             None \<Rightarrow>
               fst (dpiObjectType_getAttributes ext objType numAttrs (Some arr) s) = Inl ExternalServiceError
               \<and> new_events s (snd (snd (dpiObjectType_getAttributes ext objType numAttrs (Some arr) s)))
                   = [E_HandleAlloc (Some (nextDescribe s)),
                      E_DescribeAny (conn (objTypes s objType)) (tdo (objTypes s objType)) (nextDescribe s) True,
                      E_AttrGetPtr (nextDescribe s) DPI_OCI_ATTR_PARAM None,
                      E_HandleFree (nextDescribe s)]
           | Some topParam \<Rightarrow>
              (case o_attrGetPtr ext (Suc (Suc (Suc (clock s)))) topParam DPI_OCI_ATTR_LIST_TYPE_ATTRS of
                 None \<Rightarrow>
                   fst (dpiObjectType_getAttributes ext objType numAttrs (Some arr) s) = Inl ExternalServiceError
                   \<and> new_events s (snd (snd (dpiObjectType_getAttributes ext objType numAttrs (Some arr) s)))
                       = [E_HandleAlloc (Some (nextDescribe s)),
                          E_DescribeAny (conn (objTypes s objType)) (tdo (objTypes s objType)) (nextDescribe s) True,
                          E_AttrGetPtr (nextDescribe s) DPI_OCI_ATTR_PARAM (Some topParam),
                          E_AttrGetPtr topParam DPI_OCI_ATTR_LIST_TYPE_ATTRS None,
                          E_HandleFree (nextDescribe s)]
               | Some lst \<Rightarrow>
                   fst (dpiObjectType_getAttributes ext objType numAttrs (Some arr) s) = Inr ()
                   \<and> new_events s (snd (snd (dpiObjectType_getAttributes ext objType numAttrs (Some arr) s)))
                       = [E_HandleAlloc (Some (nextDescribe s)),
                          E_DescribeAny (conn (objTypes s objType)) (tdo (objTypes s objType)) (nextDescribe s) True,
                          E_AttrGetPtr (nextDescribe s) DPI_OCI_ATTR_PARAM (Some topParam),
                          E_AttrGetPtr topParam DPI_OCI_ATTR_LIST_TYPE_ATTRS (Some lst),
                          E_HandleFree (nextDescribe s)]))))"
  using assms
  by (auto simp: dpiObjectType_getAttributes_def dpiGen__startPublicFn_def oci_defs loop_done emit_def
      balanced_def new_events_def split: option.splits bool.splits)

theorem getAttributes_no_attributes_witness:
  "h_tag (s_type 0) 1 = Some DPI_HTYPE_OBJECT_TYPE
   \<and> numAttributes (objTypes (s_type 0) 1) = 0
   \<and> dpiObjectType_getAttributes ext_ok 1 0 (Some no_attributes) (s_type 0)
        = (Inr (), Some no_attributes, s_type 0)
   \<and> fst (dpiObjectType_getAttributes ext_ok 1 5 (Some no_attributes) (s_type 0)) = Inr ()
   \<and> fst (snd (dpiObjectType_getAttributes ext_ok 1 5 (Some no_attributes) (s_type 0)))
        = Some no_attributes
   \<and> new_events (s_type 0) (snd (snd (dpiObjectType_getAttributes ext_ok 1 5 (Some no_attributes) (s_type 0))))
        = [E_HandleAlloc (Some 0), E_DescribeAny (Some 0) (Some 5) 0 True,
           E_AttrGetPtr 0 DPI_OCI_ATTR_PARAM (Some 10),
           E_AttrGetPtr 10 DPI_OCI_ATTR_LIST_TYPE_ATTRS (Some 20), E_HandleFree 0]
   \<and> fst (dpiObjectType_getAttributes ext_no_handle 1 5 (Some no_attributes) (s_type 0))
        = Inl ExternalServiceError"
proof -
  have h: "h_tag (s_type 0) 1 = Some DPI_HTYPE_OBJECT_TYPE"
    "numAttributes (objTypes (s_type 0) 1) = 0"
    by (simp_all add: ex_defs)
  have n: "(5 :: 16 word) \<noteq> 0" by simp
  have o: "o_handleAlloc ext_ok (clock (s_type 0))" "\<not> o_handleAlloc ext_no_handle (clock (s_type 0))"
    "o_describeAny ext_ok (Suc (clock (s_type 0))) (conn (objTypes (s_type 0) 1))
       (tdo (objTypes (s_type 0) 1)) (nextDescribe (s_type 0))"
    "o_attrGetPtr ext_ok (Suc (Suc (clock (s_type 0)))) (nextDescribe (s_type 0)) DPI_OCI_ATTR_PARAM
       = Some 10"
    "o_attrGetPtr ext_ok (Suc (Suc (Suc (clock (s_type 0))))) 10 DPI_OCI_ATTR_LIST_TYPE_ATTRS = Some 20"
    "nextDescribe (s_type 0) = 0" "conn (objTypes (s_type 0) 1) = Some 0"
    "tdo (objTypes (s_type 0) 1) = Some 5"
    by (simp_all add: ex_defs)
  from getAttributes_no_attributes [OF h, of ext_ok 5 no_attributes] n o
  have a: "dpiObjectType_getAttributes ext_ok 1 0 (Some no_attributes) (s_type 0)
        = (Inr (), Some no_attributes, s_type 0)
   \<and> fst (dpiObjectType_getAttributes ext_ok 1 5 (Some no_attributes) (s_type 0)) = Inr ()
   \<and> fst (snd (dpiObjectType_getAttributes ext_ok 1 5 (Some no_attributes) (s_type 0)))
        = Some no_attributes
   \<and> new_events (s_type 0) (snd (snd (dpiObjectType_getAttributes ext_ok 1 5 (Some no_attributes) (s_type 0))))
        = [E_HandleAlloc (Some 0), E_DescribeAny (Some 0) (Some 5) 0 True,
           E_AttrGetPtr 0 DPI_OCI_ATTR_PARAM (Some 10),
           E_AttrGetPtr 10 DPI_OCI_ATTR_LIST_TYPE_ATTRS (Some 20), E_HandleFree 0]"
    by simp
  from getAttributes_no_attributes [OF h, of ext_no_handle 5 no_attributes] n o(2)
  have b: "fst (dpiObjectType_getAttributes ext_no_handle 1 5 (Some no_attributes) (s_type 0))
        = Inl ExternalServiceError"
    by simp
  from h a b show ?thesis by blast
qed

lemma param_positions_append [simp]:
  "param_positions (es @ fs) = param_positions es @ param_positions fs"
  by (induction es rule: param_positions.induct) simp_all

lemma param_answers_append [simp]:
  "param_answers (es @ fs) = param_answers es @ param_answers fs"
  by (induction es rule: param_answers.induct) simp_all

lemma loop_step:
  assumes "i < unat (numAttributes (objTypes s t))"
    and "getAttributes_loop ext t l i arr s = (None, arr', s')"
  shows "\<exists>p s2. o_paramGet ext (clock s) l (Suc i) = Some p
     \<and> getAttributes_loop ext t l (Suc i) (arr(i := Some (nextHandle s))) s2 = (None, arr', s')
     \<and> objTypes s2 = objTypes s \<and> nextHandle s2 = Suc (nextHandle s)
     \<and> objAttrs s2 = (objAttrs s)(nextHandle s := \<lparr>attr_belongsTo = Some t, attr_source = Some p\<rparr>)
     \<and> param_positions (events s2) = param_positions (events s) @ [Suc i]
     \<and> param_answers (events s2) = param_answers (events s) @ [Some p]
     \<and> events s2 = events s @ drop (length (events s)) (events s2)"
  using assms
  apply (subst (asm) getAttributes_loop.simps)
  apply (auto simp: dpiOci__paramGet_def dpiObjectAttr__allocate_def dpiGen__allocate_def
      zero_payload_def emit_def free_storage_def Let_def zeroObjectAttr_def
      split: option.splits if_splits sum.splits)
  done


lemma loop_success:
  assumes "getAttributes_loop ext t l i arr s = (None, arr', s')"
    and "i \<le> N" and "N = unat (numAttributes (objTypes s t))"
  shows "objTypes s' = objTypes s \<and> nextHandle s' = nextHandle s + (N - i)
     \<and> (\<forall>a < nextHandle s. objAttrs s' a = objAttrs s a)
     \<and> param_positions (events s') = param_positions (events s) @ map Suc [i..<N]
     \<and> param_answers (events s') = param_answers (events s)
          @ map (\<lambda>j. attr_source (objAttrs s' (nextHandle s + (j - i)))) [i..<N]
     \<and> (\<forall>j. arr' j = (if i \<le> j \<and> j < N then Some (nextHandle s + (j - i)) else arr j))
     \<and> (\<forall>j. i \<le> j \<and> j < N \<longrightarrow> attr_belongsTo (objAttrs s' (nextHandle s + (j - i))) = Some t)
     \<and> (\<exists>es. events s' = events s @ es)"
  using assms
proof (induction "N - i" arbitrary: i arr s)
  case 0
  then have "i = N" by simp
  with 0 have "getAttributes_loop ext t l i arr s = (None, arr, s)"
    by (simp add: loop_done)
  with 0 \<open>i = N\<close> show ?case by auto
next
  case (Suc k)
  then have lt: "i < unat (numAttributes (objTypes s t))" by simp
  from loop_step [OF lt Suc.prems(1)] obtain p s2 where
    rec: "getAttributes_loop ext t l (Suc i) (arr(i := Some (nextHandle s))) s2 = (None, arr', s')"
    and ot: "objTypes s2 = objTypes s" and nh: "nextHandle s2 = Suc (nextHandle s)"
    and oa: "objAttrs s2 = (objAttrs s)(nextHandle s := \<lparr>attr_belongsTo = Some t, attr_source = Some p\<rparr>)"
    and pp: "param_positions (events s2) = param_positions (events s) @ [Suc i]"
    and pa: "param_answers (events s2) = param_answers (events s) @ [Some p]"
    and ev: "events s2 = events s @ drop (length (events s)) (events s2)"
    by blast
  have k: "k = N - Suc i" using Suc.hyps(2) by simp
  have le: "Suc i \<le> N" using lt Suc.prems(3) by simp
  have N2: "N = unat (numAttributes (objTypes s2 t))" using Suc.prems(3) ot by simp
  note IH = Suc.hyps(1) [OF k rec le N2]
  have upt: "[i..<N] = i # [Suc i..<N]" using le by (simp add: upt_conv_Cons)
  have here: "objAttrs s' (nextHandle s) = \<lparr>attr_belongsTo = Some t, attr_source = Some p\<rparr>"
    using IH nh oa by simp
  have shift: "\<And>j. Suc i \<le> j \<Longrightarrow> nextHandle s2 + (j - Suc i) = nextHandle s + (j - i)"
    using nh by simp
  have m: "map (\<lambda>j. attr_source (objAttrs s' (nextHandle s2 + (j - Suc i)))) [Suc i..<N]
         = map (\<lambda>j. attr_source (objAttrs s' (nextHandle s + (j - i)))) [Suc i..<N]"
  proof (rule map_cong)
    fix x assume "x \<in> set [Suc i..<N]"
    then have "Suc i \<le> x" by simp
    then have "nextHandle s2 + (x - Suc i) = nextHandle s + (x - i)" using nh by arith
    then show "attr_source (objAttrs s' (nextHandle s2 + (x - Suc i)))
        = attr_source (objAttrs s' (nextHandle s + (x - i)))" by (simp only:)
  qed simp
  have c1: "objTypes s' = objTypes s" using IH ot by simp
  have c2: "nextHandle s' = nextHandle s + (N - i)" using IH nh le by simp
  have c3: "\<forall>a < nextHandle s. objAttrs s' a = objAttrs s a" using IH nh oa by simp
  have c4: "param_positions (events s') = param_positions (events s) @ map Suc [i..<N]"
    using IH pp upt by simp
  have c5: "param_answers (events s') = param_answers (events s)
          @ map (\<lambda>j. attr_source (objAttrs s' (nextHandle s + (j - i)))) [i..<N]"
    using IH pa upt m here by simp
  have c6: "\<forall>j. arr' j = (if i \<le> j \<and> j < N then Some (nextHandle s + (j - i)) else arr j)"
  proof
    fix j
    from IH have a: "arr' j = (if Suc i \<le> j \<and> j < N then Some (nextHandle s2 + (j - Suc i))
        else (arr(i := Some (nextHandle s))) j)" by blast
    show "arr' j = (if i \<le> j \<and> j < N then Some (nextHandle s + (j - i)) else arr j)"
      using a le shift [of j] by (cases "j = i") auto
  qed
  have c7: "\<forall>j. i \<le> j \<and> j < N \<longrightarrow> attr_belongsTo (objAttrs s' (nextHandle s + (j - i))) = Some t"
  proof (intro allI impI)
    fix j assume j: "i \<le> j \<and> j < N"
    show "attr_belongsTo (objAttrs s' (nextHandle s + (j - i))) = Some t"
    proof (cases "j = i")
      case True then show ?thesis using here by simp
    next
      case False
      with j have "Suc i \<le> j \<and> j < N" by simp
      with IH shift [of j] show ?thesis by auto
    qed
  qed
  from IH obtain es where "events s' = events s2 @ es" by blast
  with ev have "events s' = events s @ (drop (length (events s)) (events s2) @ es)" by simp
  then have c8: "\<exists>es. events s' = events s @ es" by blast
  from c1 c2 c3 c4 c5 c6 c7 c8 show ?case by blast
qed

text \<open>
  Claim C8. When \<^verbatim>\<open>dpiObjectType_getAttributes\<close> succeeds on a type with N > 0 attributes,
  it has asked \<^verbatim>\<open>dpiOci__paramGet\<close> for the positions 1, ..., N in this order and for no
  other; entry i of the caller's array, for i < N, holds a new attribute descriptor of
  its own (the i-th handle allocated by the call), which belongs to the type and was
  materialized from the sub-parameter answered for position i + 1; the entries from N on
  are as before.
\<close>

theorem getAttributes_in_order:
  assumes "dpiObjectType_getAttributes ext objType numAttrs (Some arr) s = (Inr (), Some arr', s')"
    and "N = unat (numAttributes (objTypes s objType))" and "0 < N"
  shows "param_positions (new_events s s') = map Suc [0..<N]
    \<and> (\<forall>i. arr' i = (if i < N then Some (nextHandle s + i) else arr i))
    \<and> (\<forall>i < N. attr_belongsTo (objAttrs s' (nextHandle s + i)) = Some objType)
    \<and> map (\<lambda>i. attr_source (objAttrs s' (nextHandle s + i))) [0..<N] = param_answers (new_events s s')"
proof -
  have nz: "0 < numAttributes (objTypes s objType)" using assms(2,3) by (simp add: unat_gt_0 word_gt_0)
  obtain a1 s1 where r1: "dpiOci__handleAlloc ext s = (a1, s1)" by fastforce
  obtain b2 s2 where r2: "dpiOci__describeAny ext (conn (objTypes s1 objType))
      (tdo (objTypes s1 objType)) (the a1) s1 = (b2, s2)" by fastforce
  obtain a3 s3 where r3: "attrGetPtr ext (the a1) DPI_OCI_ATTR_PARAM s2 = (a3, s3)" by fastforce
  obtain a4 s4 where r4: "attrGetPtr ext (the a3) DPI_OCI_ATTR_LIST_TYPE_ATTRS s3 = (a4, s4)"
    by fastforce
  obtain b5 arr5 s5 where r5: "getAttributes_loop ext objType (the a4) 0 arr s4 = (b5, arr5, s5)"
    by (metis prod_cases3)
  from assms(1) nz r1 r2 r3 r4 r5
  have path: "b5 = None \<and> arr5 = arr' \<and> s' = dpiOci__handleFree (the a1) s5"
    by (auto simp: dpiObjectType_getAttributes_def split: option.splits bool.splits if_splits)
  have e1: "objTypes s1 = objTypes s \<and> nextHandle s1 = nextHandle s
      \<and> (\<exists>e. events s1 = events s @ [E_HandleAlloc e])"
    using r1 by (auto simp: oci_defs emit_def split: if_splits)
  have e2: "objTypes s2 = objTypes s1 \<and> nextHandle s2 = nextHandle s1
      \<and> (\<exists>c t d b. events s2 = events s1 @ [E_DescribeAny c t d b])"
    using r2 by (auto simp: oci_defs emit_def)
  have e3: "objTypes s3 = objTypes s2 \<and> nextHandle s3 = nextHandle s2
      \<and> (\<exists>c a r. events s3 = events s2 @ [E_AttrGetPtr c a r])"
    using r3 by (auto simp: oci_defs emit_def)
  have e4: "objTypes s4 = objTypes s3 \<and> nextHandle s4 = nextHandle s3
      \<and> (\<exists>c a r. events s4 = events s3 @ [E_AttrGetPtr c a r])"
    using r4 by (auto simp: oci_defs emit_def)
  from e1 e2 e3 e4 obtain pre where ev4: "events s4 = events s @ pre"
    and pre: "param_positions pre = []" "param_answers pre = []"
    by fastforce
  have ot: "objTypes s4 = objTypes s" and nh: "nextHandle s4 = nextHandle s"
    using e1 e2 e3 e4 by simp_all
  define dh where "dh = the a1"
  have loop: "getAttributes_loop ext objType (the a4) 0 arr s4 = (None, arr', s5)"
    using r5 path by simp
  have ev': "events s' = events s5 @ [E_HandleFree dh]" and oa: "objAttrs s' = objAttrs s5"
    using path by (simp_all add: dpiOci__handleFree_def emit_def dh_def)
  have N4: "N = unat (numAttributes (objTypes s4 objType))" using assms(2) ot by simp
  note L = loop_success [OF loop _ N4, simplified]
  from L obtain es where es: "events s5 = events s4 @ es" by blast
  have ne: "new_events s s' = pre @ es @ [E_HandleFree dh]"
    using ev' es ev4 by (simp add: new_events_def)
  have pp: "param_positions es = map Suc [0..<N]" using L es by simp
  have pa: "param_answers es = map (\<lambda>j. attr_source (objAttrs s5 (nextHandle s4 + j))) [0..<N]"
    using L es by simp
  show ?thesis using L ne pp pa pre oa nh by simp
qed


theorem getAttributes_in_order_witness:
  "\<exists>arr' s'. dpiObjectType_getAttributes ext_ok 1 3 (Some no_attributes) (s_type 3)
        = (Inr (), Some arr', s')
     \<and> (3::nat) = unat (numAttributes (objTypes (s_type 3) 1)) \<and> (0::nat) < 3
     \<and> param_positions (new_events (s_type 3) s') = [1, 2, 3]
     \<and> arr' 0 = Some 2 \<and> arr' 1 = Some 3 \<and> arr' 2 = Some 4 \<and> arr' 3 = None"
proof -
  have run: "case dpiObjectType_getAttributes ext_ok 1 3 (Some no_attributes) (s_type 3) of
      (r, a, s') \<Rightarrow> r = Inr () \<and> a \<noteq> None"
    by (simp add: dpiObjectType_getAttributes_def dpiGen__startPublicFn_def oci_defs
        getAttributes_loop.simps dpiObjectAttr__allocate_def dpiGen__allocate_def
        zero_payload_def emit_def ex_defs)
  then obtain arr' s' where eq: "dpiObjectType_getAttributes ext_ok 1 3 (Some no_attributes) (s_type 3)
        = (Inr (), Some arr', s')"
    by (cases "dpiObjectType_getAttributes ext_ok 1 3 (Some no_attributes) (s_type 3)") auto
  have N: "(3::nat) = unat (numAttributes (objTypes (s_type 3) 1))" by (simp add: ex_defs)
  have pos: "(0::nat) < 3" by simp
  have nh: "nextHandle (s_type 3) = 2" by (simp add: ex_defs)
  have u: "[0..<3] = [0, 1, 2]" by (simp add: upt_rec)
  from getAttributes_in_order [OF eq N pos]
  have "param_positions (new_events (s_type 3) s') = [1, 2, 3]
     \<and> arr' 0 = Some 2 \<and> arr' 1 = Some 3 \<and> arr' 2 = Some 4 \<and> arr' 3 = None"
    by (simp add: nh u no_attributes_def)
  with eq N pos show ?thesis by blast
qed

lemma untouched_free_object_type:
  assumes sr: "\<And>x s s' r. dpiGen__setRefCount ext n x (- 1) s = Some (r, s') \<Longrightarrow>
      h_refCount s h \<le> 0 \<Longrightarrow> untouched h s s'"
    and "dpiObjectType__free ext n x s = Some s'" "x \<noteq> h" "h_refCount s h \<le> 0"
  shows "untouched h s s'"
proof -
  obtain s1 where s1: "(case conn (objTypes s x) of None \<Rightarrow> Some s
      | Some c \<Rightarrow> map_option (\<lambda>r. clear_conn x (snd r)) (dpiGen__setRefCount ext n c (- 1) s)) = Some s1"
    using assms(2) by (auto split: option.splits)
  have u1: "untouched h s s1"
  proof (cases "conn (objTypes s x)")
    case None with s1 assms(4) show ?thesis by (simp add: untouched_def)
  next
    case (Some c)
    with s1 obtain r t where t: "dpiGen__setRefCount ext n c (- 1) s = Some (r, t)" "s1 = clear_conn x t"
      by auto
    from sr [OF t(1) assms(4)] t(2) assms(3) show ?thesis
      by (simp add: untouched_def clear_conn_def)
  qed
  obtain s2 where s2: "(case objectType (elementTypeInfo (objTypes s1 x)) of None \<Rightarrow> Some s1
      | Some e \<Rightarrow> map_option (\<lambda>r. clear_element x (snd r)) (dpiGen__setRefCount ext n e (- 1) s1)) = Some s2"
    and s': "s' = free_storage x (free_name x (free_schema x s2))"
    using assms(2) s1 by (auto split: option.splits)
  have c1: "h_refCount s1 h \<le> 0" using u1 by (simp add: untouched_def)
  have u2: "untouched h s1 s2"
  proof (cases "objectType (elementTypeInfo (objTypes s1 x))")
    case None with s2 c1 show ?thesis by (simp add: untouched_def)
  next
    case (Some e)
    with s2 obtain r t where t: "dpiGen__setRefCount ext n e (- 1) s1 = Some (r, t)" "s2 = clear_element x t"
      by auto
    from sr [OF t(1) c1] t(2) assms(3) show ?thesis
      by (simp add: untouched_def clear_element_def)
  qed
  have u3: "untouched h s2 s'"
    using s' assms(3) u2
    by (simp add: untouched_def free_storage_def free_name_def free_schema_def emit_def split: option.splits)
  from u1 u2 u3 show ?thesis by (simp add: untouched_def)
qed


lemma untouched_free_object:
  assumes sr: "\<And>x s s' r. dpiGen__setRefCount ext n x (- 1) s = Some (r, s') \<Longrightarrow>
      h_refCount s h \<le> 0 \<Longrightarrow> untouched h s s'"
    and "dpiObject__free ext n x s = Some s'" "x \<noteq> h" "h_refCount s h \<le> 0"
  shows "untouched h s s'"
proof (cases "obj_type (objects s x)")
  case None
  with assms(2-4) show ?thesis by (auto simp: untouched_def free_storage_def emit_def)
next
  case (Some t)
  with assms(2) obtain r u where u: "dpiGen__setRefCount ext n t (- 1) s = Some (r, u)"
    "s' = free_storage x (clear_obj_type x u)"
    by (auto split: option.splits)
  from sr [OF u(1) assms(4)] u(2) assms(3) show ?thesis
    by (auto simp: untouched_def free_storage_def clear_obj_type_def emit_def)
qed

lemma untouched_setRefCount:
  assumes fp: "\<And>x s s'. freeProc ext n x s = Some s' \<Longrightarrow> x \<noteq> h \<Longrightarrow>
      h_refCount s h \<le> 0 \<Longrightarrow> untouched h s s'"
    and "dpiGen__setRefCount ext n x d s = Some (r, s')" "d < 0" "h_refCount s h \<le> 0"
  shows "untouched h s s'"
proof (cases "o_setRefCount ext (clock s) x d \<and> h_refCount (adjust x d s) x = 0")
  case False
  with assms(2-4) show ?thesis
    by (auto simp: untouched_def adjust_def emit_def split: if_splits)
next
  case True
  with assms(2) obtain t where t: "freeProc ext n x ((adjust x d s)\<lparr>events := []\<rparr>) = Some t"
    "s' = nested (E_FreeProc x) (adjust x d s) t"
    by (auto split: option.splits)
  from True assms(3,4) have ne: "x \<noteq> h" by (auto simp: adjust_def emit_def)
  with assms(4) have c: "h_refCount ((adjust x d s)\<lparr>events := []\<rparr>) h \<le> 0"
    by (simp add: adjust_def emit_def)
  from fp [OF t(1) ne c] t(2) ne show ?thesis
    by (simp add: untouched_def nested_def adjust_def emit_def)
qed

lemma untouched_cascade:
  "(\<forall>x s s'. freeProc ext n x s = Some s' \<longrightarrow> x \<noteq> h \<longrightarrow> h_refCount s h \<le> 0 \<longrightarrow> untouched h s s')"
proof (induction n)
  case 0
  show ?case by simp
next
  case (Suc n)
  have sr: "\<And>x s s' r. dpiGen__setRefCount ext n x (- 1) s = Some (r, s') \<Longrightarrow>
      h_refCount s h \<le> 0 \<Longrightarrow> untouched h s s'"
    using untouched_setRefCount [where d = "- 1" and n = n and ext = ext and h = h] Suc.IH
    by (metis neg_less_0_iff_less zero_less_one)
  show ?case
  proof (intro allI impI)
    fix x s s'
    assume a: "freeProc ext (Suc n) x s = Some s'" "x \<noteq> h" "h_refCount s h \<le> 0"
    show "untouched h s s'"
    proof (cases "h_tag s x")
      case None
      with a show ?thesis by (simp add: untouched_def)
    next
      case (Some k)
      show ?thesis
      proof (cases k)
        case DPI_HTYPE_OBJECT_TYPE
        with Some a(1) have "dpiObjectType__free ext n x s = Some s'" by simp
        from untouched_free_object_type [OF sr this a(2,3)] show ?thesis by simp
      next
        case DPI_HTYPE_OBJECT
        with Some a(1) have "dpiObject__free ext n x s = Some s'" by simp
        from untouched_free_object [OF sr this a(2,3)] show ?thesis by simp
      next
        case DPI_HTYPE_CONN
        with Some a show ?thesis by (auto simp: untouched_def free_storage_def emit_def)
      next
        case DPI_HTYPE_OBJECT_ATTR
        with Some a show ?thesis by (auto simp: untouched_def free_storage_def emit_def)
      qed
    qed
  qed
qed

lemma release_untouched:
  assumes "dpiGen__setRefCount ext n x (- 1) s = Some (r, s')" "h_refCount s h \<le> 0"
  shows "untouched h s s'"
  using untouched_setRefCount [where d = "- 1" and n = n and ext = ext and h = h, OF _ assms(1) _ assms(2)]
    untouched_cascade [of ext n h]
  by simp

lemma own_calls_append [simp]: "own_calls (es @ fs) = own_calls es @ own_calls fs"
  by (induction es rule: own_calls.induct) simp_all

lemma setRefCount_events:
  assumes "dpiGen__setRefCount ext n x d s = Some (r, s')"
  shows "\<exists>es. events s' = events s @ es \<and> own_calls es = [E_SetRefCount x d r]
      \<and> r = o_setRefCount ext (clock s) x d"
  using assms
  by (auto simp: adjust_def emit_def nested_def split: if_splits option.splits)


lemma objectType_free_trace:
  assumes "release_ok ext" and "h_refCount s objType \<le> 0"
    and "dpiObjectType__free ext n objType s = Some s'"
  shows "own_calls (new_events s s') =
      (case conn (objTypes s objType) of None \<Rightarrow> [] | Some c \<Rightarrow> [E_SetRefCount c (- 1) True])
      @ (case objectType (elementTypeInfo (objTypes s objType)) of
           None \<Rightarrow> [] | Some e \<Rightarrow> [E_SetRefCount e (- 1) True])
      @ (case schema (objTypes s objType) of None \<Rightarrow> [] | Some str \<Rightarrow> [E_FreeString str])
      @ (case name (objTypes s objType) of None \<Rightarrow> [] | Some str \<Rightarrow> [E_FreeString str])
      @ [E_Free objType]
    \<and> h_tag s' objType = None"
proof -
  let ?t = "objTypes s objType"
  obtain s1 where s1: "(case conn ?t of None \<Rightarrow> Some s
      | Some c \<Rightarrow> map_option (\<lambda>r. clear_conn objType (snd r)) (dpiGen__setRefCount ext n c (- 1) s)) = Some s1"
    using assms(3) by (auto split: option.splits)
  have p1: "\<exists>es. events s1 = events s @ es
      \<and> own_calls es = (case conn ?t of None \<Rightarrow> [] | Some c \<Rightarrow> [E_SetRefCount c (- 1) True])
      \<and> h_refCount s1 objType \<le> 0
      \<and> objectType (elementTypeInfo (objTypes s1 objType)) = objectType (elementTypeInfo ?t)
      \<and> schema (objTypes s1 objType) = schema ?t \<and> name (objTypes s1 objType) = name ?t"
  proof (cases "conn ?t")
    case None with s1 assms(2) show ?thesis by simp
  next
    case (Some c)
    with s1 obtain r t where t: "dpiGen__setRefCount ext n c (- 1) s = Some (r, t)"
      "s1 = clear_conn objType t" by auto
    from setRefCount_events [OF t(1)] assms(1) obtain es where
      "events t = events s @ es" "own_calls es = [E_SetRefCount c (- 1) True]"
      by (auto simp: release_ok_def)
    with release_untouched [OF t(1) assms(2)] t(2) Some show ?thesis
      by (simp add: untouched_def clear_conn_def)
  qed
  then obtain es1 where e1: "events s1 = events s @ es1"
    "own_calls es1 = (case conn ?t of None \<Rightarrow> [] | Some c \<Rightarrow> [E_SetRefCount c (- 1) True])"
    and c1: "h_refCount s1 objType \<le> 0"
    and f1: "objectType (elementTypeInfo (objTypes s1 objType)) = objectType (elementTypeInfo ?t)"
      "schema (objTypes s1 objType) = schema ?t" "name (objTypes s1 objType) = name ?t"
    by blast
  obtain s2 where s2: "(case objectType (elementTypeInfo (objTypes s1 objType)) of None \<Rightarrow> Some s1
      | Some e \<Rightarrow> map_option (\<lambda>r. clear_element objType (snd r)) (dpiGen__setRefCount ext n e (- 1) s1)) = Some s2"
    and s': "s' = free_storage objType (free_name objType (free_schema objType s2))"
    using assms(3) s1 by (auto split: option.splits)
  have p2: "\<exists>es. events s2 = events s1 @ es
      \<and> own_calls es = (case objectType (elementTypeInfo ?t) of
           None \<Rightarrow> [] | Some e \<Rightarrow> [E_SetRefCount e (- 1) True])
      \<and> schema (objTypes s2 objType) = schema ?t \<and> name (objTypes s2 objType) = name ?t"
  proof (cases "objectType (elementTypeInfo (objTypes s1 objType))")
    case None with s2 f1 show ?thesis by simp
  next
    case (Some e)
    with s2 obtain r t where t: "dpiGen__setRefCount ext n e (- 1) s1 = Some (r, t)"
      "s2 = clear_element objType t" by auto
    from setRefCount_events [OF t(1)] assms(1) obtain es where
      "events t = events s1 @ es" "own_calls es = [E_SetRefCount e (- 1) True]"
      by (auto simp: release_ok_def)
    with release_untouched [OF t(1) c1] t(2) Some f1 show ?thesis
      by (simp add: untouched_def clear_element_def)
  qed
  then obtain es2 where e2: "events s2 = events s1 @ es2"
    "own_calls es2 = (case objectType (elementTypeInfo ?t) of
           None \<Rightarrow> [] | Some e \<Rightarrow> [E_SetRefCount e (- 1) True])"
    and f2: "schema (objTypes s2 objType) = schema ?t" "name (objTypes s2 objType) = name ?t"
    by blast
  have e3: "events s' = events s2
      @ (case schema ?t of None \<Rightarrow> [] | Some str \<Rightarrow> [E_FreeString str])
      @ (case name ?t of None \<Rightarrow> [] | Some str \<Rightarrow> [E_FreeString str])
      @ [E_Free objType]"
    using s' f2
    by (simp add: free_storage_def free_name_def free_schema_def emit_def split: option.splits)
  have tg: "h_tag s' objType = None"
    using s' by (simp add: free_storage_def emit_def)
  have "new_events s s' = es1 @ es2
      @ (case schema ?t of None \<Rightarrow> [] | Some str \<Rightarrow> [E_FreeString str])
      @ (case name ?t of None \<Rightarrow> [] | Some str \<Rightarrow> [E_FreeString str])
      @ [E_Free objType]"
    using e1 e2 e3 by (simp add: new_events_def)
  with e1(2) e2(2) tg show ?thesis by (simp split: option.splits)
qed

lemma filter_length_mono:
  "(\<And>x. x \<in> set xs \<Longrightarrow> P x \<Longrightarrow> Q x) \<Longrightarrow> length (filter P xs) \<le> length (filter Q xs)"
  by (induction xs) auto

lemma filter_length_less:
  "x \<in> set xs \<Longrightarrow> Q x \<Longrightarrow> \<not> P x \<Longrightarrow> (\<And>y. y \<in> set xs \<Longrightarrow> P y \<Longrightarrow> Q y)
   \<Longrightarrow> length (filter P xs) < length (filter Q xs)"
proof (induction xs)
  case Nil then show ?case by simp
next
  case (Cons a xs)
  have m: "length (filter P xs) \<le> length (filter Q xs)"
    using Cons.prems(4) by (intro filter_length_mono) auto
  show ?case
  proof (cases "x = a")
    case True with Cons.prems m show ?thesis by auto
  next
    case False
    with Cons have "length (filter P xs) < length (filter Q xs)" by auto
    with Cons.prems(4) show ?thesis by auto
  qed
qed

lemma shrinks_refl: "refs_allocated s \<Longrightarrow> shrinks s s"
  by (simp add: shrinks_def)

lemma shrinks_trans: "shrinks s t \<Longrightarrow> shrinks t u \<Longrightarrow> shrinks s u"
proof -
  assume a: "shrinks s t" and b: "shrinks t u"
  have "h_refCount u y \<le> h_refCount s y" for y
    using a b order_trans [of "h_refCount u y" "h_refCount t y" "h_refCount s y"]
    by (simp add: shrinks_def)
  with a b show ?thesis by (simp add: shrinks_def)
qed

lemma shrinks_live: "shrinks s t \<Longrightarrow> live_count t \<le> live_count s"
proof -
  assume a: "shrinks s t"
  hence n: "nextHandle t = nextHandle s" and c: "\<And>y. h_refCount t y \<le> h_refCount s y"
    by (simp_all add: shrinks_def)
  have "length (filter (\<lambda>x. 0 < h_refCount t x) [0..<nextHandle s])
      \<le> length (filter (\<lambda>x. 0 < h_refCount s x) [0..<nextHandle s])"
  proof (rule filter_length_mono)
    fix x assume "0 < h_refCount t x"
    with c [of x] show "0 < h_refCount s x" by linarith
  qed
  with n show ?thesis by (simp add: live_count_def)
qed

lemma refs_allocated_iff:
  "refs_allocated s \<longleftrightarrow> (\<forall>h<nextHandle s.
      (\<forall>c. conn (objTypes s h) = Some c \<longrightarrow> c < nextHandle s)
    \<and> (\<forall>e. objectType (elementTypeInfo (objTypes s h)) = Some e \<longrightarrow> e < nextHandle s)
    \<and> (\<forall>t. obj_type (objects s h) = Some t \<longrightarrow> t < nextHandle s))"
proof -
  have b: "(case x of None \<Rightarrow> True | Some c \<Rightarrow> c < n) \<longleftrightarrow> (\<forall>c. x = Some c \<longrightarrow> c < n)"
    for x :: "nat option" and n
    by (cases x) simp_all
  have m: "h \<in> set [0..<n] \<longleftrightarrow> h < n" for h n :: nat by simp
  show ?thesis
    unfolding refs_allocated_def list_all_iff b Ball_def m ..
qed

lemma refs_allocatedD:
  assumes "refs_allocated s" "h < nextHandle s"
  shows "conn (objTypes s h) = Some c \<Longrightarrow> c < nextHandle s"
    "objectType (elementTypeInfo (objTypes s h)) = Some e \<Longrightarrow> e < nextHandle s"
    "obj_type (objects s h) = Some t \<Longrightarrow> t < nextHandle s"
  using assms unfolding refs_allocated_iff by blast+

lemma refs_allocated_cong:
  "nextHandle t' = nextHandle t \<Longrightarrow> objTypes t' = objTypes t \<Longrightarrow> objects t' = objects t
   \<Longrightarrow> refs_allocated t' = refs_allocated t"
  by (simp add: refs_allocated_iff)

lemma shrinks_same:
  assumes "shrinks s t" "nextHandle t' = nextHandle t" "objTypes t' = objTypes t"
    "objects t' = objects t" "h_refCount t' = h_refCount t"
  shows "shrinks s t'"
  using assms refs_allocated_cong [OF assms(2,3,4)] by (simp add: shrinks_def)

lemma shrinks_events: "shrinks s t \<Longrightarrow> shrinks s (t\<lparr>events := es\<rparr>)"
  by (erule shrinks_same) simp_all

lemma shrinks_emit: "shrinks s t \<Longrightarrow> shrinks s (emit e t)"
  by (erule shrinks_same) (simp_all add: emit_def)

lemma shrinks_nested: "shrinks s t \<Longrightarrow> shrinks s (nested w u t)"
  by (erule shrinks_same) (simp_all add: nested_def)

lemma shrinks_free_storage: "shrinks s t \<Longrightarrow> shrinks s (free_storage h t)"
  by (erule shrinks_same) (simp_all add: free_storage_def emit_def)

lemma shrinks_adjust:
  assumes "shrinks s t" shows "shrinks s (adjust h (- 1) t)"
proof -
  have "refs_allocated (adjust h (- 1) t) = refs_allocated t"
    by (rule refs_allocated_cong) (simp_all add: adjust_def emit_def)
  moreover have "\<And>y. h_refCount (adjust h (- 1) t) y \<le> h_refCount t y"
    by (simp add: adjust_def emit_def)
  moreover have "nextHandle (adjust h (- 1) t) = nextHandle t"
    by (simp add: adjust_def emit_def)
  moreover have "\<And>y. h_refCount t y \<le> h_refCount s y" "nextHandle t = nextHandle s"
    "refs_allocated t"
    using assms by (simp_all add: shrinks_def)
  ultimately show ?thesis unfolding shrinks_def
    by (intro conjI allI) (simp, simp, rule order_trans)
qed

lemma shrinks_drop:
  assumes "shrinks s t" "nextHandle t' = nextHandle t" "h_refCount t' = h_refCount t"
    "\<And>x c. conn (objTypes t' x) = Some c \<Longrightarrow> conn (objTypes t x) = Some c"
    "\<And>x e. objectType (elementTypeInfo (objTypes t' x)) = Some e
        \<Longrightarrow> objectType (elementTypeInfo (objTypes t x)) = Some e"
    "\<And>x u. obj_type (objects t' x) = Some u \<Longrightarrow> obj_type (objects t x) = Some u"
  shows "shrinks s t'"
proof -
  from assms(1) have r: "refs_allocated t" and n: "nextHandle t = nextHandle s"
    and c: "\<forall>y. h_refCount t y \<le> h_refCount s y"
    by (simp_all add: shrinks_def)
  have "refs_allocated t'"
    unfolding refs_allocated_iff
  proof (intro allI impI conjI)
    fix h c assume "h < nextHandle t'" "conn (objTypes t' h) = Some c"
    with assms(2,4) refs_allocatedD(1) [OF r] show "c < nextHandle t'" by simp
  next
    fix h e assume "h < nextHandle t'" "objectType (elementTypeInfo (objTypes t' h)) = Some e"
    with assms(2,5) refs_allocatedD(2) [OF r] show "e < nextHandle t'" by simp
  next
    fix h u assume "h < nextHandle t'" "obj_type (objects t' h) = Some u"
    with assms(2,6) refs_allocatedD(3) [OF r] show "u < nextHandle t'" by simp
  qed
  with n c assms(2,3) show ?thesis by (simp add: shrinks_def)
qed

lemma shrinks_clear_conn: "shrinks s t \<Longrightarrow> shrinks s (clear_conn h t)"
  by (erule shrinks_drop) (simp_all add: clear_conn_def split: if_splits)

lemma shrinks_clear_element: "shrinks s t \<Longrightarrow> shrinks s (clear_element h t)"
  by (erule shrinks_drop) (simp_all add: clear_element_def split: if_splits)

lemma shrinks_clear_obj_type: "shrinks s t \<Longrightarrow> shrinks s (clear_obj_type h t)"
  by (erule shrinks_drop) (simp_all add: clear_obj_type_def split: if_splits)

lemma shrinks_free_schema: "shrinks s t \<Longrightarrow> shrinks s (free_schema h t)"
  by (erule shrinks_drop) (simp_all add: free_schema_def emit_def split: if_splits option.splits)

lemma shrinks_free_name: "shrinks s t \<Longrightarrow> shrinks s (free_name h t)"
  by (erule shrinks_drop) (simp_all add: free_name_def emit_def split: if_splits option.splits)

lemma shrinksD:
  assumes "shrinks s t"
  shows "nextHandle t = nextHandle s" "refs_allocated t" "live_count t \<le> live_count s"
  using assms shrinks_live [OF assms] by (simp_all add: shrinks_def)

lemma live_count_last:
  assumes "x < nextHandle s" "h_refCount s x = 1"
  shows "live_count ((adjust x (- 1) s)\<lparr>events := []\<rparr>) < live_count s"
proof -
  let ?t = "(adjust x (- 1) s)\<lparr>events := []\<rparr>"
  have n: "nextHandle ?t = nextHandle s" by (simp add: adjust_def emit_def)
  have "length (filter (\<lambda>y. 0 < h_refCount ?t y) [0..<nextHandle s])
      < length (filter (\<lambda>y. 0 < h_refCount s y) [0..<nextHandle s])"
  proof (rule filter_length_less [where x = x])
    show "x \<in> set [0..<nextHandle s]" using assms(1) by simp
    show "0 < h_refCount s x" using assms(2) by simp
    show "\<not> 0 < h_refCount ?t x" using assms(2) by (simp add: adjust_def emit_def)
    fix y assume "0 < h_refCount ?t y"
    thus "0 < h_refCount s y" by (simp add: adjust_def emit_def split: if_splits)
  qed
  with n show ?thesis by (simp add: live_count_def)
qed

lemma objectType_free_step:
  assumes A: "\<And>x t. refs_allocated t \<Longrightarrow> x < nextHandle t \<Longrightarrow> live_count t \<le> n
      \<Longrightarrow> \<exists>r t'. dpiGen__setRefCount ext n x (- 1) t = Some (r, t') \<and> shrinks t t'"
    and s: "refs_allocated s" "h < nextHandle s" "live_count s \<le> n"
  shows "\<exists>s'. dpiObjectType__free ext n h s = Some s' \<and> shrinks s s'"
proof -
  have "\<exists>s1. (case conn (objTypes s h) of None \<Rightarrow> Some s
      | Some c \<Rightarrow> map_option (\<lambda>r. clear_conn h (snd r)) (dpiGen__setRefCount ext n c (- 1) s))
      = Some s1 \<and> shrinks s s1"
  proof (cases "conn (objTypes s h)")
    case None with s(1) show ?thesis by (simp add: shrinks_refl)
  next
    case (Some c)
    from refs_allocatedD(1) [OF s(1,2) Some] have "c < nextHandle s" .
    from A [OF s(1) this s(3)] obtain r t' where
      t: "dpiGen__setRefCount ext n c (- 1) s = Some (r, t')" "shrinks s t'" by blast
    from t(2) have "shrinks s (clear_conn h t')" by (rule shrinks_clear_conn)
    with Some t(1) show ?thesis by (simp del: dpiGen__setRefCount.simps)
  qed
  then obtain s1 where s1: "(case conn (objTypes s h) of None \<Rightarrow> Some s
      | Some c \<Rightarrow> map_option (\<lambda>r. clear_conn h (snd r)) (dpiGen__setRefCount ext n c (- 1) s))
      = Some s1" and k1: "shrinks s s1" by blast
  from shrinksD [OF k1] s have r1: "refs_allocated s1" "h < nextHandle s1" "live_count s1 \<le> n"
    by simp_all
  have "\<exists>s2. (case objectType (elementTypeInfo (objTypes s1 h)) of None \<Rightarrow> Some s1
      | Some e \<Rightarrow> map_option (\<lambda>r. clear_element h (snd r)) (dpiGen__setRefCount ext n e (- 1) s1))
      = Some s2 \<and> shrinks s1 s2"
  proof (cases "objectType (elementTypeInfo (objTypes s1 h))")
    case None with r1(1) show ?thesis by (simp add: shrinks_refl)
  next
    case (Some e)
    from refs_allocatedD(2) [OF r1(1,2) Some] have "e < nextHandle s1" .
    from A [OF r1(1) this r1(3)] obtain r t' where
      t: "dpiGen__setRefCount ext n e (- 1) s1 = Some (r, t')" "shrinks s1 t'" by blast
    from t(2) have "shrinks s1 (clear_element h t')" by (rule shrinks_clear_element)
    with Some t(1) show ?thesis by (simp del: dpiGen__setRefCount.simps)
  qed
  then obtain s2 where s2: "(case objectType (elementTypeInfo (objTypes s1 h)) of None \<Rightarrow> Some s1
      | Some e \<Rightarrow> map_option (\<lambda>r. clear_element h (snd r)) (dpiGen__setRefCount ext n e (- 1) s1))
      = Some s2" and k2: "shrinks s1 s2" by blast
  have "dpiObjectType__free ext n h s
      = Some (free_storage h (free_name h (free_schema h s2)))"
    using s1 s2 by (simp del: dpiGen__setRefCount.simps)
  moreover have "shrinks s (free_storage h (free_name h (free_schema h s2)))"
    by (intro shrinks_free_storage shrinks_free_name shrinks_free_schema
        shrinks_trans [OF k1 k2])
  ultimately show ?thesis by blast
qed

lemma object_free_step:
  assumes A: "\<And>x t. refs_allocated t \<Longrightarrow> x < nextHandle t \<Longrightarrow> live_count t \<le> n
      \<Longrightarrow> \<exists>r t'. dpiGen__setRefCount ext n x (- 1) t = Some (r, t') \<and> shrinks t t'"
    and s: "refs_allocated s" "h < nextHandle s" "live_count s \<le> n"
  shows "\<exists>s'. dpiObject__free ext n h s = Some s' \<and> shrinks s s'"
proof -
  have "\<exists>s1. (case obj_type (objects s h) of None \<Rightarrow> Some s
      | Some u \<Rightarrow> map_option (\<lambda>r. clear_obj_type h (snd r)) (dpiGen__setRefCount ext n u (- 1) s))
      = Some s1 \<and> shrinks s s1"
  proof (cases "obj_type (objects s h)")
    case None with s(1) show ?thesis by (simp add: shrinks_refl)
  next
    case (Some u)
    from refs_allocatedD(3) [OF s(1,2) Some] have "u < nextHandle s" .
    from A [OF s(1) this s(3)] obtain r t' where
      t: "dpiGen__setRefCount ext n u (- 1) s = Some (r, t')" "shrinks s t'" by blast
    from t(2) have "shrinks s (clear_obj_type h t')" by (rule shrinks_clear_obj_type)
    with Some t(1) show ?thesis by (simp del: dpiGen__setRefCount.simps)
  qed
  then obtain s1 where s1: "(case obj_type (objects s h) of None \<Rightarrow> Some s
      | Some u \<Rightarrow> map_option (\<lambda>r. clear_obj_type h (snd r)) (dpiGen__setRefCount ext n u (- 1) s))
      = Some s1" and k1: "shrinks s s1" by blast
  have "dpiObject__free ext n h s = Some (free_storage h s1)"
    using s1 by (simp del: dpiGen__setRefCount.simps)
  moreover have "shrinks s (free_storage h s1)"
    by (intro shrinks_free_storage k1)
  ultimately show ?thesis by blast
qed

lemma freeProc_step:
  assumes A: "\<And>x t. refs_allocated t \<Longrightarrow> x < nextHandle t \<Longrightarrow> live_count t \<le> n
      \<Longrightarrow> \<exists>r t'. dpiGen__setRefCount ext n x (- 1) t = Some (r, t') \<and> shrinks t t'"
    and s: "refs_allocated s" "h < nextHandle s" "live_count s \<le> n"
  shows "\<exists>s'. freeProc ext (Suc n) h s = Some s' \<and> shrinks s s'"
proof (cases "h_tag s h")
  case None with s(1) show ?thesis by (simp add: shrinks_refl)
next
  case (Some k)
  show ?thesis
  proof (cases k)
    case DPI_HTYPE_OBJECT_TYPE
    with Some objectType_free_step [OF A s] show ?thesis
      by (simp del: dpiObjectType__free.simps)
  next
    case DPI_HTYPE_OBJECT
    with Some object_free_step [OF A s] show ?thesis
      by (simp del: dpiObject__free.simps)
  next
    case DPI_HTYPE_CONN
    with Some s(1) show ?thesis by (simp add: shrinks_free_storage shrinks_refl)
  next
    case DPI_HTYPE_OBJECT_ATTR
    with Some s(1) show ?thesis by (simp add: shrinks_free_storage shrinks_refl)
  qed
qed

lemma setRefCount_step:
  assumes s: "refs_allocated s"
    and F: "o_setRefCount ext (clock s) x (- 1) \<Longrightarrow> h_refCount s x = 1 \<Longrightarrow>
      \<exists>t'. freeProc ext n x ((adjust x (- 1) s)\<lparr>events := []\<rparr>) = Some t'
        \<and> shrinks ((adjust x (- 1) s)\<lparr>events := []\<rparr>) t'"
  shows "\<exists>r s'. dpiGen__setRefCount ext n x (- 1) s = Some (r, s') \<and> shrinks s s'"
proof -
  have a: "shrinks s (adjust x (- 1) s)"
    by (intro shrinks_adjust shrinks_refl s)
  consider (fail) "\<not> o_setRefCount ext (clock s) x (- 1)"
    | (keep) "o_setRefCount ext (clock s) x (- 1)" "h_refCount (adjust x (- 1) s) x \<noteq> 0"
    | (last) "o_setRefCount ext (clock s) x (- 1)" "h_refCount (adjust x (- 1) s) x = 0"
    by blast
  then show ?thesis
  proof cases
    case fail
    moreover have "shrinks s (emit (E_SetRefCount x (- 1) False) s)"
      by (intro shrinks_emit shrinks_refl s)
    ultimately show ?thesis by auto
  next
    case keep
    with a show ?thesis by auto
  next
    case last
    from last(2) have "h_refCount s x = 1" by (simp add: adjust_def emit_def)
    from F [OF last(1) this] obtain t' where
      t: "freeProc ext n x ((adjust x (- 1) s)\<lparr>events := []\<rparr>) = Some t'"
      "shrinks ((adjust x (- 1) s)\<lparr>events := []\<rparr>) t'" by blast
    have "shrinks s ((adjust x (- 1) s)\<lparr>events := []\<rparr>)"
      by (intro shrinks_events a)
    from shrinks_trans [OF this t(2)]
    have "shrinks s (nested (E_FreeProc x) (adjust x (- 1) s) t')"
      by (rule shrinks_nested)
    moreover have "dpiGen__setRefCount ext n x (- 1) s
        = Some (True, nested (E_FreeProc x) (adjust x (- 1) s) t')"
      using last t(1) by (simp del: freeProc.simps)
    ultimately show ?thesis by blast
  qed
qed

lemma setRefCount_total:
  "refs_allocated s \<Longrightarrow> x < nextHandle s \<Longrightarrow> live_count s \<le> n
   \<Longrightarrow> \<exists>r s'. dpiGen__setRefCount ext n x (- 1) s = Some (r, s') \<and> shrinks s s'"
proof (induction n arbitrary: x s)
  case 0
  show ?case
  proof (rule setRefCount_step [OF "0.prems"(1)])
    assume "h_refCount s x = 1"
    from live_count_last [OF "0.prems"(2) this] "0.prems"(3)
    show "\<exists>t'. freeProc ext 0 x ((adjust x (- 1) s)\<lparr>events := []\<rparr>) = Some t'
        \<and> shrinks ((adjust x (- 1) s)\<lparr>events := []\<rparr>) t'"
      by simp
  qed
next
  case (Suc m)
  show ?case
  proof (rule setRefCount_step [OF Suc.prems(1)])
    let ?t = "(adjust x (- 1) s)\<lparr>events := []\<rparr>"
    assume "h_refCount s x = 1"
    from live_count_last [OF Suc.prems(2) this] Suc.prems(3)
    have l: "live_count ?t \<le> m" by simp
    have k: "shrinks s ?t"
      by (intro shrinks_events shrinks_adjust shrinks_refl Suc.prems(1))
    from shrinksD [OF k] Suc.prems(2) have r: "refs_allocated ?t" "x < nextHandle ?t"
      by simp_all
    show "\<exists>t'. freeProc ext (Suc m) x ?t = Some t' \<and> shrinks ?t t'"
      by (rule freeProc_step [OF Suc.IH r l])
  qed
qed

lemma objectType_free_total:
  "refs_allocated s \<Longrightarrow> objType < nextHandle s \<Longrightarrow> live_count s \<le> n
   \<Longrightarrow> \<exists>s'. dpiObjectType__free ext n objType s = Some s' \<and> shrinks s s'"
  by (rule objectType_free_step [OF setRefCount_total])

text \<open>
  Claim C3. \<^verbatim>\<open>dpiObjectType__free\<close> on a descriptor without a reference left returns, and
  the calls of its own body are, in this order: one release of the connection (if the
  descriptor has one), one release of the element type (if \<open>elementTypeInfo.objectType\<close>
  is set), one \<^verbatim>\<open>free\<close> of the schema and one of the name (for each that is set), and one
  \<^verbatim>\<open>free\<close> of the storage of the descriptor, whose tag is gone afterwards. Whatever the
  destructors triggered by the two releases do is in their own sub-traces. It returns
  whenever the bound on the cascade is at least the number of allocated handles that
  still have a reference, in a store whose references are to allocated handles: each
  destructor that runs takes the last reference of one of them. Releasing a reference is
  assumed not to fail. The witness is the nested case: the collection type of
  \<open>s_released\<close> is freed, its element type loses its only reference (1 to 0) and is
  freed in turn.
\<close>

theorem objectType_free_releases:
  assumes "release_ok ext" and "h_refCount s objType \<le> 0"
    and "refs_allocated s" and "objType < nextHandle s" and "live_count s \<le> n"
  shows "\<exists>s'. dpiObjectType__free ext n objType s = Some s'
    \<and> own_calls (new_events s s') =
      (case conn (objTypes s objType) of None \<Rightarrow> [] | Some c \<Rightarrow> [E_SetRefCount c (- 1) True])
      @ (case objectType (elementTypeInfo (objTypes s objType)) of
           None \<Rightarrow> [] | Some e \<Rightarrow> [E_SetRefCount e (- 1) True])
      @ (case schema (objTypes s objType) of None \<Rightarrow> [] | Some str \<Rightarrow> [E_FreeString str])
      @ (case name (objTypes s objType) of None \<Rightarrow> [] | Some str \<Rightarrow> [E_FreeString str])
      @ [E_Free objType]
    \<and> h_tag s' objType = None"
proof -
  from objectType_free_total [OF assms(3,4,5)] obtain s' where
    s': "dpiObjectType__free ext n objType s = Some s'" by blast
  from objectType_free_trace [OF assms(1,2) s'] s' show ?thesis by blast
qed

lemma setRefCount_keep:
  "o_setRefCount ext (clock s) h d \<Longrightarrow> h_refCount s h + d \<noteq> 0 \<Longrightarrow>
   dpiGen__setRefCount ext n h d s = Some (True, adjust h d s)"
  by (simp add: adjust_def emit_def)

lemma free_leaf:
  assumes "conn (objTypes s x) = Some c" "objectType (elementTypeInfo (objTypes s x)) = None"
    "o_setRefCount ext (clock s) c (- 1)" "h_refCount s c \<noteq> 1"
  shows "dpiObjectType__free ext n x s
    = Some (free_storage x (free_name x (free_schema x (clear_conn x (adjust c (- 1) s)))))"
proof -
  have "dpiGen__setRefCount ext n c (- 1) s = Some (True, adjust c (- 1) s)"
    using assms(3,4) by (intro setRefCount_keep) auto
  moreover have "objectType (elementTypeInfo (objTypes (clear_conn x (adjust c (- 1) s)) x)) = None"
    using assms(2) by (simp add: clear_conn_def adjust_def emit_def)
  ultimately show ?thesis using assms(1) by simp
qed

lemma nested_release_run:
  "\<exists>s'. dpiObjectType__free ext_ok (Suc n) 2 s_released = Some s'
     \<and> h_refCount s' 1 = 0 \<and> h_tag s' 1 = None \<and> h_refCount s' 0 = 1"
proof -
  define s0 where "s0 = s_released"
  define s1 where "s1 = clear_conn 2 (adjust 0 (- 1) s0)"
  have a: "dpiGen__setRefCount ext_ok (Suc n) 0 (- 1) s0 = Some (True, adjust 0 (- 1) s0)"
    by (rule setRefCount_keep) (simp_all add: s0_def ex_defs)
  have c0: "conn (objTypes s0 2) = Some 0"
    by (simp add: s0_def ex_defs)
  have f1: "objectType (elementTypeInfo (objTypes s1 2)) = Some 1"
    "h_refCount s1 1 = 1" "h_tag s1 1 = Some DPI_HTYPE_OBJECT_TYPE"
    "conn (objTypes s1 1) = Some 0" "objectType (elementTypeInfo (objTypes s1 1)) = None"
    "h_refCount s1 0 = 2"
    by (simp_all add: s1_def s0_def clear_conn_def adjust_def emit_def ex_defs)
  have ok: "\<And>k h d. o_setRefCount ext_ok k h d" by (simp add: ex_defs)
  define s2 where "s2 = (adjust 1 (- 1) s1)\<lparr>events := []\<rparr>"
  have f2: "conn (objTypes s2 1) = Some 0" "objectType (elementTypeInfo (objTypes s2 1)) = None"
    "h_refCount s2 0 = 2" "h_tag s2 1 = Some DPI_HTYPE_OBJECT_TYPE" "h_refCount s2 1 = 0"
    using f1 by (simp_all add: s2_def adjust_def emit_def)
  define s3 where "s3 = free_storage 1 (free_name 1 (free_schema 1 (clear_conn 1 (adjust 0 (- 1) s2))))"
  have inner: "dpiObjectType__free ext_ok n 1 s2 = Some s3"
    unfolding s3_def using f2 ok by (intro free_leaf) simp_all
  have fp: "freeProc ext_ok (Suc n) 1 s2 = Some s3"
    using inner f2 by simp
  have f3: "h_refCount s3 1 = 0" "h_tag s3 1 = None" "h_refCount s3 0 = 1"
    using f2 by (simp_all add: s3_def free_storage_def free_name_def free_schema_def clear_conn_def
        adjust_def emit_def split: option.splits)
  define s4 where "s4 = clear_element 2 (nested (E_FreeProc 1) (adjust 1 (- 1) s1) s3)"
  have b: "dpiGen__setRefCount ext_ok (Suc n) 1 (- 1) s1 = Some (True, nested (E_FreeProc 1) (adjust 1 (- 1) s1) s3)"
    using fp f1 ok by (simp add: s2_def adjust_def emit_def)
  have f4: "h_refCount s4 1 = 0" "h_tag s4 1 = None" "h_refCount s4 0 = 1"
    using f3 by (simp_all add: s4_def clear_element_def nested_def)
  have "dpiObjectType__free ext_ok (Suc n) 2 s0
      = Some (free_storage 2 (free_name 2 (free_schema 2 s4)))"
    using a b c0 f1(1) by (simp add: s1_def s4_def del: dpiGen__setRefCount.simps)
  moreover have "h_refCount (free_storage 2 (free_name 2 (free_schema 2 s4))) 1 = 0"
    "h_tag (free_storage 2 (free_name 2 (free_schema 2 s4))) 1 = None"
    "h_refCount (free_storage 2 (free_name 2 (free_schema 2 s4))) 0 = 1"
    using f4 by (simp_all add: free_storage_def free_name_def free_schema_def emit_def split: option.splits)
  ultimately show ?thesis unfolding s0_def by blast
qed

theorem objectType_free_releases_witness:
  "release_ok ext_ok \<and> h_refCount s_released 2 \<le> 0 \<and> refs_allocated s_released
   \<and> 2 < nextHandle s_released \<and> live_count s_released \<le> Suc (Suc 0)
   \<and> (\<exists>s'. dpiObjectType__free ext_ok (Suc (Suc 0)) 2 s_released = Some s'
        \<and> own_calls (new_events s_released s')
          = [E_SetRefCount 0 (- 1) True, E_SetRefCount 1 (- 1) True,
             E_FreeString ''SCHEMA'', E_FreeString ''PERSON_LIST_T'', E_Free 2]
        \<and> h_tag s' 2 = None \<and> h_refCount s' 1 = 0 \<and> h_tag s' 1 = None \<and> h_refCount s' 0 = 1)"
proof -
  have h: "release_ok ext_ok" "h_refCount s_released 2 \<le> 0"
    by (simp_all add: release_ok_def ex_defs)
  have r: "refs_allocated s_released"
    unfolding refs_allocated_iff
    by (simp add: ex_defs zeroObject_def)
  have b: "2 < nextHandle s_released" by (simp add: ex_defs)
  have "[0..<nextHandle s_released] = [0, 1, 2]"
    by (simp add: ex_defs upt_rec)
  hence l: "live_count s_released \<le> Suc (Suc 0)"
    by (simp add: live_count_def) (simp add: ex_defs)
  from objectType_free_releases [OF h r b l] obtain s' where
    s': "dpiObjectType__free ext_ok (Suc (Suc 0)) 2 s_released = Some s'"
    and tr: "own_calls (new_events s_released s') =
      (case conn (objTypes s_released 2) of None \<Rightarrow> [] | Some c \<Rightarrow> [E_SetRefCount c (- 1) True])
      @ (case objectType (elementTypeInfo (objTypes s_released 2)) of
           None \<Rightarrow> [] | Some e \<Rightarrow> [E_SetRefCount e (- 1) True])
      @ (case schema (objTypes s_released 2) of None \<Rightarrow> [] | Some str \<Rightarrow> [E_FreeString str])
      @ (case name (objTypes s_released 2) of None \<Rightarrow> [] | Some str \<Rightarrow> [E_FreeString str])
      @ [E_Free 2]"
    and tg: "h_tag s' 2 = None"
    by blast
  from tr have tr': "own_calls (new_events s_released s')
          = [E_SetRefCount 0 (- 1) True, E_SetRefCount 1 (- 1) True,
             E_FreeString ''SCHEMA'', E_FreeString ''PERSON_LIST_T'', E_Free 2]"
    by (simp add: ex_defs)
  from nested_release_run [of "Suc 0"] s'
  have st: "h_refCount s' 1 = 0 \<and> h_tag s' 1 = None \<and> h_refCount s' 0 = 1"
    by (simp del: dpiObjectType__free.simps)
  from h r b l s' tr' tg st show ?thesis by blast
qed

declare dpiGen__setRefCount.simps [simp del] dpiObjectType__free.simps [simp del]
  dpiObject__free.simps [simp del] freeProc.simps [simp del]

lemma grows_refl: "grows b cn s s"
  by (simp add: grows_def)

lemma grows_trans:
  "grows b cn s t \<Longrightarrow> grows b' cn t u \<Longrightarrow> b \<le> b' \<Longrightarrow> grows b cn s u"
  by (auto simp: grows_def)

lemma grows_mono: "grows b' cn s t \<Longrightarrow> b \<le> b' \<Longrightarrow> grows b cn s t"
  by (auto simp: grows_def)

lemma valid_conn_grows: "valid_conn s cn \<Longrightarrow> grows b cn s t \<Longrightarrow> valid_conn t cn"
  by (auto simp: valid_conn_def grows_def)

lemma balanced_trans: "balanced s t \<Longrightarrow> balanced t u \<Longrightarrow> balanced s u"
  by (simp add: balanced_def)

lemma populate_with_spec:
  assumes "allocate_spec ext allocate"
  shows "populate_spec ext (populate_with allocate ext)"
  unfolding populate_spec_def
proof (intro allI impI)
  fix cn cp s r s'
  assume run: "populate_with allocate ext (Some cn) cp s = Some (r, s')" and v: "valid_conn s cn"
  show "grows (nextHandle s) cn s s' \<and> balanced s s'
        \<and> (release_ok ext \<longrightarrow> r = None \<longrightarrow> h_refCount s' cn = h_refCount s cn)
        \<and> (\<exists>sub. events s' = events s @ [E_PopulateTypeInfo cp sub r])"
  proof (cases "o_elementType ext (clock s) cp")
    case None
    with run show ?thesis
      by (auto simp: populate_with_def emit_def grows_def balanced_def)
  next
    case (Some a)
    obtain tn sel where a: "a = (tn, sel)" by (cases a)
    show ?thesis
    proof (cases sel)
      case None
      with run Some a show ?thesis
        by (auto simp: populate_with_def emit_def grows_def balanced_def)
    next
      case (Some sl)
      let ?s0 = "(tick s)\<lparr>events := []\<rparr>"
      from run \<open>o_elementType ext (clock s) cp = Some a\<close> a Some
      obtain ok out t where al: "allocate cn cp (NameAttribute sl) ?s0 = Some (ok, out, t)"
        and r: "r = (if ok then Some \<lparr>oracleTypeNum = tn, objectType = out\<rparr> else None)"
        and s': "s' = nested (\<lambda>sub. E_PopulateTypeInfo cp sub r) (tick s) t"
        by (auto simp: populate_with_def Let_def split: option.splits)
      have v0: "valid_conn ?s0 cn" using v by (simp add: valid_conn_def tick_def)
      from assms al v0 have sp: "grows (nextHandle ?s0) cn ?s0 t" "balanced ?s0 t"
        "release_ok ext \<longrightarrow> \<not> ok \<longrightarrow> h_refCount t cn = h_refCount ?s0 cn"
        unfolding allocate_spec_def by blast+
      from sp s' r show ?thesis
        by (auto simp: grows_def balanced_def nested_def tick_def)
    qed
  qed
qed


lemma allocated_handles_append [simp]:
  "allocated_handles (es @ fs) = allocated_handles es @ allocated_handles fs"
  by (induction es rule: allocated_handles.induct) simp_all

lemma freed_handles_append [simp]:
  "freed_handles (es @ fs) = freed_handles es @ freed_handles fs"
  by (induction es rule: freed_handles.induct) simp_all

lemma refcount_calls_append [simp]:
  "refcount_calls (es @ fs) = refcount_calls es @ refcount_calls fs"
  by (induction es rule: refcount_calls.induct) simp_all

lemma describe_with_spec:
  assumes P: "populate_spec ext populate"
    and run: "dpiObjectType__describe_with populate ext h dh s = Some (ok, s')"
    and c: "conn (objTypes s h) = Some cn" and v: "valid_conn s cn" and h: "h < nextHandle s"
  shows "grows h cn s s' \<and> balanced s s'
    \<and> (release_ok ext \<longrightarrow> \<not> ok \<longrightarrow> h_refCount s' cn = h_refCount s cn)
    \<and> conn (objTypes s' h) = Some cn \<and> tdo (objTypes s' h) = tdo (objTypes s h)
    \<and> schema (objTypes s' h) = schema (objTypes s h) \<and> name (objTypes s' h) = name (objTypes s h)
    \<and> (\<not> ok \<longrightarrow> elementTypeInfo (objTypes s' h) = elementTypeInfo (objTypes s h))
    \<and> (\<exists>es. events s' = events s @ es \<and> allocated_handles es = [] \<and> freed_handles es = []
         \<and> refcount_calls es = []
         \<and> (ok \<longrightarrow> (\<exists>top rest. es = [E_DescribeAny (Some cn) (tdo (objTypes s h)) dh True,
                  E_AttrGetPtr dh DPI_OCI_ATTR_PARAM (Some top),
                  E_AttrGetU16 top DPI_OCI_ATTR_TYPECODE (Some (typeCode (objTypes s' h))),
                  E_AttrGetU16 top DPI_OCI_ATTR_NUM_TYPE_ATTRS (Some (numAttributes (objTypes s' h)))] @ rest
               \<and> (if typeCode (objTypes s' h) = DPI_SQLT_NCO ext then
                     isCollection (objTypes s' h)
                     \<and> (\<exists>cp sub. rest = [E_AttrGetPtr top DPI_OCI_ATTR_COLLECTION_ELEMENT (Some cp),
                            E_PopulateTypeInfo cp sub (Some (elementTypeInfo (objTypes s' h)))])
                   else isCollection (objTypes s' h) = isCollection (objTypes s h)
                     \<and> elementTypeInfo (objTypes s' h) = elementTypeInfo (objTypes s h) \<and> rest = []))))"
proof (cases "\<exists>top tc na cp. o_describeAny ext (clock s) (Some cn) (tdo (objTypes s h)) dh
      \<and> o_attrGetPtr ext (Suc (clock s)) dh DPI_OCI_ATTR_PARAM = Some top
      \<and> o_attrGetU16 ext (Suc (Suc (clock s))) top DPI_OCI_ATTR_TYPECODE = Some tc
      \<and> o_attrGetU16 ext (Suc (Suc (Suc (clock s)))) top DPI_OCI_ATTR_NUM_TYPE_ATTRS = Some na
      \<and> tc = DPI_SQLT_NCO ext
      \<and> o_attrGetPtr ext (Suc (Suc (Suc (Suc (clock s))))) top DPI_OCI_ATTR_COLLECTION_ELEMENT = Some cp")
  case False
  with run c h show ?thesis
    by (auto simp: dpiObjectType__describe_with_def oci_defs emit_def upd_objType_def
        grows_def balanced_def split: option.splits bool.splits if_splits)
next
  case True
  then obtain top tc na cp where o:
    "o_describeAny ext (clock s) (Some cn) (tdo (objTypes s h)) dh"
    "o_attrGetPtr ext (Suc (clock s)) dh DPI_OCI_ATTR_PARAM = Some top"
    "o_attrGetU16 ext (Suc (Suc (clock s))) top DPI_OCI_ATTR_TYPECODE = Some tc"
    "o_attrGetU16 ext (Suc (Suc (Suc (clock s)))) top DPI_OCI_ATTR_NUM_TYPE_ATTRS = Some na"
    "tc = DPI_SQLT_NCO ext"
    "o_attrGetPtr ext (Suc (Suc (Suc (Suc (clock s))))) top DPI_OCI_ATTR_COLLECTION_ELEMENT = Some cp"
    by blast
  define s5 where "s5 = s\<lparr>objTypes := (objTypes s)
      (h := (objTypes s h)\<lparr>typeCode := tc, numAttributes := na, isCollection := True\<rparr>),
      clock := Suc (Suc (Suc (Suc (Suc (clock s))))),
      events := events s @ [E_DescribeAny (Some cn) (tdo (objTypes s h)) dh True,
        E_AttrGetPtr dh DPI_OCI_ATTR_PARAM (Some top),
        E_AttrGetU16 top DPI_OCI_ATTR_TYPECODE (Some tc),
        E_AttrGetU16 top DPI_OCI_ATTR_NUM_TYPE_ATTRS (Some na),
        E_AttrGetPtr top DPI_OCI_ATTR_COLLECTION_ELEMENT (Some cp)]\<rparr>"
  have eq: "dpiObjectType__describe_with populate ext h dh s =
      (case populate (Some cn) cp s5 of None \<Rightarrow> None
       | Some (None, s6) \<Rightarrow> Some (False, s6)
       | Some (Some info, s6) \<Rightarrow>
           Some (True, upd_objType h (\<lambda>t. t\<lparr>elementTypeInfo := info\<rparr>) s6))"
    using o c
    by (simp add: dpiObjectType__describe_with_def oci_defs emit_def upd_objType_def s5_def)
  from run eq obtain r s6 where pr: "populate (Some cn) cp s5 = Some (r, s6)"
    and res: "(ok, s') = (case r of None \<Rightarrow> (False, s6)
       | Some info \<Rightarrow> (True, upd_objType h (\<lambda>t. t\<lparr>elementTypeInfo := info\<rparr>) s6))"
    by (auto split: option.splits)
  have v5: "valid_conn s5 cn" using v by (simp add: valid_conn_def s5_def)
  from P pr v5 have sp: "grows (nextHandle s5) cn s5 s6" "balanced s5 s6"
    "release_ok ext \<longrightarrow> r = None \<longrightarrow> h_refCount s6 cn = h_refCount s5 cn"
    "\<exists>sub. events s6 = events s5 @ [E_PopulateTypeInfo cp sub r]"
    unfolding populate_spec_def by blast+
  from sp(4) obtain sub where ev: "events s6 = events s5 @ [E_PopulateTypeInfo cp sub r]" by blast
  have keep: "objTypes s6 h = objTypes s5 h" using sp(1) h by (simp add: grows_def s5_def)
  show ?thesis
  proof (cases r)
    case None
    with res have "ok = False" "s' = s6" by simp_all
    with sp ev keep None c h o(5) show ?thesis
      by (auto simp: grows_def balanced_def s5_def)
  next
    case (Some info)
    with res have "ok = True" "s' = upd_objType h (\<lambda>t. t\<lparr>elementTypeInfo := info\<rparr>) s6" by simp_all
    with sp ev keep Some c h o(5) show ?thesis
      by (auto simp: grows_def balanced_def s5_def upd_objType_def)
  qed
qed


lemma init_with_spec:
  assumes P: "populate_spec ext populate"
    and run: "dpiObjectType__init_with populate ext h param a s = Some (ok, s')"
    and c: "conn (objTypes s h) = Some cn" and v: "valid_conn s cn" and h: "h < nextHandle s"
  shows "grows h cn s s' \<and> balanced s s'
    \<and> (release_ok ext \<longrightarrow> \<not> ok \<longrightarrow> h_refCount s' cn = h_refCount s cn)
    \<and> conn (objTypes s' h) = Some cn
    \<and> (\<not> ok \<longrightarrow> elementTypeInfo (objTypes s' h) = elementTypeInfo (objTypes s h))
    \<and> (\<exists>es. events s' = events s @ es \<and> freed_handles es = allocated_handles es
         \<and> length (allocated_handles es) \<le> 1 \<and> refcount_calls es = []
         \<and> (ok \<longrightarrow> (\<exists>sch nm ref pinned top rest.
               es = [E_GetAttrString param DPI_OCI_ATTR_SCHEMA_NAME (Some sch),
                  E_GetAttrString param a (Some nm),
                  E_AttrGetPtr param DPI_OCI_ATTR_REF_TDO (Some ref),
                  E_ObjectPin ref (Some pinned),
                  E_HandleAlloc (Some (nextDescribe s)),
                  E_DescribeAny (Some cn) (Some pinned) (nextDescribe s) True,
                  E_AttrGetPtr (nextDescribe s) DPI_OCI_ATTR_PARAM (Some top),
                  E_AttrGetU16 top DPI_OCI_ATTR_TYPECODE (Some (typeCode (objTypes s' h))),
                  E_AttrGetU16 top DPI_OCI_ATTR_NUM_TYPE_ATTRS (Some (numAttributes (objTypes s' h)))]
                  @ rest @ [E_HandleFree (nextDescribe s)]
               \<and> tdo (objTypes s' h) = Some pinned
               \<and> schema (objTypes s' h) = Some sch \<and> name (objTypes s' h) = Some nm
               \<and> (if typeCode (objTypes s' h) = DPI_SQLT_NCO ext then
                     isCollection (objTypes s' h)
                     \<and> (\<exists>cp sub. rest = [E_AttrGetPtr top DPI_OCI_ATTR_COLLECTION_ELEMENT (Some cp),
                            E_PopulateTypeInfo cp sub (Some (elementTypeInfo (objTypes s' h)))])
                   else isCollection (objTypes s' h) = isCollection (objTypes s h)
                     \<and> elementTypeInfo (objTypes s' h) = elementTypeInfo (objTypes s h) \<and> rest = []))))"
proof (cases "\<exists>sch nm ref pinned. o_getAttrString ext (clock s) param DPI_OCI_ATTR_SCHEMA_NAME = Some sch
      \<and> o_getAttrString ext (Suc (clock s)) param a = Some nm
      \<and> o_attrGetPtr ext (Suc (Suc (clock s))) param DPI_OCI_ATTR_REF_TDO = Some ref
      \<and> o_objectPin ext (Suc (Suc (Suc (clock s)))) ref = Some pinned
      \<and> o_handleAlloc ext (Suc (Suc (Suc (Suc (clock s)))))")
  case False
  with run c h show ?thesis
    by (auto simp: dpiObjectType__init_with_def oci_defs emit_def upd_objType_def
        grows_def balanced_def split: option.splits bool.splits if_splits)
next
  case True
  then obtain sch nm ref pinned where o:
    "o_getAttrString ext (clock s) param DPI_OCI_ATTR_SCHEMA_NAME = Some sch"
    "o_getAttrString ext (Suc (clock s)) param a = Some nm"
    "o_attrGetPtr ext (Suc (Suc (clock s))) param DPI_OCI_ATTR_REF_TDO = Some ref"
    "o_objectPin ext (Suc (Suc (Suc (clock s)))) ref = Some pinned"
    "o_handleAlloc ext (Suc (Suc (Suc (Suc (clock s)))))"
    by blast
  let ?dh = "nextDescribe s"
  define s5 where "s5 = s\<lparr>objTypes := (objTypes s)
      (h := (objTypes s h)\<lparr>schema := Some sch, schemaLength := length sch,
         name := Some nm, nameLength := length nm, tdo := Some pinned\<rparr>),
      liveDescribe := ?dh # liveDescribe s, nextDescribe := Suc ?dh,
      clock := Suc (Suc (Suc (Suc (Suc (clock s))))),
      events := events s @ [E_GetAttrString param DPI_OCI_ATTR_SCHEMA_NAME (Some sch),
        E_GetAttrString param a (Some nm),
        E_AttrGetPtr param DPI_OCI_ATTR_REF_TDO (Some ref),
        E_ObjectPin ref (Some pinned),
        E_HandleAlloc (Some ?dh)]\<rparr>"
  have eq: "dpiObjectType__init_with populate ext h param a s =
      (case dpiObjectType__describe_with populate ext h ?dh s5 of None \<Rightarrow> None
       | Some (False, s6) \<Rightarrow> Some (False, dpiOci__handleFree ?dh s6)
       | Some (True, s6) \<Rightarrow> Some (True, dpiOci__handleFree ?dh s6))"
    using o
    by (simp add: dpiObjectType__init_with_def oci_defs emit_def upd_objType_def s5_def)
  from run eq obtain s6 where d: "dpiObjectType__describe_with populate ext h ?dh s5 = Some (ok, s6)"
    and s': "s' = dpiOci__handleFree ?dh s6"
    by (auto split: option.splits bool.splits)
  have c5: "conn (objTypes s5 h) = Some cn" using c by (simp add: s5_def)
  have v5: "valid_conn s5 cn" using v by (simp add: valid_conn_def s5_def)
  have h5: "h < nextHandle s5" using h by (simp add: s5_def)
  note D = describe_with_spec [OF P d c5 v5 h5]
  from D obtain es where es: "events s6 = events s5 @ es" "allocated_handles es = []"
    "freed_handles es = []" "refcount_calls es = []" by blast
  have live: "liveDescribe s6 = ?dh # liveDescribe s" "doubleFree s6 = doubleFree s"
    using D by (simp_all add: balanced_def s5_def)
  have s'2: "s' = s6\<lparr>liveDescribe := liveDescribe s, clock := Suc (clock s6),
      events := events s6 @ [E_HandleFree ?dh]\<rparr>"
    using s' live by (simp add: dpiOci__handleFree_def emit_def)
  have g: "grows h cn s s'"
    using D s'2 by (auto simp: grows_def s5_def)
  have b: "balanced s s'" using s'2 live by (simp add: balanced_def)
  have r: "release_ok ext \<longrightarrow> \<not> ok \<longrightarrow> h_refCount s' cn = h_refCount s cn"
    using D s'2 by (simp add: s5_def)
  have k: "conn (objTypes s' h) = Some cn"
    "\<not> ok \<longrightarrow> elementTypeInfo (objTypes s' h) = elementTypeInfo (objTypes s h)"
    using D s'2 by (simp_all add: s5_def)
  have ev: "events s' = events s @ ([E_GetAttrString param DPI_OCI_ATTR_SCHEMA_NAME (Some sch),
        E_GetAttrString param a (Some nm),
        E_AttrGetPtr param DPI_OCI_ATTR_REF_TDO (Some ref),
        E_ObjectPin ref (Some pinned),
        E_HandleAlloc (Some ?dh)] @ es @ [E_HandleFree ?dh])"
    using s'2 es by (simp add: s5_def)
  have ok: "ok \<longrightarrow> (\<exists>top rest.
               [E_GetAttrString param DPI_OCI_ATTR_SCHEMA_NAME (Some sch),
                E_GetAttrString param a (Some nm),
                E_AttrGetPtr param DPI_OCI_ATTR_REF_TDO (Some ref),
                E_ObjectPin ref (Some pinned),
                E_HandleAlloc (Some ?dh)] @ es @ [E_HandleFree ?dh]
                = [E_GetAttrString param DPI_OCI_ATTR_SCHEMA_NAME (Some sch),
                  E_GetAttrString param a (Some nm),
                  E_AttrGetPtr param DPI_OCI_ATTR_REF_TDO (Some ref),
                  E_ObjectPin ref (Some pinned),
                  E_HandleAlloc (Some ?dh),
                  E_DescribeAny (Some cn) (Some pinned) ?dh True,
                  E_AttrGetPtr ?dh DPI_OCI_ATTR_PARAM (Some top),
                  E_AttrGetU16 top DPI_OCI_ATTR_TYPECODE (Some (typeCode (objTypes s' h))),
                  E_AttrGetU16 top DPI_OCI_ATTR_NUM_TYPE_ATTRS (Some (numAttributes (objTypes s' h)))]
                  @ rest @ [E_HandleFree ?dh]
               \<and> tdo (objTypes s' h) = Some pinned
               \<and> schema (objTypes s' h) = Some sch \<and> name (objTypes s' h) = Some nm
               \<and> (if typeCode (objTypes s' h) = DPI_SQLT_NCO ext then
                     isCollection (objTypes s' h)
                     \<and> (\<exists>cp sub. rest = [E_AttrGetPtr top DPI_OCI_ATTR_COLLECTION_ELEMENT (Some cp),
                            E_PopulateTypeInfo cp sub (Some (elementTypeInfo (objTypes s' h)))])
                   else isCollection (objTypes s' h) = isCollection (objTypes s h)
                     \<and> elementTypeInfo (objTypes s' h) = elementTypeInfo (objTypes s h) \<and> rest = []))"
  proof
    assume ok
    with D es(1) obtain top rest where tr:
      "es = [E_DescribeAny (Some cn) (tdo (objTypes s5 h)) ?dh True,
                  E_AttrGetPtr ?dh DPI_OCI_ATTR_PARAM (Some top),
                  E_AttrGetU16 top DPI_OCI_ATTR_TYPECODE (Some (typeCode (objTypes s6 h))),
                  E_AttrGetU16 top DPI_OCI_ATTR_NUM_TYPE_ATTRS (Some (numAttributes (objTypes s6 h)))] @ rest"
      "if typeCode (objTypes s6 h) = DPI_SQLT_NCO ext then
                     isCollection (objTypes s6 h)
                     \<and> (\<exists>cp sub. rest = [E_AttrGetPtr top DPI_OCI_ATTR_COLLECTION_ELEMENT (Some cp),
                            E_PopulateTypeInfo cp sub (Some (elementTypeInfo (objTypes s6 h)))])
                   else isCollection (objTypes s6 h) = isCollection (objTypes s5 h)
                     \<and> elementTypeInfo (objTypes s6 h) = elementTypeInfo (objTypes s5 h) \<and> rest = []"
      by auto
    have o6: "objTypes s' = objTypes s6" using s'2 by simp
    have f5: "tdo (objTypes s5 h) = Some pinned" "isCollection (objTypes s5 h) = isCollection (objTypes s h)"
      "elementTypeInfo (objTypes s5 h) = elementTypeInfo (objTypes s h)"
      "schema (objTypes s5 h) = Some sch" "name (objTypes s5 h) = Some nm"
      by (simp_all add: s5_def)
    from D have f6: "tdo (objTypes s6 h) = Some pinned" "schema (objTypes s6 h) = Some sch"
      "name (objTypes s6 h) = Some nm"
      using f5 by simp_all
    show "\<exists>top rest.
               [E_GetAttrString param DPI_OCI_ATTR_SCHEMA_NAME (Some sch),
                E_GetAttrString param a (Some nm),
                E_AttrGetPtr param DPI_OCI_ATTR_REF_TDO (Some ref),
                E_ObjectPin ref (Some pinned),
                E_HandleAlloc (Some ?dh)] @ es @ [E_HandleFree ?dh]
                = [E_GetAttrString param DPI_OCI_ATTR_SCHEMA_NAME (Some sch),
                  E_GetAttrString param a (Some nm),
                  E_AttrGetPtr param DPI_OCI_ATTR_REF_TDO (Some ref),
                  E_ObjectPin ref (Some pinned),
                  E_HandleAlloc (Some ?dh),
                  E_DescribeAny (Some cn) (Some pinned) ?dh True,
                  E_AttrGetPtr ?dh DPI_OCI_ATTR_PARAM (Some top),
                  E_AttrGetU16 top DPI_OCI_ATTR_TYPECODE (Some (typeCode (objTypes s' h))),
                  E_AttrGetU16 top DPI_OCI_ATTR_NUM_TYPE_ATTRS (Some (numAttributes (objTypes s' h)))]
                  @ rest @ [E_HandleFree ?dh]
               \<and> tdo (objTypes s' h) = Some pinned
               \<and> schema (objTypes s' h) = Some sch \<and> name (objTypes s' h) = Some nm
               \<and> (if typeCode (objTypes s' h) = DPI_SQLT_NCO ext then
                     isCollection (objTypes s' h)
                     \<and> (\<exists>cp sub. rest = [E_AttrGetPtr top DPI_OCI_ATTR_COLLECTION_ELEMENT (Some cp),
                            E_PopulateTypeInfo cp sub (Some (elementTypeInfo (objTypes s' h)))])
                   else isCollection (objTypes s' h) = isCollection (objTypes s h)
                     \<and> elementTypeInfo (objTypes s' h) = elementTypeInfo (objTypes s h) \<and> rest = [])"
      apply (rule exI [of _ top], rule exI [of _ rest])
      using tr f5 f6 o6 by simp
  qed
  have al: "freed_handles ([E_GetAttrString param DPI_OCI_ATTR_SCHEMA_NAME (Some sch),
        E_GetAttrString param a (Some nm),
        E_AttrGetPtr param DPI_OCI_ATTR_REF_TDO (Some ref),
        E_ObjectPin ref (Some pinned),
        E_HandleAlloc (Some ?dh)] @ es @ [E_HandleFree ?dh])
      = allocated_handles ([E_GetAttrString param DPI_OCI_ATTR_SCHEMA_NAME (Some sch),
        E_GetAttrString param a (Some nm),
        E_AttrGetPtr param DPI_OCI_ATTR_REF_TDO (Some ref),
        E_ObjectPin ref (Some pinned),
        E_HandleAlloc (Some ?dh)] @ es @ [E_HandleFree ?dh])"
     "length (allocated_handles ([E_GetAttrString param DPI_OCI_ATTR_SCHEMA_NAME (Some sch),
        E_GetAttrString param a (Some nm),
        E_AttrGetPtr param DPI_OCI_ATTR_REF_TDO (Some ref),
        E_ObjectPin ref (Some pinned),
        E_HandleAlloc (Some ?dh)] @ es @ [E_HandleFree ?dh])) \<le> 1"
     "refcount_calls ([E_GetAttrString param DPI_OCI_ATTR_SCHEMA_NAME (Some sch),
        E_GetAttrString param a (Some nm),
        E_AttrGetPtr param DPI_OCI_ATTR_REF_TDO (Some ref),
        E_ObjectPin ref (Some pinned),
        E_HandleAlloc (Some ?dh)] @ es @ [E_HandleFree ?dh]) = []"
    using es by simp_all
  from g b r k ev ok al show ?thesis by blast
qed


lemma free_fresh:
  assumes "conn (objTypes s x) = None" "objectType (elementTypeInfo (objTypes s x)) = None"
  shows "dpiObjectType__free ext n x s = Some (free_storage x (free_name x (free_schema x s)))"
  using assms by (simp add: dpiObjectType__free.simps)

lemma free_plain:
  assumes "conn (objTypes s x) = Some c" "objectType (elementTypeInfo (objTypes s x)) = None"
    "h_refCount s c \<noteq> 1"
  shows "\<exists>t. dpiObjectType__free ext n x s
        = Some (free_storage x (free_name x (free_schema x (clear_conn x t))))
     \<and> (if o_setRefCount ext (clock s) c (- 1) then t = adjust c (- 1) s
         else t = emit (E_SetRefCount c (- 1) False) s)"
proof (cases "o_setRefCount ext (clock s) c (- 1)")
  case True
  with free_leaf [OF assms(1,2) True assms(3)] show ?thesis by simp
next
  case False
  then have "dpiGen__setRefCount ext n c (- 1) s = Some (False, emit (E_SetRefCount c (- 1) False) s)"
    by (simp add: dpiGen__setRefCount.simps)
  moreover have "objectType (elementTypeInfo (objTypes
      (clear_conn x (emit (E_SetRefCount c (- 1) False) s)) x)) = None"
    using assms(2) by (simp add: clear_conn_def emit_def)
  ultimately show ?thesis using assms(1) False by (simp add: dpiObjectType__free.simps)
qed

lemma allocate_with_run:
  assumes P: "populate_spec ext populate"
    and run: "dpiObjectType__allocate_with populate ext n cn param a s = Some (ok, out, s')"
    and v: "valid_conn s cn"
  shows "grows (nextHandle s) cn s s' \<and> balanced s s'
    \<and> out = (if ok then Some (nextHandle s) else None)
    \<and> (release_ok ext \<longrightarrow> \<not> ok \<longrightarrow> h_refCount s' cn = h_refCount s cn)
    \<and> (\<exists>es. events s' = events s @ es \<and> freed_handles es = allocated_handles es
          \<and> length (allocated_handles es) \<le> 1)
    \<and> (release_ok ext \<longrightarrow> \<not> ok \<longrightarrow> refcount_calls (new_events s s') =
         (if \<not> o_allocate ext (clock s) DPI_HTYPE_OBJECT_TYPE then []
          else if \<not> o_setRefCount ext (Suc (clock s)) cn 1 then [(cn, 1, False)]
          else [(cn, 1, True), (cn, - 1, True)]))
    \<and> (o_allocate ext (clock s) DPI_HTYPE_OBJECT_TYPE \<longrightarrow>
         \<not> o_setRefCount ext (Suc (clock s)) cn 1 \<longrightarrow>
         new_events s s' = [E_Allocate DPI_HTYPE_OBJECT_TYPE (Some (nextHandle s)),
            E_SetRefCount cn 1 False, E_Free (nextHandle s)])
    \<and> (ok \<longrightarrow> (\<exists>es s2. dpiObjectType__init_with populate ext (nextHandle s) param a s2 = Some (True, s')
           \<and> events s2 = events s @ [E_Allocate DPI_HTYPE_OBJECT_TYPE (Some (nextHandle s)),
              E_SetRefCount cn 1 True]
           \<and> objTypes s2 (nextHandle s) = zeroObjectType\<lparr>conn := Some cn\<rparr>
           \<and> nextDescribe s2 = nextDescribe s
           \<and> valid_conn s2 cn \<and> nextHandle s2 = Suc (nextHandle s)))"
proof (cases "o_allocate ext (clock s) DPI_HTYPE_OBJECT_TYPE")
  case False
  with run show ?thesis
    by (auto simp: dpiObjectType__allocate_with_def dpiGen__allocate_def emit_def grows_def balanced_def
        new_events_def)
next
  case True
  let ?h = "nextHandle s"
  have ne: "cn \<noteq> ?h" and pos: "0 < h_refCount s cn" using v by (auto simp: valid_conn_def)
  define s1 where "s1 = emit (E_Allocate DPI_HTYPE_OBJECT_TYPE (Some ?h))
            (zero_payload DPI_HTYPE_OBJECT_TYPE ?h
              (s\<lparr>h_tag := (h_tag s)(?h := Some DPI_HTYPE_OBJECT_TYPE),
                 h_refCount := (h_refCount s)(?h := 1),
                 h_env := (h_env s)(?h := h_env s cn),
                 nextHandle := Suc ?h\<rparr>))"
  have al: "dpiGen__allocate ext DPI_HTYPE_OBJECT_TYPE (h_env s cn) s = (Some ?h, s1)"
    using True by (simp add: dpiGen__allocate_def s1_def Let_def)
  have f1: "grows ?h cn s s1" "balanced s s1" "h_refCount s1 cn = h_refCount s cn"
    "objTypes s1 ?h = zeroObjectType" "nextHandle s1 = Suc ?h" "clock s1 = Suc (clock s)"
    "events s1 = events s @ [E_Allocate DPI_HTYPE_OBJECT_TYPE (Some ?h)]"
    "nextDescribe s1 = nextDescribe s"
    using ne by (simp_all add: s1_def emit_def zero_payload_def grows_def balanced_def)
  show ?thesis
  proof (cases "o_setRefCount ext (Suc (clock s)) cn 1")
    case False
    then have sr: "dpiGen__setRefCount ext n cn 1 s1 = Some (False, emit (E_SetRefCount cn 1 False) s1)"
      using f1(6) by (simp add: dpiGen__setRefCount.simps)
    let ?s2 = "emit (E_SetRefCount cn 1 False) s1"
    have z: "conn (objTypes ?s2 ?h) = None" "objectType (elementTypeInfo (objTypes ?s2 ?h)) = None"
      using f1(4) by (simp_all add: emit_def zeroObjectType_def zeroDataTypeInfo_def)
    from run al sr free_fresh [OF z, of ext n]
    have r: "ok = False" "out = None" "s' = free_storage ?h (free_name ?h (free_schema ?h ?s2))"
      by (simp_all add: dpiObjectType__allocate_with_def)
    have z2: "schema (objTypes ?s2 ?h) = None" "name (objTypes ?s2 ?h) = None"
      using f1(4) by (simp_all add: emit_def zeroObjectType_def)
    from r(3) z2 have s': "s' = free_storage ?h ?s2"
      by (simp add: free_name_def free_schema_def)
    from f1 s' r(1,2) False True show ?thesis
      by (auto simp: grows_def balanced_def free_storage_def emit_def new_events_def)
  next
    case inc: True
    have sr: "dpiGen__setRefCount ext n cn 1 s1 = Some (True, adjust cn 1 s1)"
      using inc f1(3,6) pos by (intro setRefCount_keep) simp_all
    define s2 where "s2 = upd_objType ?h (\<lambda>t. t\<lparr>conn := Some cn\<rparr>) (adjust cn 1 s1)"
    have f2: "grows ?h cn s s2" "balanced s s2" "h_refCount s2 cn = h_refCount s cn + 1"
      "objTypes s2 ?h = zeroObjectType\<lparr>conn := Some cn\<rparr>" "nextHandle s2 = Suc ?h"
      "events s2 = events s @ [E_Allocate DPI_HTYPE_OBJECT_TYPE (Some ?h), E_SetRefCount cn 1 True]"
      "nextDescribe s2 = nextDescribe s"
      using f1 by (simp_all add: s2_def upd_objType_def adjust_def emit_def grows_def balanced_def)
    have v2: "valid_conn s2 cn" using v f2 by (simp add: valid_conn_def)
    have c2: "conn (objTypes s2 ?h) = Some cn" using f2(4) by simp
    have h2: "?h < nextHandle s2" using f2(5) by simp
    from run al sr obtain ok' s3 where
      ini: "dpiObjectType__init_with populate ext ?h param a s2 = Some (ok', s3)"
      and res: "Some (ok, out, s') = (if ok' then Some (True, Some ?h, s3)
          else map_option (\<lambda>s4. (False, None, s4)) (dpiObjectType__free ext n ?h s3))"
      by (auto simp: dpiObjectType__allocate_with_def s2_def split: option.splits bool.splits)
    note I0 = init_with_spec [OF P ini c2 v2 h2]
    have I: "grows ?h cn s2 s3" "balanced s2 s3" "conn (objTypes s3 ?h) = Some cn"
      "\<not> ok' \<longrightarrow> elementTypeInfo (objTypes s3 ?h) = elementTypeInfo (objTypes s2 ?h)"
      "release_ok ext \<longrightarrow> \<not> ok' \<longrightarrow> h_refCount s3 cn = h_refCount s2 cn"
      "\<exists>es. events s3 = events s2 @ es \<and> refcount_calls es = []"
      "\<exists>es. events s3 = events s2 @ es \<and> freed_handles es = allocated_handles es
          \<and> length (allocated_handles es) \<le> 1"
      using I0 by blast+
    from I(7) obtain ei where ei: "events s3 = events s2 @ ei" "freed_handles ei = allocated_handles ei"
      "length (allocated_handles ei) \<le> 1" by blast
    have ev3: "events s3 = events s @ ([E_Allocate DPI_HTYPE_OBJECT_TYPE (Some ?h), E_SetRefCount cn 1 True] @ ei)"
      using ei(1) f2(6) by simp
    have g3: "grows ?h cn s s3" using f2(1) I(1) grows_trans [of ?h cn s s2 ?h s3] by simp
    have b3: "balanced s s3" using f2(2) I(2) balanced_trans by blast
    show ?thesis
    proof (cases ok')
      case True
      with res have "ok" "out = Some ?h" "s' = s3" by simp_all
      moreover have "\<exists>es. events s3 = events s @ es \<and> freed_handles es = allocated_handles es
          \<and> length (allocated_handles es) \<le> 1"
        using ev3 ei(2,3) by (intro exI [of _ "[E_Allocate DPI_HTYPE_OBJECT_TYPE (Some ?h), E_SetRefCount cn 1 True] @ ei"]) simp
      ultimately show ?thesis using g3 b3 ini True f2 v2 inc by auto
    next
      case False
      have e3: "objectType (elementTypeInfo (objTypes s3 ?h)) = None"
        using I(4) False f2(4) by (simp add: zeroObjectType_def zeroDataTypeInfo_def)
      have c3: "conn (objTypes s3 ?h) = Some cn" using I(3) by simp
      have n3: "h_refCount s3 cn \<noteq> 1" using I(1) f2(3) pos by (auto simp: grows_def)
      from free_plain [OF c3 e3 n3, of ext n] obtain t where
        fr: "dpiObjectType__free ext n ?h s3
            = Some (free_storage ?h (free_name ?h (free_schema ?h (clear_conn ?h t))))"
        and t: "if o_setRefCount ext (clock s3) cn (- 1) then t = adjust cn (- 1) s3
           else t = emit (E_SetRefCount cn (- 1) False) s3"
        by blast
      from res False fr have r: "ok = False" "out = None"
        "s' = free_storage ?h (free_name ?h (free_schema ?h (clear_conn ?h t)))" by simp_all
      have "h_refCount s2 cn \<le> h_refCount s3 cn" using I(1) by (simp add: grows_def)
      then have cnt: "h_refCount s cn \<le> h_refCount t cn" using f2(3) t
        by (auto simp: adjust_def emit_def split: if_splits)
      have gt: "grows ?h cn s t"
        using g3 t cnt by (auto simp: grows_def adjust_def emit_def split: if_splits)
      have bt: "balanced s3 t"
        using t by (auto simp: balanced_def adjust_def emit_def split: if_splits)
      have gs': "grows ?h cn t s'" "balanced t s'"
        using r(3)
        by (auto simp: grows_def balanced_def free_storage_def free_name_def free_schema_def
            clear_conn_def emit_def split: option.splits)
      have rel: "release_ok ext \<longrightarrow> h_refCount s' cn = h_refCount s cn"
      proof
        assume ro: "release_ok ext"
        then have "t = adjust cn (- 1) s3" using t by (simp add: release_ok_def)
        moreover have "h_refCount s3 cn = h_refCount s2 cn" using I(5) ro False by simp
        moreover have "h_refCount s' cn = h_refCount t cn"
          using r(3) by (simp add: free_storage_def free_name_def free_schema_def
            clear_conn_def emit_def split: option.splits)
        ultimately show "h_refCount s' cn = h_refCount s cn"
          using f2(3) by (simp add: adjust_def emit_def)
      qed
      have rc: "release_ok ext \<longrightarrow> refcount_calls (new_events s s') = [(cn, 1, True), (cn, - 1, True)]"
      proof
        assume ro: "release_ok ext"
        then have tt: "events t = events s3 @ [E_SetRefCount cn (- 1) True]"
          using t by (simp add: release_ok_def adjust_def emit_def)
        from I(6) obtain es where es: "events s3 = events s2 @ es" "refcount_calls es = []" by blast
        have "\<exists>fs. events s' = events t @ fs \<and> refcount_calls fs = []"
          using r(3) by (auto simp: free_storage_def free_name_def free_schema_def
            clear_conn_def emit_def split: option.splits)
        then obtain fs where fs: "events s' = events t @ fs" "refcount_calls fs = []" by blast
        have "new_events s s' = [E_Allocate DPI_HTYPE_OBJECT_TYPE (Some ?h), E_SetRefCount cn 1 True]
            @ es @ [E_SetRefCount cn (- 1) True] @ fs"
          using fs(1) tt es(1) f2(6) by (simp add: new_events_def)
        then show "refcount_calls (new_events s s') = [(cn, 1, True), (cn, - 1, True)]"
          using es(2) fs(2) by simp
      qed
      have "\<exists>e. events t = events s3 @ [E_SetRefCount cn (- 1) e]"
        using t by (auto simp: adjust_def emit_def split: if_splits)
      then obtain e where te: "events t = events s3 @ [E_SetRefCount cn (- 1) e]" by blast
      have "\<exists>fs. events s' = events t @ fs \<and> freed_handles fs = [] \<and> allocated_handles fs = []"
        using r(3) by (auto simp: free_storage_def free_name_def free_schema_def
            clear_conn_def emit_def split: option.splits)
      then obtain fs where fs: "events s' = events t @ fs" "freed_handles fs = []"
        "allocated_handles fs = []" by blast
      have evs: "\<exists>es. events s' = events s @ es \<and> freed_handles es = allocated_handles es
          \<and> length (allocated_handles es) \<le> 1"
        using ev3 ei(2,3) te fs
        by (intro exI [of _ "[E_Allocate DPI_HTYPE_OBJECT_TYPE (Some ?h), E_SetRefCount cn 1 True]
            @ ei @ [E_SetRefCount cn (- 1) e] @ fs"]) simp
      have "grows ?h cn s s'"
        using gt gs'(1) grows_trans [of ?h cn s t ?h s'] by simp
      moreover have "balanced s s'" using b3 bt gs'(2) balanced_trans by blast
      ultimately show ?thesis using r rel rc evs inc True by simp
    qed
  qed
qed


lemma allocate_with_spec:
  assumes "populate_spec ext populate"
  shows "allocate_spec ext (dpiObjectType__allocate_with populate ext n)"
  unfolding allocate_spec_def
  using allocate_with_run [OF assms] by blast

lemma populate_spec_fuel: "populate_spec ext (dpiOracleType__populateTypeInfo ext n)"
proof (induction n)
  case 0
  have "allocate_spec ext (\<lambda>cn p a s. None)" by (simp add: allocate_spec_def)
  then show ?case by (simp add: populate_with_spec)
next
  case (Suc n)
  then show ?case by (simp add: populate_with_spec allocate_with_spec)
qed

text \<open>
  Claim C10. Whenever \<^verbatim>\<open>dpiObjectType__allocate\<close> fails for a connection in use, the value
  left in \<^verbatim>\<open>*objType\<close> is NULL and the reference count of the connection is what it was
  before the call. The reference-count adjustments of the call itself are: none when the
  registry allocation failed; the one failed increment and no decrement when the
  increment failed; the increment and exactly one decrement, made while the partially
  built descriptor is freed, when the initialization failed. Releasing a reference is
  assumed not to fail.
\<close>

theorem allocate_failure_restores:
  assumes "valid_conn s cn" and "release_ok ext"
    and "dpiObjectType__allocate ext n cn param a s = Some (False, out, s')"
  shows "out = None \<and> h_refCount s' cn = h_refCount s cn
    \<and> refcount_calls (new_events s s') =
         (if \<not> o_allocate ext (clock s) DPI_HTYPE_OBJECT_TYPE then []
          else if \<not> o_setRefCount ext (Suc (clock s)) cn 1 then [(cn, 1, False)]
          else [(cn, 1, True), (cn, - 1, True)])"
  using allocate_with_run [OF populate_spec_fuel assms(3) [unfolded dpiObjectType__allocate_def] assms(1)]
    assms(2)
  by simp

lemma loop_describe:
  "getAttributes_loop ext t l i arr s = (b, arr', s') \<Longrightarrow>
   balanced s s' \<and> (\<exists>es. events s' = events s @ es \<and> allocated_handles es = [] \<and> freed_handles es = [])"
proof (induction ext t l i arr s arbitrary: b arr' s' rule: getAttributes_loop.induct)
  case (1 ext t l i arr s)
  show ?case
  proof (cases "i < unat (numAttributes (objTypes s t))")
    case False
    with "1.prems" show ?thesis by (simp add: loop_done balanced_def)
  next
    case lt: True
    obtain r1 s1 where p: "dpiOci__paramGet ext l (i + 1) s = (r1, s1)" by fastforce
    have f1: "balanced s s1" "events s1 = events s @ [E_ParamGet l (i + 1) r1]"
      using p by (auto simp: dpiOci__paramGet_def emit_def balanced_def)
    show ?thesis
    proof (cases r1)
      case None
      with "1.prems" lt p have "s' = s1"
        by (subst (asm) getAttributes_loop.simps) simp
      with f1 show ?thesis by simp
    next
      case (Some attrParam)
      obtain r2 s2 where q: "dpiObjectAttr__allocate ext t attrParam s1 = (r2, s2)" by fastforce
      have f2: "balanced s1 s2"
        "\<exists>es. events s2 = events s1 @ es \<and> allocated_handles es = [] \<and> freed_handles es = []"
        using q by (auto simp: dpiObjectAttr__allocate_def dpiGen__allocate_def zero_payload_def
            free_storage_def emit_def balanced_def Let_def split: if_splits)
      show ?thesis
      proof (cases r2)
        case (Inl e2)
        with "1.prems" lt p q Some have "s' = s2"
          by (subst (asm) getAttributes_loop.simps) simp
        with f1 f2 show ?thesis by (auto simp: balanced_def)
      next
        case (Inr a2)
        with "1.prems" lt p q \<open>r1 = Some attrParam\<close>
        have rec: "getAttributes_loop ext t l (i + 1) (arr(i := Some a2)) s2 = (b, arr', s')"
          by (subst (asm) getAttributes_loop.simps) simp
        from "1.IH" [OF lt p [symmetric] \<open>r1 = Some attrParam\<close> q [symmetric] Inr rec]
        have "balanced s2 s'"
          "\<exists>es. events s' = events s2 @ es \<and> allocated_handles es = [] \<and> freed_handles es = []"
          by blast+
        with f1 f2 show ?thesis by (auto simp: balanced_def)
      qed
    qed
  qed
qed



lemma quiet_trans:
  assumes "extends_quietly s t" "extends_quietly t u"
  shows "extends_quietly s u"
proof -
  from assms obtain es fs where "events t = events s @ es" "events u = events t @ fs"
    "allocated_handles es = []" "freed_handles es = []"
    "allocated_handles fs = []" "freed_handles fs = []"
    by (auto simp: extends_quietly_def)
  then have "events u = events s @ (es @ fs) \<and> allocated_handles (es @ fs) = []
      \<and> freed_handles (es @ fs) = []" by simp
  then show ?thesis using assms unfolding extends_quietly_def by metis
qed

lemma handleFree_closes:
  assumes "liveDescribe t1 = dh # live" "events t1 = ev @ [E_HandleAlloc (Some dh)]"
    "extends_quietly t1 u"
  shows "liveDescribe (dpiOci__handleFree dh u) = live
    \<and> doubleFree (dpiOci__handleFree dh u) = doubleFree t1
    \<and> (\<exists>fs. events (dpiOci__handleFree dh u) = ev @ fs \<and> freed_handles fs = allocated_handles fs
          \<and> length (allocated_handles fs) \<le> 1)"
proof -
  from assms(3) obtain es where es: "events u = events t1 @ es" "allocated_handles es = []"
    "freed_handles es = []" and l: "liveDescribe u = liveDescribe t1" "doubleFree u = doubleFree t1"
    by (auto simp: extends_quietly_def)
  have "events (dpiOci__handleFree dh u) = ev @ (E_HandleAlloc (Some dh) # es @ [E_HandleFree dh])"
    using es(1) assms(2) by (simp add: dpiOci__handleFree_def emit_def)
  moreover have "freed_handles (E_HandleAlloc (Some dh) # es @ [E_HandleFree dh])
      = allocated_handles (E_HandleAlloc (Some dh) # es @ [E_HandleFree dh])"
    "length (allocated_handles (E_HandleAlloc (Some dh) # es @ [E_HandleFree dh])) \<le> 1"
    using es(2,3) by simp_all
  moreover have "liveDescribe (dpiOci__handleFree dh u) = live"
    "doubleFree (dpiOci__handleFree dh u) = doubleFree t1"
    using l assms(1) by (simp_all add: dpiOci__handleFree_def emit_def)
  ultimately show ?thesis by blast
qed

lemma getAttributes_describe:
  "balanced t (snd (snd (dpiObjectType_getAttributes ext objType numAttrs attributes t)))
    \<and> (\<exists>es. events (snd (snd (dpiObjectType_getAttributes ext objType numAttrs attributes t)))
          = events t @ es \<and> freed_handles es = allocated_handles es
          \<and> length (allocated_handles es) \<le> 1)"
proof -
  let ?r = "dpiObjectType_getAttributes ext objType numAttrs attributes t"
  let ?dh = "nextDescribe t"
  show ?thesis
  proof (cases "dpiGen__startPublicFn objType DPI_HTYPE_OBJECT_TYPE t \<and> attributes \<noteq> None
      \<and> \<not> numAttrs < numAttributes (objTypes t objType) \<and> numAttrs \<noteq> 0")
    case False
    then consider "\<not> dpiGen__startPublicFn objType DPI_HTYPE_OBJECT_TYPE t"
      | "dpiGen__startPublicFn objType DPI_HTYPE_OBJECT_TYPE t" "attributes = None"
      | arr where "dpiGen__startPublicFn objType DPI_HTYPE_OBJECT_TYPE t" "attributes = Some arr"
          "numAttrs < numAttributes (objTypes t objType)"
      | arr where "dpiGen__startPublicFn objType DPI_HTYPE_OBJECT_TYPE t" "attributes = Some arr"
          "\<not> numAttrs < numAttributes (objTypes t objType)" "numAttrs = 0"
      by (cases attributes) auto
    then have "snd (snd ?r) = t"
      by cases (simp_all add: dpiObjectType_getAttributes_def)
    then show ?thesis by (simp add: balanced_def)
  next
    case True
    then obtain arr where o: "dpiGen__startPublicFn objType DPI_HTYPE_OBJECT_TYPE t"
      "attributes = Some arr" "\<not> numAttrs < numAttributes (objTypes t objType)" "numAttrs \<noteq> 0"
      by auto
    show ?thesis
    proof (cases "o_handleAlloc ext (clock t)")
      case False
      with o have "snd (snd ?r) = emit (E_HandleAlloc None) t"
        by (simp add: dpiObjectType_getAttributes_def dpiOci__handleAlloc_def)
      then show ?thesis by (simp add: balanced_def emit_def)
    next
      case ha: True
      define t1 where "t1 = emit (E_HandleAlloc (Some ?dh))
           (t\<lparr>liveDescribe := ?dh # liveDescribe t, nextDescribe := Suc ?dh\<rparr>)"
      have a1: "dpiOci__handleAlloc ext t = (Some ?dh, t1)"
        using ha by (simp add: dpiOci__handleAlloc_def t1_def)
      obtain b2 t2 where a2: "dpiOci__describeAny ext (conn (objTypes t1 objType))
          (tdo (objTypes t1 objType)) ?dh t1 = (b2, t2)" by fastforce
      obtain r3 t3 where a3: "attrGetPtr ext ?dh DPI_OCI_ATTR_PARAM t2 = (r3, t3)" by fastforce
      obtain r4 t4 where a4: "attrGetPtr ext (the r3) DPI_OCI_ATTR_LIST_TYPE_ATTRS t3 = (r4, t4)"
        by fastforce
      obtain b5 arr5 t5 where a5: "getAttributes_loop ext objType (the r4) 0 arr t4 = (b5, arr5, t5)"
        by (metis prod_cases3)
      have e1: "liveDescribe t1 = ?dh # liveDescribe t" "doubleFree t1 = doubleFree t"
        "events t1 = events t @ [E_HandleAlloc (Some ?dh)]"
        by (simp_all add: t1_def emit_def)
      have q2: "extends_quietly t1 t2"
        using a2 by (auto simp: dpiOci__describeAny_def emit_def extends_quietly_def)
      have "extends_quietly t2 t3"
        using a3 by (auto simp: attrGetPtr_def emit_def extends_quietly_def)
      with q2 have q3: "extends_quietly t1 t3" by (rule quiet_trans)
      have "extends_quietly t3 t4"
        using a4 by (auto simp: attrGetPtr_def emit_def extends_quietly_def)
      with q3 have q4: "extends_quietly t1 t4" by (rule quiet_trans)
      from loop_describe [OF a5] have "extends_quietly t4 t5"
        by (simp add: balanced_def extends_quietly_def)
      with q4 have q5: "extends_quietly t1 t5" by (rule quiet_trans)
      have "\<exists>u. snd (snd ?r) = dpiOci__handleFree ?dh u \<and> extends_quietly t1 u"
      proof (cases b2)
        case False
        with o a1 a2 have "snd (snd ?r) = dpiOci__handleFree ?dh t2"
          by (simp add: dpiObjectType_getAttributes_def)
        with q2 show ?thesis by blast
      next
        case b2: True
        show ?thesis
        proof (cases r3)
          case None
          with o a1 a2 a3 b2 have "snd (snd ?r) = dpiOci__handleFree ?dh t3"
            by (simp add: dpiObjectType_getAttributes_def)
          with q3 show ?thesis by blast
        next
          case r3: (Some top)
          show ?thesis
          proof (cases r4)
            case None
            with o a1 a2 a3 a4 b2 r3 have "snd (snd ?r) = dpiOci__handleFree ?dh t4"
              by (simp add: dpiObjectType_getAttributes_def)
            with q4 show ?thesis by blast
          next
            case r4: (Some lst)
            with o a1 a2 a3 a4 a5 b2 r3 have "snd (snd ?r) = dpiOci__handleFree ?dh t5"
              by (simp add: dpiObjectType_getAttributes_def split: option.splits)
            with q5 show ?thesis by blast
          qed
        qed
      qed
      then obtain u where u: "snd (snd ?r) = dpiOci__handleFree ?dh u" "extends_quietly t1 u"
        by blast
      from handleFree_closes [OF e1(1,3) u(2)] u(1) e1(2) show ?thesis
        by (simp add: balanced_def)
    qed
  qed
qed

text \<open>
  Claim C2. After \<^verbatim>\<open>dpiObjectType__allocate\<close> (which runs \<^verbatim>\<open>dpiObjectType__init\<close> and
  \<^verbatim>\<open>dpiObjectType__describe\<close>, also for the element types of collections) and after
  \<^verbatim>\<open>dpiObjectType_getAttributes\<close>, on every path and under every schedule of failures of
  the external service, the live describe handles are those that were live before and
  no release of a handle that was not live has happened; in the trace of the call itself
  the describe handles released are those allocated, at most one.
\<close>

theorem describe_handles_released:
  assumes "valid_conn s cn"
    and "dpiObjectType__allocate ext n cn param a s = Some (ok, out, s')"
  shows "balanced s s' \<and> freed_handles (new_events s s') = allocated_handles (new_events s s')
    \<and> length (allocated_handles (new_events s s')) \<le> 1
    \<and> balanced t (snd (snd (dpiObjectType_getAttributes ext objType numAttrs attributes t)))
    \<and> freed_handles (new_events t (snd (snd (dpiObjectType_getAttributes ext objType numAttrs attributes t))))
        = allocated_handles (new_events t (snd (snd (dpiObjectType_getAttributes ext objType numAttrs attributes t))))
    \<and> length (allocated_handles
          (new_events t (snd (snd (dpiObjectType_getAttributes ext objType numAttrs attributes t))))) \<le> 1"
proof -
  note A = allocate_with_run [OF populate_spec_fuel assms(2) [unfolded dpiObjectType__allocate_def] assms(1)]
  note A_ev = A [THEN conjunct2, THEN conjunct2, THEN conjunct2, THEN conjunct2, THEN conjunct1]
  from A_ev obtain es where es: "events s' = events s @ es" "freed_handles es = allocated_handles es"
    "length (allocated_handles es) \<le> 1" by blast
  then have ne: "new_events s s' = es" by (simp add: new_events_def)
  note bal = A [THEN conjunct2, THEN conjunct1]
  let ?r = "dpiObjectType_getAttributes ext objType numAttrs attributes t"
  from getAttributes_describe [of t ext objType numAttrs attributes]
  obtain gs where gs: "events (snd (snd ?r)) = events t @ gs" "freed_handles gs = allocated_handles gs"
    "length (allocated_handles gs) \<le> 1" and bg: "balanced t (snd (snd ?r))" by blast
  then have ng: "new_events t (snd (snd ?r)) = gs" by (simp add: new_events_def)
  from bal bg es(2,3) ne gs(2,3) ng show ?thesis by simp
qed


lemma allocate_success_shape:
  assumes "valid_conn s cn"
    and "dpiObjectType__allocate ext n cn param a s = Some (True, out, s')"
  shows "out = Some (nextHandle s) \<and> (\<exists>sch nm ref pinned top rest.
       new_events s s' = [E_Allocate DPI_HTYPE_OBJECT_TYPE (Some (nextHandle s)),
          E_SetRefCount cn 1 True,
          E_GetAttrString param DPI_OCI_ATTR_SCHEMA_NAME (Some sch),
          E_GetAttrString param a (Some nm),
          E_AttrGetPtr param DPI_OCI_ATTR_REF_TDO (Some ref),
          E_ObjectPin ref (Some pinned),
          E_HandleAlloc (Some (nextDescribe s)),
          E_DescribeAny (Some cn) (Some pinned) (nextDescribe s) True,
          E_AttrGetPtr (nextDescribe s) DPI_OCI_ATTR_PARAM (Some top),
          E_AttrGetU16 top DPI_OCI_ATTR_TYPECODE (Some (typeCode (objTypes s' (nextHandle s)))),
          E_AttrGetU16 top DPI_OCI_ATTR_NUM_TYPE_ATTRS (Some (numAttributes (objTypes s' (nextHandle s))))]
          @ rest @ [E_HandleFree (nextDescribe s)]
       \<and> tdo (objTypes s' (nextHandle s)) = Some pinned
       \<and> schema (objTypes s' (nextHandle s)) = Some sch \<and> name (objTypes s' (nextHandle s)) = Some nm
       \<and> (if typeCode (objTypes s' (nextHandle s)) = DPI_SQLT_NCO ext then
             isCollection (objTypes s' (nextHandle s))
             \<and> (\<exists>cp sub. rest = [E_AttrGetPtr top DPI_OCI_ATTR_COLLECTION_ELEMENT (Some cp),
                    E_PopulateTypeInfo cp sub (Some (elementTypeInfo (objTypes s' (nextHandle s))))])
           else \<not> isCollection (objTypes s' (nextHandle s))
             \<and> elementTypeInfo (objTypes s' (nextHandle s)) = zeroDataTypeInfo \<and> rest = []))"
proof -
  let ?h = "nextHandle s"
  note P = populate_spec_fuel [of ext n]
  note A = allocate_with_run [OF P assms(2) [unfolded dpiObjectType__allocate_def] assms(1)]
  note A_out = A [THEN conjunct2, THEN conjunct2, THEN conjunct1]
  note A_ok = A [THEN conjunct2, THEN conjunct2, THEN conjunct2, THEN conjunct2, THEN conjunct2,
    THEN conjunct2, THEN conjunct2]
  from A_ok obtain s2 where
    ini: "dpiObjectType__init_with (dpiOracleType__populateTypeInfo ext n) ext ?h param a s2 = Some (True, s')"
    and e2: "events s2 = events s @ [E_Allocate DPI_HTYPE_OBJECT_TYPE (Some ?h), E_SetRefCount cn 1 True]"
    and o2: "objTypes s2 ?h = zeroObjectType\<lparr>conn := Some cn\<rparr>"
    and d2: "nextDescribe s2 = nextDescribe s"
    and v2: "valid_conn s2 cn" and n2: "nextHandle s2 = Suc ?h"
    by auto
  have c2: "conn (objTypes s2 ?h) = Some cn" using o2 by simp
  have h2: "?h < nextHandle s2" using n2 by simp
  note I0 = init_with_spec [OF P ini c2 v2 h2]
  note I_ev = I0 [THEN conjunct2, THEN conjunct2, THEN conjunct2, THEN conjunct2, THEN conjunct2]
  from I_ev obtain es where es: "events s' = events s2 @ es"
    and sh: "\<exists>sch nm ref pinned top rest.
               es = [E_GetAttrString param DPI_OCI_ATTR_SCHEMA_NAME (Some sch),
                  E_GetAttrString param a (Some nm),
                  E_AttrGetPtr param DPI_OCI_ATTR_REF_TDO (Some ref),
                  E_ObjectPin ref (Some pinned),
                  E_HandleAlloc (Some (nextDescribe s2)),
                  E_DescribeAny (Some cn) (Some pinned) (nextDescribe s2) True,
                  E_AttrGetPtr (nextDescribe s2) DPI_OCI_ATTR_PARAM (Some top),
                  E_AttrGetU16 top DPI_OCI_ATTR_TYPECODE (Some (typeCode (objTypes s' ?h))),
                  E_AttrGetU16 top DPI_OCI_ATTR_NUM_TYPE_ATTRS (Some (numAttributes (objTypes s' ?h)))]
                  @ rest @ [E_HandleFree (nextDescribe s2)]
               \<and> tdo (objTypes s' ?h) = Some pinned
               \<and> schema (objTypes s' ?h) = Some sch \<and> name (objTypes s' ?h) = Some nm
               \<and> (if typeCode (objTypes s' ?h) = DPI_SQLT_NCO ext then
                     isCollection (objTypes s' ?h)
                     \<and> (\<exists>cp sub. rest = [E_AttrGetPtr top DPI_OCI_ATTR_COLLECTION_ELEMENT (Some cp),
                            E_PopulateTypeInfo cp sub (Some (elementTypeInfo (objTypes s' ?h)))])
                   else isCollection (objTypes s' ?h) = isCollection (objTypes s2 ?h)
                     \<and> elementTypeInfo (objTypes s' ?h) = elementTypeInfo (objTypes s2 ?h) \<and> rest = [])"
    by auto
  from sh obtain sch nm ref pinned top rest where
    es2: "es = [E_GetAttrString param DPI_OCI_ATTR_SCHEMA_NAME (Some sch),
                  E_GetAttrString param a (Some nm),
                  E_AttrGetPtr param DPI_OCI_ATTR_REF_TDO (Some ref),
                  E_ObjectPin ref (Some pinned),
                  E_HandleAlloc (Some (nextDescribe s2)),
                  E_DescribeAny (Some cn) (Some pinned) (nextDescribe s2) True,
                  E_AttrGetPtr (nextDescribe s2) DPI_OCI_ATTR_PARAM (Some top),
                  E_AttrGetU16 top DPI_OCI_ATTR_TYPECODE (Some (typeCode (objTypes s' ?h))),
                  E_AttrGetU16 top DPI_OCI_ATTR_NUM_TYPE_ATTRS (Some (numAttributes (objTypes s' ?h)))]
                  @ rest @ [E_HandleFree (nextDescribe s2)]"
    and fl: "tdo (objTypes s' ?h) = Some pinned" "schema (objTypes s' ?h) = Some sch"
      "name (objTypes s' ?h) = Some nm"
    and cl: "if typeCode (objTypes s' ?h) = DPI_SQLT_NCO ext then
                     isCollection (objTypes s' ?h)
                     \<and> (\<exists>cp sub. rest = [E_AttrGetPtr top DPI_OCI_ATTR_COLLECTION_ELEMENT (Some cp),
                            E_PopulateTypeInfo cp sub (Some (elementTypeInfo (objTypes s' ?h)))])
                   else isCollection (objTypes s' ?h) = isCollection (objTypes s2 ?h)
                     \<and> elementTypeInfo (objTypes s' ?h) = elementTypeInfo (objTypes s2 ?h) \<and> rest = []"
    by blast
  have z: "isCollection (objTypes s2 ?h) = False" "elementTypeInfo (objTypes s2 ?h) = zeroDataTypeInfo"
    using o2 by (simp_all add: zeroObjectType_def)
  have ne: "new_events s s' = [E_Allocate DPI_HTYPE_OBJECT_TYPE (Some ?h), E_SetRefCount cn 1 True] @ es"
    using es e2 by (simp add: new_events_def)
  have cl2: "if typeCode (objTypes s' ?h) = DPI_SQLT_NCO ext then
             isCollection (objTypes s' ?h)
             \<and> (\<exists>cp sub. rest = [E_AttrGetPtr top DPI_OCI_ATTR_COLLECTION_ELEMENT (Some cp),
                    E_PopulateTypeInfo cp sub (Some (elementTypeInfo (objTypes s' ?h)))])
           else \<not> isCollection (objTypes s' ?h)
             \<and> elementTypeInfo (objTypes s' ?h) = zeroDataTypeInfo \<and> rest = []"
    using cl z by (simp split: if_splits)
  have o: "out = Some ?h" using A_out by simp
  have "new_events s s' = [E_Allocate DPI_HTYPE_OBJECT_TYPE (Some (nextHandle s)),
          E_SetRefCount cn 1 True,
          E_GetAttrString param DPI_OCI_ATTR_SCHEMA_NAME (Some sch),
          E_GetAttrString param a (Some nm),
          E_AttrGetPtr param DPI_OCI_ATTR_REF_TDO (Some ref),
          E_ObjectPin ref (Some pinned),
          E_HandleAlloc (Some (nextDescribe s)),
          E_DescribeAny (Some cn) (Some pinned) (nextDescribe s) True,
          E_AttrGetPtr (nextDescribe s) DPI_OCI_ATTR_PARAM (Some top),
          E_AttrGetU16 top DPI_OCI_ATTR_TYPECODE (Some (typeCode (objTypes s' (nextHandle s)))),
          E_AttrGetU16 top DPI_OCI_ATTR_NUM_TYPE_ATTRS (Some (numAttributes (objTypes s' (nextHandle s))))]
          @ rest @ [E_HandleFree (nextDescribe s)]"
    using ne es2 d2 by simp
  with o fl cl2 show ?thesis by blast
qed

text \<open>
  Claim C7. After a successful describe, the descriptor is a collection exactly when the
  type code read from the service is that of a collection. Then its element type
  information is what \<^verbatim>\<open>dpiOracleType__populateTypeInfo\<close> yielded for the collection-element
  sub-parameter read from the service; otherwise it is still the zeroed structure of the
  allocation.
\<close>

theorem describe_collection_fields:
  assumes "valid_conn s cn"
    and "dpiObjectType__allocate ext n cn param a s = Some (True, Some h, s')"
  shows "isCollection (objTypes s' h) = (typeCode (objTypes s' h) = DPI_SQLT_NCO ext)
    \<and> (\<exists>top. E_AttrGetU16 top DPI_OCI_ATTR_TYPECODE (Some (typeCode (objTypes s' h)))
           \<in> set (new_events s s'))
    \<and> (if typeCode (objTypes s' h) = DPI_SQLT_NCO ext then
          \<exists>top cp sub. E_AttrGetPtr top DPI_OCI_ATTR_COLLECTION_ELEMENT (Some cp) \<in> set (new_events s s')
             \<and> E_PopulateTypeInfo cp sub (Some (elementTypeInfo (objTypes s' h))) \<in> set (new_events s s')
        else elementTypeInfo (objTypes s' h) = zeroDataTypeInfo)"
proof -
  note S = allocate_success_shape [OF assms]
  from S have h: "h = nextHandle s" by simp
  from S [THEN conjunct2] obtain sch nm ref pinned top rest where
    ne: "new_events s s' = [E_Allocate DPI_HTYPE_OBJECT_TYPE (Some (nextHandle s)),
          E_SetRefCount cn 1 True,
          E_GetAttrString param DPI_OCI_ATTR_SCHEMA_NAME (Some sch),
          E_GetAttrString param a (Some nm),
          E_AttrGetPtr param DPI_OCI_ATTR_REF_TDO (Some ref),
          E_ObjectPin ref (Some pinned),
          E_HandleAlloc (Some (nextDescribe s)),
          E_DescribeAny (Some cn) (Some pinned) (nextDescribe s) True,
          E_AttrGetPtr (nextDescribe s) DPI_OCI_ATTR_PARAM (Some top),
          E_AttrGetU16 top DPI_OCI_ATTR_TYPECODE (Some (typeCode (objTypes s' (nextHandle s)))),
          E_AttrGetU16 top DPI_OCI_ATTR_NUM_TYPE_ATTRS (Some (numAttributes (objTypes s' (nextHandle s))))]
          @ rest @ [E_HandleFree (nextDescribe s)]"
    and cl: "if typeCode (objTypes s' (nextHandle s)) = DPI_SQLT_NCO ext then
             isCollection (objTypes s' (nextHandle s))
             \<and> (\<exists>cp sub. rest = [E_AttrGetPtr top DPI_OCI_ATTR_COLLECTION_ELEMENT (Some cp),
                    E_PopulateTypeInfo cp sub (Some (elementTypeInfo (objTypes s' (nextHandle s))))])
           else \<not> isCollection (objTypes s' (nextHandle s))
             \<and> elementTypeInfo (objTypes s' (nextHandle s)) = zeroDataTypeInfo \<and> rest = []"
    by blast
  have t: "E_AttrGetU16 top DPI_OCI_ATTR_TYPECODE (Some (typeCode (objTypes s' h))) \<in> set (new_events s s')"
    unfolding ne h by simp
  show ?thesis
  proof (cases "typeCode (objTypes s' h) = DPI_SQLT_NCO ext")
    case True
    with cl h obtain cp sub where r: "isCollection (objTypes s' h)"
      "rest = [E_AttrGetPtr top DPI_OCI_ATTR_COLLECTION_ELEMENT (Some cp),
          E_PopulateTypeInfo cp sub (Some (elementTypeInfo (objTypes s' h)))]"
      by auto
    have "E_AttrGetPtr top DPI_OCI_ATTR_COLLECTION_ELEMENT (Some cp) \<in> set (new_events s s')"
      "E_PopulateTypeInfo cp sub (Some (elementTypeInfo (objTypes s' h))) \<in> set (new_events s s')"
      unfolding ne r(2) by simp_all
    with True r(1) t show ?thesis by auto
  next
    case False
    with cl h have "\<not> isCollection (objTypes s' h)" "elementTypeInfo (objTypes s' h) = zeroDataTypeInfo"
      by simp_all
    with False t show ?thesis by auto
  qed
qed

text \<open>
  Claim C9. On every successful run, \<^verbatim>\<open>dpiObjectType__allocate\<close> reads the schema, the name
  and the reference of the type definition, pins the definition, then allocates a
  describe handle (the next one of the service), describes the pinned definition through
  this handle, and only then reads the top-level parameter of that describe, and from it
  the type code and the number of attributes, which are the ones stored in the
  descriptor; the handle is released at the end.
\<close>

theorem describe_after_pin:
  assumes "valid_conn s cn"
    and "dpiObjectType__allocate ext n cn param a s = Some (True, Some h, s')"
  shows "\<exists>sch nm ref pinned top rest.
       new_events s s' = [E_Allocate DPI_HTYPE_OBJECT_TYPE (Some h),
          E_SetRefCount cn 1 True,
          E_GetAttrString param DPI_OCI_ATTR_SCHEMA_NAME (Some sch),
          E_GetAttrString param a (Some nm),
          E_AttrGetPtr param DPI_OCI_ATTR_REF_TDO (Some ref),
          E_ObjectPin ref (Some pinned),
          E_HandleAlloc (Some (nextDescribe s)),
          E_DescribeAny (Some cn) (Some pinned) (nextDescribe s) True,
          E_AttrGetPtr (nextDescribe s) DPI_OCI_ATTR_PARAM (Some top),
          E_AttrGetU16 top DPI_OCI_ATTR_TYPECODE (Some (typeCode (objTypes s' h))),
          E_AttrGetU16 top DPI_OCI_ATTR_NUM_TYPE_ATTRS (Some (numAttributes (objTypes s' h)))]
          @ rest @ [E_HandleFree (nextDescribe s)]
       \<and> tdo (objTypes s' h) = Some pinned"
proof -
  note S = allocate_success_shape [OF assms]
  from S have h: "h = nextHandle s" by simp
  from S [THEN conjunct2] show ?thesis unfolding h by blast
qed


lemmas run_defs = dpiObjectType__allocate_def dpiObjectType__allocate_with_def
  dpiObjectType__init_with_def dpiObjectType__describe_with_def dpiGen__allocate_def
  populate_with_def upd_objType_def tick_def dpiGen__setRefCount.simps dpiObjectType__free.simps

lemma run_person_type:
  "\<exists>s'. dpiObjectType__allocate ext_ok 0 0 50 (NameAttribute 8) s_conn = Some (True, Some 1, s')
     \<and> typeCode (objTypes s' 1) = 108 \<and> numAttributes (objTypes s' 1) = 3
     \<and> \<not> isCollection (objTypes s' 1) \<and> conn (objTypes s' 1) = Some 0 \<and> h_refCount s' 0 = 2
     \<and> events s' = [E_Allocate DPI_HTYPE_OBJECT_TYPE (Some 1),
          E_SetRefCount 0 1 True,
          E_GetAttrString 50 DPI_OCI_ATTR_SCHEMA_NAME (Some ''SCHEMA''),
          E_GetAttrString 50 (NameAttribute 8) (Some ''PERSON_T''),
          E_AttrGetPtr 50 DPI_OCI_ATTR_REF_TDO (Some 60),
          E_ObjectPin 60 (Some 61),
          E_HandleAlloc (Some 0),
          E_DescribeAny (Some 0) (Some 61) 0 True,
          E_AttrGetPtr 0 DPI_OCI_ATTR_PARAM (Some 10),
          E_AttrGetU16 10 DPI_OCI_ATTR_TYPECODE (Some 108),
          E_AttrGetU16 10 DPI_OCI_ATTR_NUM_TYPE_ATTRS (Some 3),
          E_HandleFree 0]"
  by (simp add: run_defs oci_defs st_defs ex_defs)

lemma run_list_type:
  "\<exists>s'. dpiObjectType__allocate ext_coll 0 0 50 (NameAttribute 8) s_conn = Some (True, Some 1, s')
     \<and> typeCode (objTypes s' 1) = 122 \<and> numAttributes (objTypes s' 1) = 0
     \<and> isCollection (objTypes s' 1)
     \<and> elementTypeInfo (objTypes s' 1) = \<lparr>oracleTypeNum = 2, objectType = None\<rparr>"
  by (simp add: run_defs oci_defs st_defs ex_defs)

lemma run_no_schema:
  "\<exists>s'. dpiObjectType__allocate ext_no_schema 0 0 50 (NameAttribute 8) s_conn = Some (False, None, s')
     \<and> h_tag s' 1 = None"
  by (simp add: run_defs oci_defs st_defs ex_defs)

theorem allocate_failure_restores_witness:
  "valid_conn s_conn 0 \<and> release_ok ext_no_schema
   \<and> (\<exists>s'. dpiObjectType__allocate ext_no_schema 0 0 50 (NameAttribute 8) s_conn = Some (False, None, s')
        \<and> h_refCount s' 0 = 1
        \<and> refcount_calls (new_events s_conn s') = [(0, 1, True), (0, - 1, True)])"
proof -
  have h: "valid_conn s_conn 0" "release_ok ext_no_schema"
    by (simp_all add: valid_conn_def release_ok_def ex_defs)
  from run_no_schema obtain s' where
    r: "dpiObjectType__allocate ext_no_schema 0 0 50 (NameAttribute 8) s_conn = Some (False, None, s')"
    by blast
  from allocate_failure_restores [OF h r]
  have "h_refCount s' 0 = 1 \<and> refcount_calls (new_events s_conn s') = [(0, 1, True), (0, - 1, True)]"
    by (simp add: ex_defs)
  with h r show ?thesis by blast
qed

theorem describe_handles_released_witness:
  "valid_conn s_conn 0
   \<and> (\<exists>s'. dpiObjectType__allocate ext_ok 0 0 50 (NameAttribute 8) s_conn = Some (True, Some 1, s')
        \<and> balanced s_conn s'
        \<and> freed_handles (new_events s_conn s') = allocated_handles (new_events s_conn s'))
   \<and> balanced (s_type 3)
        (snd (snd (dpiObjectType_getAttributes ext_ok 1 3 (Some no_attributes) (s_type 3))))"
proof -
  have h: "valid_conn s_conn 0" by (simp add: valid_conn_def ex_defs)
  from run_person_type obtain s' where
    r: "dpiObjectType__allocate ext_ok 0 0 50 (NameAttribute 8) s_conn = Some (True, Some 1, s')"
    by blast
  from describe_handles_released [OF h r, of "s_type 3" 1 3 "Some no_attributes"] h r
  show ?thesis by blast
qed

theorem describe_collection_fields_witness:
  "valid_conn s_conn 0
   \<and> (\<exists>s'. dpiObjectType__allocate ext_coll 0 0 50 (NameAttribute 8) s_conn = Some (True, Some 1, s')
        \<and> isCollection (objTypes s' 1)
        \<and> elementTypeInfo (objTypes s' 1) = \<lparr>oracleTypeNum = 2, objectType = None\<rparr>
        \<and> (\<exists>top cp sub. E_AttrGetPtr top DPI_OCI_ATTR_COLLECTION_ELEMENT (Some cp)
               \<in> set (new_events s_conn s')
             \<and> E_PopulateTypeInfo cp sub (Some \<lparr>oracleTypeNum = 2, objectType = None\<rparr>)
               \<in> set (new_events s_conn s')))
   \<and> (\<exists>s'. dpiObjectType__allocate ext_ok 0 0 50 (NameAttribute 8) s_conn = Some (True, Some 1, s')
        \<and> \<not> isCollection (objTypes s' 1) \<and> elementTypeInfo (objTypes s' 1) = zeroDataTypeInfo)"
proof -
  have h: "valid_conn s_conn 0" by (simp add: valid_conn_def ex_defs)
  from run_list_type obtain s1 where
    r1: "dpiObjectType__allocate ext_coll 0 0 50 (NameAttribute 8) s_conn = Some (True, Some 1, s1)"
    and f1: "typeCode (objTypes s1 1) = 122"
      "elementTypeInfo (objTypes s1 1) = \<lparr>oracleTypeNum = 2, objectType = None\<rparr>"
    by blast
  from run_person_type obtain s2 where
    r2: "dpiObjectType__allocate ext_ok 0 0 50 (NameAttribute 8) s_conn = Some (True, Some 1, s2)"
    and f2: "typeCode (objTypes s2 1) = 108"
    by blast
  have n: "DPI_SQLT_NCO ext_coll = 122" "DPI_SQLT_NCO ext_ok = 122" by (simp_all add: ex_defs)
  from describe_collection_fields [OF h r1] f1 n
  have c1: "isCollection (objTypes s1 1)
        \<and> (\<exists>top cp sub. E_AttrGetPtr top DPI_OCI_ATTR_COLLECTION_ELEMENT (Some cp)
               \<in> set (new_events s_conn s1)
             \<and> E_PopulateTypeInfo cp sub (Some \<lparr>oracleTypeNum = 2, objectType = None\<rparr>)
               \<in> set (new_events s_conn s1))"
    by simp
  from describe_collection_fields [OF h r2] f2 n
  have c2: "\<not> isCollection (objTypes s2 1) \<and> elementTypeInfo (objTypes s2 1) = zeroDataTypeInfo"
    by simp
  from h r1 f1(2) c1 r2 c2 show ?thesis by blast
qed

theorem describe_after_pin_witness:
  "valid_conn s_conn 0
   \<and> (\<exists>s' rest. dpiObjectType__allocate ext_ok 0 0 50 (NameAttribute 8) s_conn = Some (True, Some 1, s')
        \<and> new_events s_conn s' = [E_Allocate DPI_HTYPE_OBJECT_TYPE (Some 1),
          E_SetRefCount 0 1 True,
          E_GetAttrString 50 DPI_OCI_ATTR_SCHEMA_NAME (Some ''SCHEMA''),
          E_GetAttrString 50 (NameAttribute 8) (Some ''PERSON_T''),
          E_AttrGetPtr 50 DPI_OCI_ATTR_REF_TDO (Some 60),
          E_ObjectPin 60 (Some 61),
          E_HandleAlloc (Some 0),
          E_DescribeAny (Some 0) (Some 61) 0 True,
          E_AttrGetPtr 0 DPI_OCI_ATTR_PARAM (Some 10),
          E_AttrGetU16 10 DPI_OCI_ATTR_TYPECODE (Some 108),
          E_AttrGetU16 10 DPI_OCI_ATTR_NUM_TYPE_ATTRS (Some 3)] @ rest @ [E_HandleFree 0]
        \<and> tdo (objTypes s' 1) = Some 61)"
proof -
  have h: "valid_conn s_conn 0" by (simp add: valid_conn_def ex_defs)
  from run_person_type obtain s' where
    r: "dpiObjectType__allocate ext_ok 0 0 50 (NameAttribute 8) s_conn = Some (True, Some 1, s')"
    and ev: "events s' = [E_Allocate DPI_HTYPE_OBJECT_TYPE (Some 1),
          E_SetRefCount 0 1 True,
          E_GetAttrString 50 DPI_OCI_ATTR_SCHEMA_NAME (Some ''SCHEMA''),
          E_GetAttrString 50 (NameAttribute 8) (Some ''PERSON_T''),
          E_AttrGetPtr 50 DPI_OCI_ATTR_REF_TDO (Some 60),
          E_ObjectPin 60 (Some 61),
          E_HandleAlloc (Some 0),
          E_DescribeAny (Some 0) (Some 61) 0 True,
          E_AttrGetPtr 0 DPI_OCI_ATTR_PARAM (Some 10),
          E_AttrGetU16 10 DPI_OCI_ATTR_TYPECODE (Some 108),
          E_AttrGetU16 10 DPI_OCI_ATTR_NUM_TYPE_ATTRS (Some 3),
          E_HandleFree 0]"
    by blast
  have ne: "new_events s_conn s' = events s'" by (simp add: new_events_def ex_defs)
  from describe_after_pin [OF h r] obtain sch nm ref pinned top rest where
    sh: "new_events s_conn s' = [E_Allocate DPI_HTYPE_OBJECT_TYPE (Some 1),
          E_SetRefCount 0 1 True,
          E_GetAttrString 50 DPI_OCI_ATTR_SCHEMA_NAME (Some sch),
          E_GetAttrString 50 (NameAttribute 8) (Some nm),
          E_AttrGetPtr 50 DPI_OCI_ATTR_REF_TDO (Some ref),
          E_ObjectPin ref (Some pinned),
          E_HandleAlloc (Some (nextDescribe s_conn)),
          E_DescribeAny (Some 0) (Some pinned) (nextDescribe s_conn) True,
          E_AttrGetPtr (nextDescribe s_conn) DPI_OCI_ATTR_PARAM (Some top),
          E_AttrGetU16 top DPI_OCI_ATTR_TYPECODE (Some (typeCode (objTypes s' 1))),
          E_AttrGetU16 top DPI_OCI_ATTR_NUM_TYPE_ATTRS (Some (numAttributes (objTypes s' 1)))]
          @ rest @ [E_HandleFree (nextDescribe s_conn)]"
    and td: "tdo (objTypes s' 1) = Some pinned"
    by blast
  from sh ne ev have "pinned = 61 \<and> rest = []" by simp
  with td ne ev have "new_events s_conn s' = [E_Allocate DPI_HTYPE_OBJECT_TYPE (Some 1),
          E_SetRefCount 0 1 True,
          E_GetAttrString 50 DPI_OCI_ATTR_SCHEMA_NAME (Some ''SCHEMA''),
          E_GetAttrString 50 (NameAttribute 8) (Some ''PERSON_T''),
          E_AttrGetPtr 50 DPI_OCI_ATTR_REF_TDO (Some 60),
          E_ObjectPin 60 (Some 61),
          E_HandleAlloc (Some 0),
          E_DescribeAny (Some 0) (Some 61) 0 True,
          E_AttrGetPtr 0 DPI_OCI_ATTR_PARAM (Some 10),
          E_AttrGetU16 10 DPI_OCI_ATTR_TYPECODE (Some 108),
          E_AttrGetU16 10 DPI_OCI_ATTR_NUM_TYPE_ATTRS (Some 3)] @ [] @ [E_HandleFree 0]
        \<and> tdo (objTypes s' 1) = Some 61"
    by simp
  with h r show ?thesis by blast
qed

end
